theory Spec2Isabelle
  imports Complex_Main "HOL-Library.AList" "HOL-Library.Char_ord"
begin

section \<open>Values and numbers\<close>

text \<open>
  The pipeline (\<^verbatim>\<open>src/lib/server/derive.ts\<close> and the four modules under
  \<^verbatim>\<open>src/lib/server/derive/\<close>) passes plain JavaScript values around. A value is
  modelled by the datatype \<open>json\<close>; an object is the list of its own enumerable
  properties in insertion order, and \<open>JUndef\<close> is \<^verbatim>\<open>undefined\<close>.
  A finite number is modelled by the real number that the double denotes. In the
  modules for the level, the FRI, the control pattern and the role fit the arithmetic
  is that of IEEE doubles: every operation rounds its exact result to the nearest
  double (\<open>dbl\<close>, below), and \<^verbatim>\<open>NaN\<close> and the infinities are values (\<open>jsnum\<close>) where
  the source guards against them. In the other modules the arithmetic is read over the
  reals and the guards against non-finite numbers are always passed; they are written as
  comments where they occur. A number inside a \<open>json\<close> value is finite. Properties
  inherited from \<^verbatim>\<open>Object.prototype\<close> are modelled where an object is used as a
  lookup table (\<open>JOB_INDEX\<close>), and not otherwise.
\<close>

datatype json =
    JUndef
  | JNull
  | JBool bool
  | JNum real
  | JStr string
  | JArr "json list"
  | JObj "(string \<times> json) list"

text \<open>\<^verbatim>\<open>v && typeof v === "object" && !Array.isArray(v)\<close>\<close>

fun isPlainObject :: "json \<Rightarrow> bool" where
  "isPlainObject (JObj _) = True"
| "isPlainObject _ = False"

fun props :: "json \<Rightarrow> (string \<times> json) list" where
  "props (JObj kvs) = kvs"
| "props _ = []"

text \<open>\<^verbatim>\<open>target[k]\<close> on the property list of an object.\<close>

definition getProp :: "(string \<times> json) list \<Rightarrow> string \<Rightarrow> json" where
  "getProp kvs k = (case map_of kvs k of None \<Rightarrow> JUndef | Some v \<Rightarrow> v)"

text \<open>\<^verbatim>\<open>Math.round\<close>: the nearest integer, halves rounded up.\<close>

definition js_round :: "real \<Rightarrow> real" where
  "js_round x = of_int \<lfloor>x + 1 / 2\<rfloor>"

section \<open>IEEE doubles\<close>

text \<open>
  \<open>rne y\<close> is the integer nearest to \<open>y\<close>, the even one of the two when \<open>y\<close> lies
  halfway. A double has 53 significant bits and an exponent of at least \<open>-1022\<close>, so
  the doubles around \<open>x\<close> are the multiples of \<open>ulp x\<close>, and \<open>dbl x\<close> is the double nearest
  to \<open>x\<close>: the value of the decimal literal \<open>x\<close>, and the result of an operation whose
  exact result is \<open>x\<close>. A result of magnitude \<open>2\<^sup>1\<^sup>0\<^sup>2\<^sup>4\<close> or more stands for an
  infinity (\<open>number_of\<close>).
\<close>

definition rne :: "real \<Rightarrow> int" where
  "rne y =
     (let f = \<lfloor>y\<rfloor>; r = y - of_int f
      in if r < 1 / 2 then f else if r > 1 / 2 then f + 1 else if even f then f else f + 1)"

definition expo :: "real \<Rightarrow> int" where
  "expo x = max \<lfloor>log 2 \<bar>x\<bar>\<rfloor> (- 1022)"

definition ulp :: "real \<Rightarrow> real" where
  "ulp x = 2 powr of_int (expo x - 52)"

definition dbl :: "real \<Rightarrow> real" where
  "dbl x = (if x = 0 then 0 else of_int (rne (x / ulp x)) * ulp x)"

text \<open>\<^verbatim>\<open>x + y\<close>, \<^verbatim>\<open>x - y\<close>, \<^verbatim>\<open>x * y\<close>, \<^verbatim>\<open>x / y\<close> and \<^verbatim>\<open>Math.sqrt(x)\<close> on doubles.\<close>

definition fadd :: "real \<Rightarrow> real \<Rightarrow> real" where
  "fadd x y = dbl (x + y)"

definition fsub :: "real \<Rightarrow> real \<Rightarrow> real" where
  "fsub x y = dbl (x - y)"

definition fmul :: "real \<Rightarrow> real \<Rightarrow> real" where
  "fmul x y = dbl (x * y)"

definition fdiv :: "real \<Rightarrow> real \<Rightarrow> real" where
  "fdiv x y = dbl (x / y)"

definition fsqrt :: "real \<Rightarrow> real" where
  "fsqrt x = dbl (sqrt x)"

text \<open>A number of the source: a finite double, an infinity or \<^verbatim>\<open>NaN\<close>.\<close>

datatype jsnum = Fin real | PInf | NInf | NaN

definition number_of :: "real \<Rightarrow> jsnum" where
  "number_of r = (if r \<ge> 2 ^ 1024 then PInf else if r \<le> - (2 ^ 1024) then NInf else Fin r)"

text \<open>\<^verbatim>\<open>a < b\<close>: false when either side is \<^verbatim>\<open>NaN\<close>.\<close>

fun js_less :: "jsnum \<Rightarrow> jsnum \<Rightarrow> bool" where
  "js_less (Fin a) (Fin b) = (a < b)"
| "js_less (Fin a) PInf = True"
| "js_less NInf (Fin b) = True"
| "js_less NInf PInf = True"
| "js_less _ _ = False"

text \<open>\<^verbatim>\<open>a >= b\<close>\<close>

fun js_ge :: "jsnum \<Rightarrow> jsnum \<Rightarrow> bool" where
  "js_ge (Fin a) (Fin b) = (a \<ge> b)"
| "js_ge PInf (Fin b) = True"
| "js_ge (Fin a) NInf = True"
| "js_ge PInf NInf = True"
| "js_ge PInf PInf = True"
| "js_ge NInf NInf = True"
| "js_ge _ _ = False"

text \<open>\<^verbatim>\<open>a + b\<close>\<close>

fun js_add :: "jsnum \<Rightarrow> jsnum \<Rightarrow> jsnum" where
  "js_add (Fin a) (Fin b) = number_of (fadd a b)"
| "js_add NaN _ = NaN"
| "js_add _ NaN = NaN"
| "js_add PInf NInf = NaN"
| "js_add NInf PInf = NaN"
| "js_add PInf _ = PInf"
| "js_add _ PInf = PInf"
| "js_add NInf _ = NInf"
| "js_add _ NInf = NInf"

text \<open>\<^verbatim>\<open>Number.isFinite(x)\<close>\<close>

fun isFinite_num :: "jsnum \<Rightarrow> bool" where
  "isFinite_num (Fin _) = True"
| "isFinite_num _ = False"

text \<open>
  A bound on the error of one rounding of a value of magnitude up to 1024 (half a unit
  in the last place is below \<open>2\<^sup>-\<^sup>4\<^sup>3\<close> there), in which the error bounds below are
  stated.
\<close>

definition eps :: real where
  "eps = 1 / 10 ^ 12"

section \<open>The orchestrator's deep merge (derive.ts)\<close>

text \<open>
  \<^verbatim>\<open>deepMergeInto(target, src)\<close> mutates \<open>target\<close>; the model returns the new
  property list of \<open>target\<close>. The second argument is the property list of \<open>src\<close>, which
  the loop \<^verbatim>\<open>for (const k of Object.keys(src))\<close> walks in order. Assigning
  \<^verbatim>\<open>target[k] = sv\<close> keeps the position of an existing key and appends a new one,
  which is \<open>AList.update\<close>.
\<close>

function deepMergeInto ::
  "(string \<times> json) list \<Rightarrow> (string \<times> json) list \<Rightarrow> (string \<times> json) list" where
  "deepMergeInto target [] = target"
| "deepMergeInto target ((k, sv) # rest) =
     deepMergeInto
       (if isPlainObject (getProp target k) \<and> isPlainObject sv
        then AList.update k (JObj (deepMergeInto (props (getProp target k)) (props sv))) target
        else AList.update k sv target)
       rest"
  by pat_completeness auto
termination
  apply (relation "measure (\<lambda>(t, s). size_list (size_prod (\<lambda>_. 0) size) s)")
    apply simp
  subgoal for target k sv rest
    by (cases sv) auto
  apply simp
  done

section \<open>RSL level (rsl.ts, Backend\_1\_RSL\_Level)\<close>

datatype RSLLevelCode = L1 | L2 | L3 | L4 | L5 | L6

record RSLLevelMeta =
  level_short_name :: string
  level_full_name :: string
  level_description :: string

record RSLLevelInput =
  coherence_rubric_0to5 :: jsnum
  structure_rubric_0to5 :: jsnum
  evaluation_rubric_0to5 :: jsnum
  integration_rubric_0to5 :: jsnum
  evidence_count :: "jsnum option"
  evidence_link_rate_0to1 :: "jsnum option"
  has_counterpoint :: "bool option"
  has_refutation :: "bool option"

record RSLLevelFlags =
  strict_mode :: bool
  evidence_required_for_L4plus :: bool
  allow_L6 :: bool

record RSLLevelPolicy =
  gate_L2_min :: jsnum
  gate_L3_min :: jsnum
  gate_L4_min :: jsnum
  gate_L5_min :: jsnum
  gate_L6_min :: jsnum
  min_evidence_count_for_L4plus :: jsnum
  min_evidence_link_rate_for_L4plus :: jsnum
  strict_gate_bonus :: jsnum
  l6_integration_min :: jsnum

record RSLLevelGates =
  gate_L2 :: bool
  gate_L3 :: bool
  gate_L4 :: bool
  gate_L5 :: bool
  gate_L6 :: bool

record RSLLevelResult =
  level :: RSLLevelCode
  meta :: RSLLevelMeta
  rubric_min :: real
  rubric_mean_0to5 :: real
  evidence_ok :: bool
  gates :: RSLLevelGates

fun LEVEL_METADATA :: "RSLLevelCode \<Rightarrow> RSLLevelMeta" where
  "LEVEL_METADATA L1 = \<lparr>
     level_short_name = ''L1 Fragmented'',
     level_full_name = ''L1 Fragmented Reasoning'',
     level_description =
       ''Unstable reasoning with weak structure and low coherence across claims.''\<rparr>"
| "LEVEL_METADATA L2 = \<lparr>
     level_short_name = ''L2 Linear'',
     level_full_name = ''Linear Reasoning'',
     level_description =
       ''Basic sequential reasoning with limited structural branching or evaluation.''\<rparr>"
| "LEVEL_METADATA L3 = \<lparr>
     level_short_name = ''L3 Structured'',
     level_full_name = ''L3 Structured Reasoning'',
     level_description =
       ''Organized reasoning components with partial coordination across dimensions.''\<rparr>"
| "LEVEL_METADATA L4 = \<lparr>
     level_short_name = ''L4 Coordinated'',
     level_full_name = ''L4 Coordinated Reasoning'',
     level_description =
       ''Multiple reasoning dimensions are coordinated with evidence support and evaluation.''\<rparr>"
| "LEVEL_METADATA L5 = \<lparr>
     level_short_name = ''L5 Integrated'',
     level_full_name = ''L5 Integrated Reasoning'',
     level_description =
       ''Reasoning dimensions integrate into a stable, non-dominant structure with balanced evaluation.''\<rparr>"
| "LEVEL_METADATA L6 = \<lparr>
     level_short_name = ''L6 Expert'',
     level_full_name = ''L6 Expert Reasoning'',
     level_description =
       ''Consistently expert-level reasoning with high integration, evaluation depth, and structural control.''\<rparr>"

text \<open>
  \<^verbatim>\<open>if (!Number.isFinite(x)) return 0;\<close> and then \<^verbatim>\<open>Math.round\<close>, which is exact on a
  double, clipped to \<open>0..5\<close>.
\<close>

fun clampInt0to5 :: "jsnum \<Rightarrow> real" where
  "clampInt0to5 (Fin x) = (let r = js_round x in if r < 0 then 0 else if r > 5 then 5 else r)"
| "clampInt0to5 _ = 0"

text \<open>
  \<^verbatim>\<open>clamp01(x: number | undefined)\<close> of the level module: a missing or non-finite value
  counts as 0.
\<close>

fun clamp01_evidence :: "jsnum option \<Rightarrow> real" where
  "clamp01_evidence (Some (Fin v)) = (if v < 0 then 0 else if v > 1 then 1 else v)"
| "clamp01_evidence _ = 0"

text \<open>
  \<^verbatim>\<open>clamp01\<close> on a real that may be missing, as the modules read over the reals use
  it.
\<close>

definition clamp01_level :: "real option \<Rightarrow> real" where
  "clamp01_level x =
     (let v = (case x of Some n \<Rightarrow> n | None \<Rightarrow> 0)
      in if v < 0 then 0 else if v > 1 then 1 else v)"

text \<open>\<^verbatim>\<open>bool(x)\<close> is \<^verbatim>\<open>x === true\<close>.\<close>

definition bool_level :: "bool option \<Rightarrow> bool" where
  "bool_level x = (x = Some True)"

definition evidenceOK :: "RSLLevelInput \<Rightarrow> RSLLevelPolicy \<Rightarrow> RSLLevelFlags \<Rightarrow> bool" where
  "evidenceOK inp policy flags =
     (if \<not> evidence_required_for_L4plus flags then True
      else
        let evCount = (case evidence_count inp of Some n \<Rightarrow> n | None \<Rightarrow> Fin 0);
            evLink = clamp01_evidence (evidence_link_rate_0to1 inp)
        in if js_less evCount (min_evidence_count_for_L4plus policy) then False
           else if js_less (Fin evLink) (min_evidence_link_rate_for_L4plus policy) then False
           else True)"

text \<open>
  \<open>b + add\<close> is an addition of doubles; \<^verbatim>\<open>NaN\<close> passes both comparisons and is
  returned.
\<close>

definition adjustedGate :: "jsnum \<Rightarrow> RSLLevelFlags \<Rightarrow> RSLLevelPolicy \<Rightarrow> jsnum" where
  "adjustedGate base flags policy =
     (let b = clampInt0to5 base;
          add = (if strict_mode flags then strict_gate_bonus policy else Fin 0);
          out = js_add (Fin b) add
      in if js_less out (Fin 0) then Fin 0 else if js_less (Fin 5) out then Fin 5 else out)"

text \<open>
  The four clamped rubric values are integers from 0 to 5, so their minimum, sum and
  mean are exact.
\<close>

definition computeRSLLevel ::
  "RSLLevelInput \<Rightarrow> RSLLevelFlags \<Rightarrow> RSLLevelPolicy \<Rightarrow> RSLLevelResult" where
  "computeRSLLevel inp flags policy =
     (let coherence = clampInt0to5 (coherence_rubric_0to5 inp);
          structure = clampInt0to5 (structure_rubric_0to5 inp);
          evaluation = clampInt0to5 (evaluation_rubric_0to5 inp);
          integration = clampInt0to5 (integration_rubric_0to5 inp);
          rubricMin = min (min (min coherence structure) evaluation) integration;
          rubricMean = (coherence + structure + evaluation + integration) / 4;
          g2 = adjustedGate (gate_L2_min policy) flags policy;
          g3 = adjustedGate (gate_L3_min policy) flags policy;
          g4 = adjustedGate (gate_L4_min policy) flags policy;
          g5 = adjustedGate (gate_L5_min policy) flags policy;
          g6 = adjustedGate (gate_L6_min policy) flags policy;
          evOK = evidenceOK inp policy flags;
          hasCounter = bool_level (has_counterpoint inp);
          hasRefute = bool_level (has_refutation inp);
          passL2 = js_ge (Fin rubricMin) g2;
          passL3 = js_ge (Fin rubricMin) g3;
          passL4 = (js_ge (Fin rubricMin) g4 \<and> evOK);
          passL5Base = (js_ge (Fin rubricMin) g5 \<and> evOK);
          passL5 = (if strict_mode flags then passL5Base \<and> (hasCounter \<or> hasRefute)
                    else passL5Base);
          passL6 = (allow_L6 flags \<and> passL5 \<and> js_ge (Fin rubricMin) g6
                    \<and> js_ge (Fin integration) (l6_integration_min policy));
          lv1 = L1;
          lv2 = (if passL2 then L2 else lv1);
          lv3 = (if passL3 then L3 else lv2);
          lv4 = (if passL4 then L4 else lv3);
          lv5 = (if passL5 then L5 else lv4);
          lv6 = (if passL6 then L6 else lv5)
      in \<lparr> level = lv6,
           meta = LEVEL_METADATA lv6,
           rubric_min = rubricMin,
           rubric_mean_0to5 = rubricMean,
           evidence_ok = evOK,
           gates = \<lparr> gate_L2 = passL2, gate_L3 = passL3, gate_L4 = passL4,
                      gate_L5 = passL5, gate_L6 = passL6 \<rparr> \<rparr>)"

text \<open>The order \<open>L1 < L2 < L3 < L4 < L5 < L6\<close> of the level codes.\<close>

fun level_rank :: "RSLLevelCode \<Rightarrow> nat" where
  "level_rank L1 = 1"
| "level_rank L2 = 2"
| "level_rank L3 = 3"
| "level_rank L4 = 4"
| "level_rank L5 = 5"
| "level_rank L6 = 6"

text \<open>The flags and the policy that \<^verbatim>\<open>deriveRsl\<close> passes to \<open>computeRSLLevel\<close>.\<close>

definition levelFlags :: RSLLevelFlags where
  "levelFlags = \<lparr> strict_mode = False, evidence_required_for_L4plus = True, allow_L6 = True \<rparr>"

definition levelPolicy :: RSLLevelPolicy where
  "levelPolicy = \<lparr>
     gate_L2_min = Fin 1, gate_L3_min = Fin 2, gate_L4_min = Fin 3, gate_L5_min = Fin 4,
     gate_L6_min = Fin 5,
     min_evidence_count_for_L4plus = Fin 2,
     min_evidence_link_rate_for_L4plus = Fin (dbl 0.3),
     strict_gate_bonus = Fin 0,
     l6_integration_min = Fin 5 \<rparr>"

section \<open>FRI (rsl.ts, Backend\_2\_FRI)\<close>

record FRIResult =
  fri_score :: real
  fri_interpretation :: string

text \<open>\<^verbatim>\<open>const v = Number.isFinite(x) ? x : 0; return Math.max(0, Math.min(5, v));\<close>\<close>

fun clamp0to5 :: "jsnum \<Rightarrow> real" where
  "clamp0to5 (Fin x) = max 0 (min 5 x)"
| "clamp0to5 _ = 0"

text \<open>
  \<^verbatim>\<open>Math.round(x * 100) / 100\<close> on doubles: the product and the quotient are rounded,
  \<^verbatim>\<open>Math.round\<close> is exact.
\<close>

definition round2_fri :: "real \<Rightarrow> real" where
  "round2_fri x = fdiv (js_round (fmul x 100)) 100"

text \<open>\<open>round2\<close> as the modules read over the reals use it.\<close>

definition round2 :: "real \<Rightarrow> real" where
  "round2 x = js_round (x * 100) / 100"

text \<open>The thresholds are the doubles that the decimal literals denote.\<close>

definition friNote :: "real \<Rightarrow> string" where
  "friNote x =
     (if x \<le> dbl 0.79 then
        ''Your reasoning structure is still taking shape. Ideas often appear separately, making connections harder to follow.''
      else if x \<le> dbl 1.59 then
        ''Early signs of structure are beginning to appear. Some steps are present, but connections and checks are not yet consistent.''
      else if x \<le> dbl 2.39 then
        ''A basic reasoning structure is forming. Key steps align, though stability can drop as complexity increases.''
      else if x \<le> dbl 3.19 then
        ''Your reasoning structure works well overall. Most ideas connect, with occasional gaps in validation or monitoring.''
      else if x \<le> dbl 3.99 then
        ''Your reasoning structure is stable in most situations. Connections and evaluations usually remain consistent.''
      else
        ''You can reason structurally even in complex situations. Your thinking stays stable and self-regulated as ideas scale.'')"

text \<open>
  \<open>computeFRI\<close> in the arithmetic of doubles; \<^verbatim>\<open>a + b + c\<close> is \<^verbatim>\<open>(a + b) + c\<close>. The
  product \<open>CRS * RM\<close> is below 6, so it is finite.
\<close>

definition computeFRI :: "jsnum \<Rightarrow> jsnum \<Rightarrow> jsnum \<Rightarrow> jsnum \<Rightarrow> FRIResult" where
  "computeFRI R3 R4 R5 R6 =
     (let CRS = fadd (fadd (fmul (dbl 0.3) (clamp0to5 R3)) (fmul (dbl 0.4) (clamp0to5 R4)))
                  (fmul (dbl 0.3) (clamp0to5 R5));
          RM = fadd (dbl 0.85) (fmul (fdiv (clamp0to5 R6) 5) (dbl 0.3));
          FRI = clamp0to5 (Fin (fmul CRS RM));
          friRounded = round2_fri FRI
      in \<lparr> fri_score = friRounded, fri_interpretation = friNote friRounded \<rparr>)"

text \<open>
  The formula as the specification words it, over the reals, on the rubric values themselves:
  \<open>CRS = 0.3\<cdot>R3 + 0.4\<cdot>R4 + 0.3\<cdot>R5\<close>, \<open>RM = 0.85 + (R6/5)\<times>0.3\<close>,
  \<open>FRI = clamp(CRS \<times> RM, 0, 5)\<close> rounded to two decimals.
\<close>

definition CRS_spec :: "real \<Rightarrow> real \<Rightarrow> real \<Rightarrow> real" where
  "CRS_spec R3 R4 R5 = 0.3 * R3 + 0.4 * R4 + 0.3 * R5"

definition RM_spec :: "real \<Rightarrow> real" where
  "RM_spec R6 = 0.85 + (R6 / 5) * 0.3"

definition FRI_spec :: "real \<Rightarrow> real \<Rightarrow> real \<Rightarrow> real \<Rightarrow> real" where
  "FRI_spec R3 R4 R5 R6 =
     js_round (max 0 (min 5 (CRS_spec R3 R4 R5 * RM_spec R6)) * 100) / 100"

section \<open>Control pattern from (A, D, R) (rc.ts, Backend\_8)\<close>

record ControlVector =
  cv_A :: real
  cv_D :: real
  cv_R :: real

datatype ControlPattern =
    deep_reflective_human
  | moderate_reflective_human
  | moderate_procedural_human
  | shallow_procedural_human
  | moderate_reflective_hybrid
  | shallow_procedural_hybrid
  | shallow_procedural_ai
  | moderate_procedural_ai
  | deep_procedural_ai

datatype ReliabilityBand = HIGH | MEDIUM | LOW

record ControlPatternMeta =
  cpm_control_pattern :: ControlPattern
  pattern_description :: string
  cpm_pattern_interpretation :: string
  cpm_band_rationale :: string

record RCOut =
  summary :: string
  control_pattern :: string
  reliability_band :: ReliabilityBand
  band_rationale :: string
  pattern_interpretation :: string

text \<open>The key of a pattern, as written in the source.\<close>

fun pattern_key :: "ControlPattern \<Rightarrow> string" where
  "pattern_key deep_reflective_human = ''deep_reflective_human''"
| "pattern_key moderate_reflective_human = ''moderate_reflective_human''"
| "pattern_key moderate_procedural_human = ''moderate_procedural_human''"
| "pattern_key shallow_procedural_human = ''shallow_procedural_human''"
| "pattern_key moderate_reflective_hybrid = ''moderate_reflective_hybrid''"
| "pattern_key shallow_procedural_hybrid = ''shallow_procedural_hybrid''"
| "pattern_key shallow_procedural_ai = ''shallow_procedural_ai''"
| "pattern_key moderate_procedural_ai = ''moderate_procedural_ai''"
| "pattern_key deep_procedural_ai = ''deep_procedural_ai''"

text \<open>The source returns 0 for a non-finite argument first.\<close>

definition clamp01 :: "real \<Rightarrow> real" where
  "clamp01 x = (if x < 0 then 0 else if x > 1 then 1 else x)"

fun CONTROL_PATTERN_META :: "ControlPattern \<Rightarrow> ControlPatternMeta" where
  "CONTROL_PATTERN_META deep_reflective_human = \<lparr>
     cpm_control_pattern = deep_reflective_human,
     pattern_description =
       ''Human-led reasoning with sustained reflective control and stable structural revision. The current position is centered within the human reasoning cluster.'',
     cpm_pattern_interpretation =
       ''A high human proportion indicates stable human-led control at structural decision boundaries across the task.'',
     cpm_band_rationale =
       ''Reasoning decisions originate from explicit human-driven revision and counter-evaluative judgment rather than automated continuation flow.''\<rparr>"
| "CONTROL_PATTERN_META moderate_reflective_human = \<lparr>
     cpm_control_pattern = moderate_reflective_human,
     pattern_description =
       ''Human-led reasoning with localized reflective adjustment and generally stable structure. The current position remains within the human cluster with moderate dispersion.'',
     cpm_pattern_interpretation =
       ''A high human proportion indicates largely human-led control, with reflective adjustment appearing in localized segments.'',
     cpm_band_rationale =
       ''Reasoning decisions include limited human revision but do not extend to full structural reconfiguration.''\<rparr>"
| "CONTROL_PATTERN_META moderate_procedural_human = \<lparr>
     cpm_control_pattern = moderate_procedural_human,
     pattern_description =
       ''Human-authored reasoning following a stable procedural structure. The current position lies within the human cluster but closer to the procedural boundary.'',
     cpm_pattern_interpretation =
       ''A high human proportion indicates human-led control under a procedural sequence, with limited reflective intervention.'',
     cpm_band_rationale =
       ''Reasoning decisions follow a predefined structural sequence with minimal reflective intervention.''\<rparr>"
| "CONTROL_PATTERN_META shallow_procedural_human = \<lparr>
     cpm_control_pattern = shallow_procedural_human,
     pattern_description =
       ''Human-generated reasoning with shallow procedural progression and limited structural depth. The current position is weakly anchored within the human reasoning cluster.'',
     cpm_pattern_interpretation =
       ''A high human proportion indicates human-led control, though structural decisions tend to follow shallow continuation patterns.'',
     cpm_band_rationale =
       ''Reasoning decisions rely on surface-level continuation rather than deliberate structural control.''\<rparr>"
| "CONTROL_PATTERN_META moderate_reflective_hybrid = \<lparr>
     cpm_control_pattern = moderate_reflective_hybrid,
     pattern_description =
       ''Mixed-agency reasoning with partial human reflection and assisted structural development. The current position spans the boundary between human and hybrid clusters.'',
     cpm_pattern_interpretation =
       ''A mixed distribution indicates shared control, where human intent is present but transitions partially reflect assisted continuation.'',
     cpm_band_rationale =
       ''Reasoning decisions reflect human intent but are partially influenced by assisted continuation patterns.''\<rparr>"
| "CONTROL_PATTERN_META shallow_procedural_hybrid = \<lparr>
     cpm_control_pattern = shallow_procedural_hybrid,
     pattern_description =
       ''Hybrid reasoning with procedural structure and limited reflective control. The current position trends toward the hybrid procedural region.'',
     cpm_pattern_interpretation =
       ''A mixed distribution indicates assisted procedural flow, with limited human-led structural revision at decision boundaries.'',
     cpm_band_rationale =
       ''Reasoning decisions follow assisted procedural flow with minimal human structural revision.''\<rparr>"
| "CONTROL_PATTERN_META shallow_procedural_ai = \<lparr>
     cpm_control_pattern = shallow_procedural_ai,
     pattern_description =
       ''AI-dominant reasoning with shallow procedural expansion. The current position is located near the automated cluster perimeter.'',
     cpm_pattern_interpretation =
       ''A low human proportion indicates control signals are dominated by automated continuation rather than human-led structural decisions.'',
     cpm_band_rationale =
       ''Reasoning decisions primarily arise from automated continuation without observable human control signals.''\<rparr>"
| "CONTROL_PATTERN_META moderate_procedural_ai = \<lparr>
     cpm_control_pattern = moderate_procedural_ai,
     pattern_description =
       ''AI-generated reasoning with stable but non-reflective procedural structure. The current position is centered within the automated reasoning cluster.'',
     cpm_pattern_interpretation =
       ''A low human proportion indicates stable automated continuation patterns with minimal evidence of human-originated structural control.'',
     cpm_band_rationale =
       ''Reasoning decisions follow internally consistent continuation patterns without human-originated revision.''\<rparr>"
| "CONTROL_PATTERN_META deep_procedural_ai = \<lparr>
     cpm_control_pattern = deep_procedural_ai,
     pattern_description =
       ''AI-generated reasoning exhibiting high structural complexity without reflective control. The current position is deeply embedded within the automated procedural cluster.'',
     cpm_pattern_interpretation =
       ''A low human proportion indicates layered procedural expansion without consistent reflective control signals originating from the individual.'',
     cpm_band_rationale =
       ''Reasoning decisions reflect layered procedural expansion rather than intentional evaluative judgment.''\<rparr>"

text \<open>The coordinates are the doubles that the decimal literals denote.\<close>

fun CENTROIDS :: "ControlPattern \<Rightarrow> ControlVector" where
  "CENTROIDS deep_reflective_human = \<lparr> cv_A = dbl 0.85, cv_D = dbl 0.8, cv_R = dbl 0.8 \<rparr>"
| "CENTROIDS moderate_reflective_human = \<lparr> cv_A = dbl 0.8, cv_D = dbl 0.55, cv_R = dbl 0.6 \<rparr>"
| "CENTROIDS moderate_procedural_human = \<lparr> cv_A = dbl 0.75, cv_D = dbl 0.55, cv_R = dbl 0.25 \<rparr>"
| "CENTROIDS shallow_procedural_human = \<lparr> cv_A = dbl 0.7, cv_D = dbl 0.3, cv_R = dbl 0.2 \<rparr>"
| "CENTROIDS moderate_reflective_hybrid = \<lparr> cv_A = dbl 0.55, cv_D = dbl 0.55, cv_R = dbl 0.55 \<rparr>"
| "CENTROIDS shallow_procedural_hybrid = \<lparr> cv_A = dbl 0.5, cv_D = dbl 0.3, cv_R = dbl 0.2 \<rparr>"
| "CENTROIDS shallow_procedural_ai = \<lparr> cv_A = dbl 0.2, cv_D = dbl 0.3, cv_R = dbl 0.15 \<rparr>"
| "CENTROIDS moderate_procedural_ai = \<lparr> cv_A = dbl 0.15, cv_D = dbl 0.55, cv_R = dbl 0.15 \<rparr>"
| "CENTROIDS deep_procedural_ai = \<lparr> cv_A = dbl 0.1, cv_D = dbl 0.8, cv_R = dbl 0.1 \<rparr>"

text \<open>\<^verbatim>\<open>Object.keys(CENTROIDS)\<close>: the patterns in the order they are registered.\<close>

definition CENTROID_KEYS :: "ControlPattern list" where
  "CENTROID_KEYS =
     [deep_reflective_human, moderate_reflective_human, moderate_procedural_human,
      shallow_procedural_human, moderate_reflective_hybrid, shallow_procedural_hybrid,
      shallow_procedural_ai, moderate_procedural_ai, deep_procedural_ai]"


text \<open>
  \<^verbatim>\<open>Math.sqrt(dA * dA + dD * dD + dR * dR)\<close> in the arithmetic of doubles: three
  differences, three products, two sums from left to right and the square root, each
  rounded.
\<close>

definition euclidean :: "ControlVector \<Rightarrow> ControlVector \<Rightarrow> real" where
  "euclidean a b =
     (let dA = fsub (cv_A a) (cv_A b); dD = fsub (cv_D a) (cv_D b); dR = fsub (cv_R a) (cv_R b)
      in fsqrt (fadd (fadd (fmul dA dA) (fmul dD dD)) (fmul dR dR)))"

text \<open>The square of the Euclidean distance over the reals.\<close>

definition sq_dist :: "ControlVector \<Rightarrow> ControlVector \<Rightarrow> real" where
  "sq_dist a b = (cv_A a - cv_A b)\<^sup>2 + (cv_D a - cv_D b)\<^sup>2 + (cv_R a - cv_R b)\<^sup>2"

definition bandFromDistance :: "real \<Rightarrow> ReliabilityBand" where
  "bandFromDistance d = (if d < dbl 0.12 then HIGH else if d < dbl 0.22 then MEDIUM else LOW)"

text \<open>
  \<^verbatim>\<open>p.split("_").map((w) => (w ? w[0].toUpperCase() + w.slice(1) : w)).join(" ")\<close>
  on the ASCII keys of the patterns.
\<close>

fun splitOn :: "char \<Rightarrow> string \<Rightarrow> string list" where
  "splitOn c [] = [[]]"
| "splitOn c (x # xs) =
     (if x = c then [] # splitOn c xs
      else (case splitOn c xs of [] \<Rightarrow> [[x]] | w # ws \<Rightarrow> (x # w) # ws))"

definition toUpperCase_char :: "char \<Rightarrow> char" where
  "toUpperCase_char c =
     (if CHR ''a'' \<le> c \<and> c \<le> CHR ''z'' then char_of (of_char c - (32::nat)) else c)"

fun capitalize :: "string \<Rightarrow> string" where
  "capitalize [] = []"
| "capitalize (x # xs) = toUpperCase_char x # xs"

fun join :: "string \<Rightarrow> string list \<Rightarrow> string" where
  "join sep [] = []"
| "join sep [w] = w"
| "join sep (w # ws) = w @ sep @ join sep ws"

definition formatControlPatternLabel :: "ControlPattern \<Rightarrow> string" where
  "formatControlPatternLabel p = join '' '' (map capitalize (splitOn CHR ''_'' (pattern_key p)))"

text \<open>
  The loop of \<open>inferRCFromADR\<close> over \<open>Object.keys(CENTROIDS)\<close>. Its state is the pair
  \<open>(best, bestDist)\<close>; \<open>bestDist\<close> starts as \<^verbatim>\<open>Number.POSITIVE_INFINITY\<close>, which is
  \<open>None\<close> here, and every distance is below it. The components of the vector are
  finite numbers, so \<^verbatim>\<open>isFiniteNumber(vIn.A) ? vIn.A : 0.5\<close> is \<^verbatim>\<open>vIn.A\<close>.
\<close>

definition nearest_step ::
  "ControlVector \<Rightarrow> ControlPattern \<Rightarrow> ControlPattern \<times> real option
     \<Rightarrow> ControlPattern \<times> real option" where
  "nearest_step v p st =
     (let d = euclidean v (CENTROIDS p)
      in if (case snd st of None \<Rightarrow> True | Some bestDist \<Rightarrow> d < bestDist)
         then (p, Some d) else st)"

definition nearest_centroid :: "ControlVector \<Rightarrow> ControlPattern \<times> real option" where
  "nearest_centroid v = fold (nearest_step v) CENTROID_KEYS (moderate_reflective_human, None)"

definition inferRCFromADR :: "ControlVector \<Rightarrow> RCOut" where
  "inferRCFromADR vIn =
     (let v = \<lparr> cv_A = clamp01 (cv_A vIn), cv_D = clamp01 (cv_D vIn), cv_R = clamp01 (cv_R vIn) \<rparr>;
          st = nearest_centroid v;
          best = fst st;
          m = CONTROL_PATTERN_META best;
          rb = (case snd st of None \<Rightarrow> LOW | Some bestDist \<Rightarrow> bandFromDistance bestDist)
      in \<lparr> summary = pattern_description m,
           control_pattern = formatControlPatternLabel best,
           reliability_band = rb,
           band_rationale = cpm_band_rationale m,
           pattern_interpretation = cpm_pattern_interpretation m \<rparr>)"

section \<open>Normalised entropy (rsl.ts, Backend\_4\_SRI)\<close>

text \<open>
  \<^verbatim>\<open>reduce\<close> is a left fold. \<^verbatim>\<open>ps.length || 1\<close> is 1 for the empty list. The
  \<^verbatim>\<open>clamp01\<close> in scope in \<^verbatim>\<open>rsl.ts\<close> is the one of the level module.
\<close>

definition entropy01 :: "real list \<Rightarrow> real" where
  "entropy01 counts =
     (let xs = map (\<lambda>v. if v > 0 then v else 0) counts;
          s = foldl (\<lambda>a b. a + b) 0 xs
      in if s \<le> 0 then 0
         else
           let ps = filter (\<lambda>p. p > 0) (map (\<lambda>v. v / s) xs);
               h = - foldl (\<lambda>acc p. acc + p * ln p) 0 ps;
               hMax = ln (real (if length ps = 0 then 1 else length ps))
           in if hMax \<le> 0 then 0 else clamp01_level (Some (h / hMax)))"

text \<open>
  The specification's wording: the Shannon entropy of the count vector, normalised by
  the maximum entropy for the cardinality of the vector (the logarithm of its length),
  and 0 when the vector sums to at most 0.
\<close>

definition shannon_entropy :: "real list \<Rightarrow> real" where
  "shannon_entropy counts =
     - (\<Sum>c\<leftarrow>counts. if c > 0 then (c / sum_list counts) * ln (c / sum_list counts) else 0)"

definition entropy01_spec :: "real list \<Rightarrow> real" where
  "entropy01_spec counts =
     (if sum_list counts \<le> 0 then 0
      else shannon_entropy counts / ln (real (length counts)))"

section \<open>Role fit (rfs.ts, Backend\_13\_Job Role Fit top3)\<close>

record NeuprintAxes =
  analyticity :: real
  flow :: real
  metacognition :: real
  authenticity :: real



record JobGroup =
  group_id :: nat
  group_name :: string
  jg_job_id :: string
  job_name :: string


text \<open>
  What the core throws. The three \<^verbatim>\<open>throw new Error(...)\<close> of \<^verbatim>\<open>rfs.ts\<close> carry the
  data their messages are built from: the label, the axis and the value of
  \<open>assertAxes01\<close>, the sum of \<open>validateWeights\<close>, and the job id of
  \<open>computeRfsJobGroupTop3\<close>. \<open>TypeError\<close> is the error of the runtime on a property
  read from \<^verbatim>\<open>undefined\<close> or \<^verbatim>\<open>null\<close> and on iterating a value that is not
  iterable. \<open>Unmodelled\<close> is not an error of the program: it marks an input on
  which the program converts a string, a boolean, an array or an object to a number,
  which the model leaves out.
\<close>

datatype js_error =
    AxisNotIn01 string string real
  | WeightsSumNot1 real
  | JobIdNotFound string
  | TypeError
  | Unmodelled

definition isFinite01 :: "real \<Rightarrow> bool" where
  "isFinite01 x = (x \<ge> 0 \<and> x \<le> 1)"

text \<open>The loop of \<open>assertAxes01\<close> over the four keys: the first bad axis throws.\<close>

definition assertAxes01 :: "NeuprintAxes \<Rightarrow> string \<Rightarrow> js_error + unit" where
  "assertAxes01 ax label =
     (if \<not> isFinite01 (analyticity ax) then Inl (AxisNotIn01 label ''analyticity'' (analyticity ax))
      else if \<not> isFinite01 (flow ax) then Inl (AxisNotIn01 label ''flow'' (flow ax))
      else if \<not> isFinite01 (metacognition ax)
        then Inl (AxisNotIn01 label ''metacognition'' (metacognition ax))
      else if \<not> isFinite01 (authenticity ax)
        then Inl (AxisNotIn01 label ''authenticity'' (authenticity ax))
      else Inr ())"


text \<open>The middle dot (U+00B7) of the group names, as its two UTF-8 bytes.\<close>

definition middot :: string where
  "middot = [char_of (194::nat), char_of (183::nat)]"

text \<open>The fifteen group names; each row of \<open>JOB_GROUPS\<close> repeats the name of its group.\<close>

definition GROUP_NAME :: "nat \<Rightarrow> string" where
  "GROUP_NAME g =
     (if g = 1 then ''Strategy'' @ middot @ ''Analysis'' @ middot @ ''Policy''
      else if g = 2 then ''Data'' @ middot @ ''AI'' @ middot @ ''Intelligence''
      else if g = 3 then ''Engineering'' @ middot @ ''Technology'' @ middot @ ''Architecture''
      else if g = 4 then ''Product'' @ middot @ ''Service'' @ middot @ ''Innovation''
      else if g = 5 then ''Education'' @ middot @ ''Research'' @ middot @ ''Training''
      else if g = 6 then ''Psychology'' @ middot @ ''Counseling'' @ middot @ ''Social Care''
      else if g = 7 then ''Leadership'' @ middot @ ''Executive'' @ middot @ ''Public Governance''
      else if g = 8 then ''Marketing'' @ middot @ ''Sales'' @ middot @ ''Communication''
      else if g = 9 then ''Design'' @ middot @ ''Content'' @ middot @ ''Media''
      else if g = 10 then ''Healthcare'' @ middot @ ''Life Science''
      else if g = 11 then ''Law'' @ middot @ ''Compliance'' @ middot @ ''Ethics''
      else if g = 12 then ''Operations'' @ middot @ ''Quality'' @ middot @ ''Safety'' @ middot @ ''Logistics''
      else if g = 13 then ''Finance'' @ middot @ ''Investment'' @ middot @ ''Insurance''
      else if g = 14 then ''Culture'' @ middot @ ''HR'' @ middot @ ''Organization''
      else if g = 15 then ''Automation'' @ middot @ ''Digital Agent''
      else [])"

definition mkJob :: "nat \<Rightarrow> string \<Rightarrow> string \<Rightarrow> JobGroup" where
  "mkJob g jid jname =
     \<lparr> group_id = g, group_name = GROUP_NAME g, jg_job_id = jid, job_name = jname \<rparr>"

definition JOB_GROUPS :: "JobGroup list" where
  "JOB_GROUPS =
     [
      mkJob 1 ''strategy_analyst'' ''Strategy Analyst'',
      mkJob 1 ''management_analyst'' ''Management Analyst'',
      mkJob 1 ''policy_analyst'' ''Policy Analyst'',
      mkJob 1 ''economic_researcher'' ''Economic Researcher'',
      mkJob 1 ''financial_analyst'' ''Financial Analyst'',
      mkJob 1 ''risk_analyst'' ''Risk Analyst'',
      mkJob 1 ''compliance_officer'' ''Compliance Officer'',
      mkJob 1 ''internal_auditor'' ''Internal Auditor'',
      mkJob 2 ''data_analyst'' ''Data Analyst'',
      mkJob 2 ''data_scientist'' ''Data Scientist'',
      mkJob 2 ''business_intelligence_analyst'' ''Business Intelligence Analyst'',
      mkJob 2 ''machine_learning_analyst'' ''Machine Learning Analyst'',
      mkJob 2 ''statistician'' ''Statistician'',
      mkJob 2 ''operations_research_analyst'' ''Operations Research Analyst'',
      mkJob 2 ''information_security_analyst'' ''Information Security Analyst'',
      mkJob 3 ''software_engineer'' ''Software Engineer'',
      mkJob 3 ''systems_architect'' ''Systems Architect'',
      mkJob 3 ''cloud_engineer'' ''Cloud Engineer'',
      mkJob 3 ''devops_engineer'' ''DevOps Engineer'',
      mkJob 3 ''network_architect'' ''Network Architect'',
      mkJob 3 ''qa_engineer'' ''QA Engineer'',
      mkJob 3 ''safety_systems_engineer'' ''Safety Systems Engineer'',
      mkJob 4 ''product_manager'' ''Product Manager'',
      mkJob 4 ''service_designer'' ''Service Designer'',
      mkJob 4 ''ux_planner'' ''UX Planner'',
      mkJob 4 ''business_developer'' ''Business Developer'',
      mkJob 4 ''innovation_manager'' ''Innovation Manager'',
      mkJob 4 ''r_and_d_planner'' ''R&D Planner'',
      mkJob 4 ''new_venture_strategist'' ''New Venture Strategist'',
      mkJob 5 ''teacher'' ''Teacher'',
      mkJob 5 ''professor'' ''Professor'',
      mkJob 5 ''instructional_designer'' ''Instructional Designer'',
      mkJob 5 ''education_consultant'' ''Education Consultant'',
      mkJob 5 ''research_scientist'' ''Research Scientist'',
      mkJob 5 ''research_coordinator'' ''Research Coordinator'',
      mkJob 5 ''academic_advisor'' ''Academic Advisor'',
      mkJob 6 ''counselor'' ''Counselor'',
      mkJob 6 ''clinical_psychologist'' ''Clinical Psychologist'',
      mkJob 6 ''school_psychologist'' ''School Psychologist'',
      mkJob 6 ''social_worker'' ''Social Worker'',
      mkJob 6 ''behavioral_therapist'' ''Behavioral Therapist'',
      mkJob 6 ''rehabilitation_specialist'' ''Rehabilitation Specialist'',
      mkJob 7 ''ceo_coo_cso'' ''CEO / COO / CSO'',
      mkJob 7 ''public_policy_director'' ''Public Policy Director'',
      mkJob 7 ''government_administrator'' ''Government Administrator'',
      mkJob 7 ''program_director'' ''Program Director'',
      mkJob 7 ''public_strategy_lead'' ''Public Strategy Lead'',
      mkJob 8 ''marketing_strategist'' ''Marketing Strategist'',
      mkJob 8 ''brand_manager'' ''Brand Manager'',
      mkJob 8 ''sales_director'' ''Sales Director'',
      mkJob 8 ''pr_manager'' ''PR Manager'',
      mkJob 8 ''communication_manager'' ''Communication Manager'',
      mkJob 8 ''media_planner'' ''Media Planner'',
      mkJob 8 ''digital_marketer'' ''Digital Marketer'',
      mkJob 9 ''ux_ui_designer'' ''UX/UI Designer'',
      mkJob 9 ''graphic_designer'' ''Graphic Designer'',
      mkJob 9 ''video_producer'' ''Video Producer'',
      mkJob 9 ''content_strategist'' ''Content Strategist'',
      mkJob 9 ''creative_director'' ''Creative Director'',
      mkJob 9 ''editor'' ''Editor'',
      mkJob 9 ''multimedia_artist'' ''Multimedia Artist'',
      mkJob 10 ''physician'' ''Physician'',
      mkJob 10 ''nurse'' ''Nurse'',
      mkJob 10 ''medical_researcher'' ''Medical Researcher'',
      mkJob 10 ''clinical_data_manager'' ''Clinical Data Manager'',
      mkJob 10 ''biomedical_scientist'' ''Biomedical Scientist'',
      mkJob 10 ''public_health_analyst'' ''Public Health Analyst'',
      mkJob 11 ''lawyer'' ''Lawyer'',
      mkJob 11 ''legal_researcher'' ''Legal Researcher'',
      mkJob 11 ''compliance_manager'' ''Compliance Manager'',
      mkJob 11 ''ethics_officer'' ''Ethics Officer'',
      mkJob 11 ''regulatory_affairs_specialist'' ''Regulatory Affairs Specialist'',
      mkJob 11 ''contract_specialist'' ''Contract Specialist'',
      mkJob 12 ''operations_manager'' ''Operations Manager'',
      mkJob 12 ''quality_manager'' ''Quality Manager'',
      mkJob 12 ''safety_engineer'' ''Safety Engineer'',
      mkJob 12 ''process_analyst'' ''Process Analyst'',
      mkJob 12 ''supply_chain_analyst'' ''Supply Chain Analyst'',
      mkJob 12 ''logistics_planner'' ''Logistics Planner'',
      mkJob 13 ''investment_analyst'' ''Investment Analyst'',
      mkJob 13 ''portfolio_manager'' ''Portfolio Manager'',
      mkJob 13 ''credit_analyst'' ''Credit Analyst'',
      mkJob 13 ''actuary'' ''Actuary'',
      mkJob 13 ''insurance_underwriter'' ''Insurance Underwriter'',
      mkJob 13 ''treasury_manager'' ''Treasury Manager'',
      mkJob 14 ''hr_manager'' ''HR Manager'',
      mkJob 14 ''talent_manager'' ''Talent Manager'',
      mkJob 14 ''organizational_development_manager'' ''Organizational Development Manager'',
      mkJob 14 ''culture_manager'' ''Culture Manager'',
      mkJob 14 ''recruiter'' ''Recruiter'',
      mkJob 14 ''learning_and_development_specialist'' ''Learning & Development Specialist'',
      mkJob 15 ''rpa_agent'' ''RPA Agent'',
      mkJob 15 ''chatbot_operator'' ''Chatbot Operator'',
      mkJob 15 ''automated_qa_bot'' ''Automated QA Bot'',
      mkJob 15 ''report_generation_agent'' ''Report Generation Agent'',
      mkJob 15 ''monitoring_ai'' ''Monitoring AI'']"

text \<open>
  \<open>JOB_INDEX\<close> is filled by \<^verbatim>\<open>for (const j of JOB_GROUPS) map[j.job_id] = j\<close>: the last
  row with a job id is the one the index holds.
\<close>

definition JOB_INDEX :: "string \<Rightarrow> JobGroup option" where
  "JOB_INDEX k = List.find (\<lambda>j. jg_job_id j = k) (rev JOB_GROUPS)"








section \<open>Reading values the way the source does\<close>

text \<open>\<^verbatim>\<open>!!v\<close>. A number is falsy when it is 0.\<close>

fun truthy :: "json \<Rightarrow> bool" where
  "truthy JUndef = False"
| "truthy JNull = False"
| "truthy (JBool b) = b"
| "truthy (JNum r) = (r \<noteq> 0)"
| "truthy (JStr s) = (s \<noteq> [])"
| "truthy (JArr _) = True"
| "truthy (JObj _) = True"

text \<open>\<^verbatim>\<open>v == null\<close>: \<^verbatim>\<open>null\<close> or \<^verbatim>\<open>undefined\<close>.\<close>

fun nullish :: "json \<Rightarrow> bool" where
  "nullish JUndef = True"
| "nullish JNull = True"
| "nullish _ = False"

text \<open>\<^verbatim>\<open>a ?? b\<close>\<close>

definition coalesce :: "json \<Rightarrow> json \<Rightarrow> json" where
  "coalesce a b = (if nullish a then b else a)"

text \<open>
  \<^verbatim>\<open>v?.k\<close>, and \<^verbatim>\<open>v.k\<close> where \<open>v\<close> is known not to be \<^verbatim>\<open>null\<close> or
  \<^verbatim>\<open>undefined\<close>. The keys the source reads are none of the built-in properties of
  strings, numbers or arrays, so on such a value the read gives \<^verbatim>\<open>undefined\<close>.
\<close>

fun opt_get :: "json \<Rightarrow> string \<Rightarrow> json" where
  "opt_get (JObj kvs) k = getProp kvs k"
| "opt_get _ k = JUndef"

text \<open>\<^verbatim>\<open>typeof v === "number" && isFinite(v)\<close>\<close>

fun finiteNumber :: "json \<Rightarrow> real option" where
  "finiteNumber (JNum r) = Some r"
| "finiteNumber _ = None"

text \<open>
  The first lines of every orchestrator:
  \<^verbatim>\<open>(input && typeof input === "object" && "analysis_input" in input) ? input.analysis_input : input\<close>
\<close>

fun analysis_input_of :: "json \<Rightarrow> json" where
  "analysis_input_of (JObj kvs) =
     (if ''analysis_input'' \<in> fst ` set kvs then getProp kvs ''analysis_input'' else JObj kvs)"
| "analysis_input_of v = v"

text \<open>
  \<^verbatim>\<open>ai?.raw_features ?? ai?.raw ?? ai?.rawFeatures ?? ai?.raw_features_v1 ?? ai?.raw_features_v2\<close>
\<close>

definition raw_of :: "json \<Rightarrow> json" where
  "raw_of ai =
     coalesce (opt_get ai ''raw_features'')
       (coalesce (opt_get ai ''raw'')
          (coalesce (opt_get ai ''rawFeatures'')
             (coalesce (opt_get ai ''raw_features_v1'') (opt_get ai ''raw_features_v2''))))"

text \<open>
  \<open>deepMergeAll\<close>, repeated in each orchestrator: start from \<^verbatim>\<open>{}\<close> and merge every
  argument that passes \<^verbatim>\<open>!(!src || typeof src !== "object")\<close>. The arguments in the
  pipeline are plain objects; an array argument (its keys would be its indices) does
  not occur and is left unmerged here.
\<close>

definition deepMergeAll :: "json list \<Rightarrow> json" where
  "deepMergeAll objs =
     JObj (fold (\<lambda>src out. if isPlainObject src then deepMergeInto out (props src) else out)
             objs [])"

text \<open>A stable sort by a comparator, as \<^verbatim>\<open>Array.prototype.sort\<close> is.\<close>

fun insert_cmp :: "('a \<Rightarrow> 'a \<Rightarrow> real) \<Rightarrow> 'a \<Rightarrow> 'a list \<Rightarrow> 'a list" where
  "insert_cmp cmp x [] = [x]"
| "insert_cmp cmp x (y # ys) = (if cmp x y \<le> 0 then x # y # ys else y # insert_cmp cmp x ys)"

fun sort_cmp :: "('a \<Rightarrow> 'a \<Rightarrow> real) \<Rightarrow> 'a list \<Rightarrow> 'a list" where
  "sort_cmp cmp [] = []"
| "sort_cmp cmp (x # xs) = insert_cmp cmp x (sort_cmp cmp xs)"

section \<open>Final determination (cff.ts, Backend\_6\_Final Determination)\<close>

datatype IndicatorCode =
  Ind_AAS | Ind_CTF | Ind_RMD | Ind_RDX | Ind_EDS | Ind_IFD | Ind_KPF_Sim | Ind_TPS_H

fun indicator_key :: "IndicatorCode \<Rightarrow> string" where
  "indicator_key Ind_AAS = ''AAS''"
| "indicator_key Ind_CTF = ''CTF''"
| "indicator_key Ind_RMD = ''RMD''"
| "indicator_key Ind_RDX = ''RDX''"
| "indicator_key Ind_EDS = ''EDS''"
| "indicator_key Ind_IFD = ''IFD''"
| "indicator_key Ind_KPF_Sim = ''KPF-Sim''"
| "indicator_key Ind_TPS_H = ''TPS-H''"

datatype DetCode =
  T1 | T2 | T3 | T4 | T5 | T6 | Hx_1 | Hx_2 | Hx_3 | Hx_4 | Ax_1 | Ax_2 | Ax_3 | Ax_4

fun det_key :: "DetCode \<Rightarrow> string" where
  "det_key T1 = ''T1''"
| "det_key T2 = ''T2''"
| "det_key T3 = ''T3''"
| "det_key T4 = ''T4''"
| "det_key T5 = ''T5''"
| "det_key T6 = ''T6''"
| "det_key Hx_1 = ''Hx-1''"
| "det_key Hx_2 = ''Hx-2''"
| "det_key Hx_3 = ''Hx-3''"
| "det_key Hx_4 = ''Hx-4''"
| "det_key Ax_1 = ''Ax-1''"
| "det_key Ax_2 = ''Ax-2''"
| "det_key Ax_3 = ''Ax-3''"
| "det_key Ax_4 = ''Ax-4''"

record TypeEntry =
  type_name :: string
  type_description :: string

record CffFinalTypePublic =
  ft_label :: string
  ft_chip_label :: string
  ft_confidence :: real
  ft_interpretation :: string

datatype T2Mode = Regulation | MetacogRaw

record FinalOpts =
  t2_mode :: "T2Mode option"
  conservative_lock_ai_hybrid :: "bool option"

datatype Track = Human | Hybrid | AI

fun TYPE_REGISTRY :: "DetCode \<Rightarrow> TypeEntry" where
  "TYPE_REGISTRY T1 = \<lparr>
     type_name = ''Analytical Reasoner'',
     type_description =
       ''T1. Analytical Reasoner approaches problems through structured decomposition and logical sequencing. Reasoning is driven by explicit analysis, rule-based evaluation, and clear separation of components. This pattern prioritizes correctness, internal consistency, and stepwise justification.''\<rparr>"
| "TYPE_REGISTRY T2 = \<lparr>
     type_name = ''Reflective Thinker'',
     type_description =
       ''T2. Reflective Thinker emphasizes self-monitoring and internal revision during reasoning. This pattern frequently revisits prior assumptions, adjusts interpretations, and refines conclusions through reflection. Reasoning quality is shaped by iterative reassessment rather than linear progression.''\<rparr>"
| "TYPE_REGISTRY T3 = \<lparr>
     type_name = ''Intuitive Explorer'',
     type_description =
       ''T3. Intuitive Explorer relies on associative thinking and exploratory inference. Reasoning advances through pattern recognition, conceptual leaps, and hypothesis generation rather than explicit structure. This pattern prioritizes discovery and possibility over immediate validation.''\<rparr>"
| "TYPE_REGISTRY T4 = \<lparr>
     type_name = ''Strategic Integrator'',
     type_description =
       ''T4. Strategic Integrator focuses on synthesizing multiple perspectives into a coherent direction. Reasoning involves alignment of goals, constraints, and long-term implications. This pattern emphasizes coordination, prioritization, and purposeful convergence.''\<rparr>"
| "TYPE_REGISTRY T5 = \<lparr>
     type_name = ''Human Expressionist'',
     type_description =
       ''T5. Human Expressionist centers reasoning around meaning, context, and human experience. Thought is shaped by narrative coherence, emotional nuance, and communicative clarity. This pattern prioritizes expressiveness and interpretive depth over formal structure.''\<rparr>"
| "TYPE_REGISTRY T6 = \<lparr>
     type_name = ''Machine-Dominant'',
     type_description =
       ''T6. Machine-Dominant pattern shows strong reliance on external systems or automated reasoning flows. Decision progression often mirrors templated logic or system-driven optimization. Human agency and self-directed revision signals remain limited.''\<rparr>"
| "TYPE_REGISTRY Ax_1 = \<lparr>
     type_name = ''Template Generator'',
     type_description =
       ''Ax-1. Template Generator produces reasoning by following predefined structural patterns. Responses are consistent and organized but show limited adaptation beyond the template. Original restructuring signals are minimal.''\<rparr>"
| "TYPE_REGISTRY Ax_2 = \<lparr>
     type_name = ''Evidence Synthesizer'',
     type_description =
       ''Ax-2. Evidence Synthesizer focuses on collecting and linking supporting information. Reasoning emphasizes aggregation and alignment of evidence rather than original inference. Conclusions emerge from evidence density rather than internal exploration.''\<rparr>"
| "TYPE_REGISTRY Ax_3 = \<lparr>
     type_name = ''Style Emulator'',
     type_description =
       ''Ax-3. Style Emulator mirrors linguistic and structural patterns.''\<rparr>"
| "TYPE_REGISTRY Ax_4 = \<lparr>
     type_name = ''Reasoning Simulator'',
     type_description =
       ''Ax-4. Reasoning Simulator reproduces the appearance of structured reasoning through iterative expansion and recombination. While transitions and revisions are present, they are driven by simulation rather than genuine internal intent formation.''\<rparr>"
| "TYPE_REGISTRY Hx_1 = \<lparr>
     type_name = ''Draft-Assist'',
     type_description =
       ''Hx-1. Draft-Assist Type uses AI support primarily for initial idea formation. Human control increases in later stages through revision and refinement.''\<rparr>"
| "TYPE_REGISTRY Hx_2 = \<lparr>
     type_name = ''Structure-Assist'',
     type_description =
       ''Hx-2. Structure-Assist Type relies on AI to organize and scaffold reasoning. Core ideas remain human-driven, while structural clarity is externally supported.''\<rparr>"
| "TYPE_REGISTRY Hx_3 = \<lparr>
     type_name = ''Evidence-Assist'',
     type_description =
       ''Hx-3. Evidence-Assist Type leverages AI to gather or arrange supporting material. Human reasoning determines relevance and final judgment.''\<rparr>"
| "TYPE_REGISTRY Hx_4 = \<lparr>
     type_name = ''Reasoning-Assist'',
     type_description =
       ''Hx-4. Reasoning-Assist Type involves AI participation in intermediate reasoning steps. Human oversight remains, but reasoning momentum is partially shared.''\<rparr>"

fun INTERPRETATION_REGISTRY :: "DetCode \<Rightarrow> string option" where
  "INTERPRETATION_REGISTRY Ax_4 = Some
     ''Reasoning Simulator reflects a reasoning structure that appears coherent and well-formed, while transitions and revisions are driven by simulated control patterns rather than direct intent formation.''"
| "INTERPRETATION_REGISTRY _ = None"

fun avg :: "real option \<Rightarrow> real option \<Rightarrow> real option" where
  "avg None None = None"
| "avg None (Some b) = Some b"
| "avg (Some a) None = Some a"
| "avg (Some a) (Some b) = Some ((a + b) / 2)"

text \<open>
  \<open>getActiveScore\<close> reads \<^verbatim>\<open>cff.indicators[code]\<close>; its first argument here is the
  value of \<^verbatim>\<open>cff.indicators\<close>.
\<close>

definition getActiveScore :: "json \<Rightarrow> IndicatorCode \<Rightarrow> bool \<Rightarrow> real option" where
  "getActiveScore indicators code normalizeTpsH =
     (let iv = opt_get indicators (indicator_key code)
      in if \<not> truthy iv then None
         else if opt_get iv ''status'' \<noteq> JStr ''Active'' then None
         else (case finiteNumber (opt_get iv ''score'') of
                 None \<Rightarrow> None
               | Some x0 \<Rightarrow>
                   let x = (if normalizeTpsH \<and> code = Ind_TPS_H
                            then (if x0 > 1.01 then x0 / 100 else x0) else x0)
                   in Some (clamp01 x)))"

definition confFromMargin :: "real \<Rightarrow> real" where
  "confFromMargin margin =
     (let base = 0.65; scale = 0.7; capLow = 0.55; capHigh = 0.92;
          v0 = base + scale * margin;
          v1 = (if v0 < capLow then capLow else v0);
          v2 = (if v1 > capHigh then capHigh else v1)
      in clamp01 v2)"

record Cand =
  cand_prio :: real
  cand_code :: DetCode
  cand_conf :: real

text \<open>
  The four choosers are closures over the axes in the source; here the axes they read
  are arguments. A candidate is pushed when its rule holds, in the order of the source.
\<close>

definition chooseHumanT ::
  "T2Mode \<Rightarrow> real option \<Rightarrow> real option \<Rightarrow> real option \<Rightarrow> real option \<Rightarrow> DetCode \<times> real" where
  "chooseHumanT t2Mode Analyticity Flow MetacogRaw_ax Regulation_ax =
     (let c4 = (case (Analyticity, Flow, MetacogRaw_ax) of
                  (Some an, Some fl, Some mr) \<Rightarrow>
                    if an \<ge> 0.6 \<and> fl \<ge> 0.6 \<and> mr \<ge> 0.6
                    then [\<lparr> cand_prio = 4, cand_code = T4,
                            cand_conf = confFromMargin (min (min (an - 0.6) (fl - 0.6)) (mr - 0.6)) \<rparr>]
                    else []
                | _ \<Rightarrow> []);
          axis = (if t2Mode = Regulation then Regulation_ax else MetacogRaw_ax);
          c2 = (case axis of
                  Some ax \<Rightarrow>
                    if ax \<ge> 0.7
                    then [\<lparr> cand_prio = 3, cand_code = T2, cand_conf = confFromMargin (ax - 0.7) \<rparr>]
                    else []
                | None \<Rightarrow> []);
          c1 = (case (Analyticity, Flow) of
                  (Some an, Some fl) \<Rightarrow>
                    if an \<ge> 0.7 \<and> fl < 0.55
                    then [\<lparr> cand_prio = 2, cand_code = T1,
                            cand_conf = confFromMargin (min (an - 0.7) (0.55 - fl)) \<rparr>]
                    else []
                | _ \<Rightarrow> []);
          c3 = (case (Flow, Analyticity) of
                  (Some fl, Some an) \<Rightarrow>
                    if fl \<ge> 0.7 \<and> an < 0.55
                    then [\<lparr> cand_prio = 1, cand_code = T3,
                            cand_conf = confFromMargin (min (fl - 0.7) (0.55 - an)) \<rparr>]
                    else []
                | _ \<Rightarrow> []);
          cand = sort_cmp
                   (\<lambda>a b. if cand_prio b - cand_prio a \<noteq> 0 then cand_prio b - cand_prio a
                          else cand_conf b - cand_conf a)
                   (c4 @ c2 @ c1 @ c3)
      in (case cand of [] \<Rightarrow> (T2, 0.6) | c # _ \<Rightarrow> (cand_code c, cand_conf c)))"

text \<open>A chain of early returns: the first rule that fires gives the result.\<close>

fun orElse :: "'a option \<Rightarrow> 'a option \<Rightarrow> 'a option" where
  "orElse (Some x) _ = Some x"
| "orElse None y = y"

definition chooseAx ::
  "real option \<Rightarrow> real option \<Rightarrow> real option \<Rightarrow> real option \<Rightarrow> real option \<Rightarrow> real option
     \<Rightarrow> real option \<Rightarrow> (DetCode \<times> real) option" where
  "chooseAx AAS RDX RMD EDS IFD Flow MachineScore =
     orElse
       (case (AAS, RDX, RMD) of
          (Some a, Some rd, Some rm) \<Rightarrow>
            if a \<ge> 0.8 \<and> rd \<le> 0.4 \<and> rm \<le> 0.45
            then Some (Ax_1, confFromMargin (min (min (a - 0.8) (0.4 - rd)) (0.45 - rm)))
            else None
        | _ \<Rightarrow> None)
    (orElse
       (case (EDS, AAS, IFD) of
          (Some e, Some a, Some i) \<Rightarrow>
            if e \<ge> 0.8 \<and> a \<ge> 0.65 \<and> i \<le> 0.4
            then Some (Ax_2, confFromMargin (min (min (e - 0.8) (a - 0.65)) (0.4 - i)))
            else None
        | _ \<Rightarrow> None)
    (orElse
       (case (Flow, MachineScore) of
          (Some f, Some m) \<Rightarrow>
            if f \<ge> 0.65 \<and> m \<ge> 0.7
            then Some (Ax_3, confFromMargin (min (f - 0.65) (m - 0.7)))
            else None
        | _ \<Rightarrow> None)
       (case (AAS, RDX, IFD) of
          (Some a, Some rd, Some i) \<Rightarrow>
            if a \<ge> 0.75 \<and> rd \<le> 0.45 \<and> i \<le> 0.35
            then Some (Ax_4, confFromMargin (min (min (a - 0.75) (0.45 - rd)) (0.35 - i)))
            else None
        | _ \<Rightarrow> None)))"

definition chooseHx ::
  "real option \<Rightarrow> real option \<Rightarrow> real option \<Rightarrow> real option \<Rightarrow> real option \<Rightarrow> real option
     \<Rightarrow> (DetCode \<times> real) option" where
  "chooseHx KPF RDX AAS CTF EDS RMD =
     (case KPF of
        None \<Rightarrow> None
      | Some k \<Rightarrow>
          orElse
            (case RDX of
               Some rd \<Rightarrow>
                 if rd \<ge> 0.6 \<and> k \<ge> 0.25 \<and> k \<le> 0.55
                 then Some (Hx_1, confFromMargin (min (min (rd - 0.6) (k - 0.25)) (0.55 - k)))
                 else None
             | None \<Rightarrow> None)
         (orElse
            (case (AAS, CTF) of
               (Some a, Some c) \<Rightarrow>
                 if a \<ge> 0.6 \<and> c \<ge> 0.6 \<and> k \<ge> 0.25 \<and> k \<le> 0.55
                 then Some (Hx_2, confFromMargin
                        (min (min (min (a - 0.6) (c - 0.6)) (k - 0.25)) (0.55 - k)))
                 else None
             | _ \<Rightarrow> None)
         (orElse
            (case EDS of
               Some e \<Rightarrow>
                 if e \<ge> 0.75 \<and> k \<ge> 0.25 \<and> k \<le> 0.55
                 then Some (Hx_3, confFromMargin (min (min (e - 0.75) (k - 0.25)) (0.55 - k)))
                 else None
             | None \<Rightarrow> None)
            (case (AAS, RMD) of
               (Some a, Some rm) \<Rightarrow>
                 if a \<ge> 0.7 \<and> rm \<le> 0.45 \<and> k \<ge> 0.45
                 then Some (Hx_4, confFromMargin (min (min (a - 0.7) (0.45 - rm)) (k - 0.45)))
                 else None
             | _ \<Rightarrow> None))))"

definition chooseT5T6 :: "real option \<Rightarrow> real option \<Rightarrow> (DetCode \<times> real) option" where
  "chooseT5T6 Authenticity MachineScore =
     (case (Authenticity, MachineScore) of
        (Some au, Some ms) \<Rightarrow>
          if ms \<ge> 0.7 \<or> au \<le> 0.4
          then Some (T6, confFromMargin (max (ms - 0.7) (0.4 - au)))
          else if au \<ge> 0.75
          then Some (T5, confFromMargin (au - 0.75))
          else None
      | _ \<Rightarrow> None)"

text \<open>
  \<open>computeFinalDeterminationCff\<close>. Its first argument is the value of
  \<^verbatim>\<open>cff.indicators\<close>. \<open>TYPE_REGISTRY\<close> has an entry for each of the fourteen codes, so
  the \<^verbatim>\<open>throw\<close> for an unknown code is dead code and has no branch here.
\<close>

definition computeFinalDeterminationCff :: "json \<Rightarrow> FinalOpts option \<Rightarrow> CffFinalTypePublic" where
  "computeFinalDeterminationCff indicators opts =
     (let t2Mode = (case opts of Some os \<Rightarrow> (case t2_mode os of Some m \<Rightarrow> m | None \<Rightarrow> Regulation)
                    | None \<Rightarrow> Regulation);
          conservativeLock =
            (case opts of Some os \<Rightarrow> (case conservative_lock_ai_hybrid os of Some b \<Rightarrow> b | None \<Rightarrow> False)
             | None \<Rightarrow> False);
          AAS = getActiveScore indicators Ind_AAS False;
          CTF = getActiveScore indicators Ind_CTF False;
          RMD = getActiveScore indicators Ind_RMD False;
          RDX = getActiveScore indicators Ind_RDX False;
          EDS = getActiveScore indicators Ind_EDS False;
          IFD = getActiveScore indicators Ind_IFD False;
          KPF = getActiveScore indicators Ind_KPF_Sim False;
          TPS = getActiveScore indicators Ind_TPS_H True;
          Analyticity = avg AAS EDS;
          Flow = avg CTF RMD;
          MetacogRaw_ax = avg RDX IFD;
          Regulation_ax = avg RDX (case IFD of None \<Rightarrow> None | Some i \<Rightarrow> Some (1 - i));
          Authenticity =
            (case (KPF, TPS) of
               (Some k, Some t) \<Rightarrow> avg (Some (1 - k)) (Some t)
             | (Some k, None) \<Rightarrow> Some (1 - k)
             | (None, Some t) \<Rightarrow> Some t
             | (None, None) \<Rightarrow> None);
          MachineScore =
            (case (KPF, TPS) of
               (Some k, Some t) \<Rightarrow> avg (Some k) (Some (1 - t))
             | (Some k, None) \<Rightarrow> Some k
             | (None, Some t) \<Rightarrow> Some (1 - t)
             | (None, None) \<Rightarrow> None);
          internalTrack =
            (case MachineScore of
               None \<Rightarrow> Human
             | Some ms \<Rightarrow>
                 if conservativeLock then Human
                 else if ms \<ge> 0.7 then AI
                 else if ms \<ge> 0.4 then Hybrid
                 else Human);
          ht = chooseHumanT t2Mode Analyticity Flow MetacogRaw_ax Regulation_ax;
          final =
            (case internalTrack of
               Human \<Rightarrow> (case chooseT5T6 Authenticity MachineScore of Some r \<Rightarrow> r | None \<Rightarrow> ht)
             | Hybrid \<Rightarrow> (case chooseHx KPF RDX AAS CTF EDS RMD of Some r \<Rightarrow> r | None \<Rightarrow> ht)
             | AI \<Rightarrow> (case chooseAx AAS RDX RMD EDS IFD Flow MachineScore of
                        Some r \<Rightarrow> r | None \<Rightarrow> ht));
          finalCode = fst final;
          finalConf = snd final;
          reg = TYPE_REGISTRY finalCode;
          label = det_key finalCode @ ''. '' @ type_name reg;
          chipLabel = type_name reg;
          confidence = round2 (clamp01 finalConf);
          interpretation =
            (case INTERPRETATION_REGISTRY finalCode of
               Some t \<Rightarrow> t
             | None \<Rightarrow> type_name reg
                 @ '' reflects the dominant reasoning pattern inferred from the current indicator configuration.'')
      in \<lparr> ft_label = label, ft_chip_label = chipLabel, ft_confidence = confidence,
           ft_interpretation = interpretation \<rparr>)"

definition json_of_final_type :: "CffFinalTypePublic \<Rightarrow> json" where
  "json_of_final_type ft =
     JObj [(''cff'', JObj [(''final_type'', JObj
        [(''label'', JStr (ft_label ft)),
         (''chip_label'', JStr (ft_chip_label ft)),
         (''confidence'', JNum (ft_confidence ft)),
         (''interpretation'', JStr (ft_interpretation ft))])])]"

section \<open>The six indicators (cff.ts, Backend\_7\_CFF)\<close>

text \<open>
  The orchestrators take any value. Where the source applies arithmetic to a field,
  the model covers a field that holds a number or is missing (\<^verbatim>\<open>undefined\<close> or
  \<^verbatim>\<open>null\<close>); on a string, a boolean, an array or an object JavaScript would convert
  the value to a number first, and that conversion is outside the model. A function
  that needs it returns the outcome \<open>Unmodelled\<close>, which is not a result of the program.
\<close>

fun number_or_missing :: "json \<Rightarrow> bool" where
  "number_or_missing JUndef = True"
| "number_or_missing JNull = True"
| "number_or_missing (JNum _) = True"
| "number_or_missing _ = False"

definition modelled_fields :: "json \<Rightarrow> string list \<Rightarrow> bool" where
  "modelled_fields v ks = list_all (\<lambda>k. number_or_missing (opt_get v k)) ks"

text \<open>\<^verbatim>\<open>v || d\<close> on a field that holds a number or is missing.\<close>

fun numOr :: "json \<Rightarrow> real \<Rightarrow> real" where
  "numOr (JNum r) d = (if r = 0 then d else r)"
| "numOr _ d = d"

text \<open>A field that holds a number or is missing, as \<^verbatim>\<open>number | null\<close>.\<close>

fun numOpt :: "json \<Rightarrow> real option" where
  "numOpt (JNum r) = Some r"
| "numOpt _ = None"

definition safeDiv_cff :: "real \<Rightarrow> real \<Rightarrow> real" where
  "safeDiv_cff a b = a / max 1 b"

text \<open>\<^verbatim>\<open>Math.min(1, Math.max(0, x))\<close>\<close>

definition clamp01_cff :: "real \<Rightarrow> real" where
  "clamp01_cff x = min 1 (max 0 x)"

text \<open>
  \<^verbatim>\<open>switch (st ?? "linear")\<close>: only the strings \<^verbatim>\<open>"hierarchical"\<close> and
  \<^verbatim>\<open>"networked"\<close> leave the default.
\<close>

definition structureWeight :: "json \<Rightarrow> real" where
  "structureWeight st =
     (if st = JStr ''hierarchical'' then 0.6
      else if st = JStr ''networked'' then 1.0
      else 0.3)"

text \<open>
  \<^verbatim>\<open>raw.evidence_types ? new Set(raw.evidence_types) : new Set()\<close>, then \<^verbatim>\<open>.size\<close>.
  The members of an array that are objects or arrays are distinct from every other
  member; the others are compared by value. \<^verbatim>\<open>new Set\<close> throws a TypeError on a
  truthy value that is not iterable: a number, \<^verbatim>\<open>true\<close> or a plain object. A
  non-empty string is iterated by code point, which is outside the model.
\<close>

fun isPrimitive :: "json \<Rightarrow> bool" where
  "isPrimitive (JArr _) = False"
| "isPrimitive (JObj _) = False"
| "isPrimitive _ = True"

fun evidence_types_size :: "json \<Rightarrow> js_error + nat" where
  "evidence_types_size (JArr xs) =
     Inr (length (remdups (filter isPrimitive xs)) + length (filter (\<lambda>x. \<not> isPrimitive x) xs))"
| "evidence_types_size (JObj _) = Inl TypeError"
| "evidence_types_size (JNum r) = (if r = 0 then Inr 0 else Inl TypeError)"
| "evidence_types_size (JBool b) = (if b then Inl TypeError else Inr 0)"
| "evidence_types_size (JStr s) = (if s = [] then Inr 0 else Inl Unmodelled)"
| "evidence_types_size _ = Inr 0"

definition RawFeaturesV1_number_fields :: "string list" where
  "RawFeaturesV1_number_fields =
     [''units'', ''claims'', ''reasons'', ''evidence'', ''sub_claims'', ''warrants'',
      ''transitions'', ''transition_ok'', ''hedges'', ''loops'', ''revisions'',
      ''revision_depth_sum'', ''intent_markers'', ''drift_segments'']"

definition computeCFF6_v1 :: "json \<Rightarrow> js_error + json" where
  "computeCFF6_v1 raw =
     (if \<not> modelled_fields raw RawFeaturesV1_number_fields then Inl Unmodelled
      else
        let U = max 1 (of_int \<lfloor>numOr (opt_get raw ''units'') 1\<rfloor>);
            C = max 0 (numOr (opt_get raw ''claims'') 0);
            R = max 0 (numOr (opt_get raw ''reasons'') 0);
            E = max 0 (numOr (opt_get raw ''evidence'') 0);
            sub = max 0 (numOr (opt_get raw ''sub_claims'') 0);
            W = max 0 (numOr (opt_get raw ''warrants'') 0);
            st = coalesce (opt_get raw ''structure_type'') (JStr ''linear'');
            T = max 0 (numOr (opt_get raw ''transitions'') 0);
            Tok = max 0 (numOr (opt_get raw ''transition_ok'') 0);
            hedges = max 0 (numOr (opt_get raw ''hedges'') 0);
            loops = max 0 (numOr (opt_get raw ''loops'') 0);
            rev = max 0 (numOr (opt_get raw ''revisions'') 0);
            revDepthSum = max 0 (numOr (opt_get raw ''revision_depth_sum'') 0);
            beliefChange = truthy (opt_get raw ''belief_change'');
            intentMarkers = max 0 (numOr (opt_get raw ''intent_markers'') 0);
            driftSeg = max 0 (numOr (opt_get raw ''drift_segments'') 0)
        in (case evidence_types_size (opt_get raw ''evidence_types'') of
              Inl e \<Rightarrow> Inl e
            | Inr evTypes_size \<Rightarrow>
                let hierarchy_ratio = safeDiv_cff sub C;
                    warrant_ratio = safeDiv_cff W C;
                    structure_weight = structureWeight st;
                    AAS_raw = (0.4 * hierarchy_ratio) + (0.4 * warrant_ratio)
                              + (0.2 * structure_weight);
                    AAS = clamp01_cff AAS_raw;
                    transition_density = safeDiv_cff T U;
                    valid_transition_ratio = safeDiv_cff Tok T;
                    CTF_raw = (0.6 * transition_density) + (0.4 * valid_transition_ratio);
                    CTF = clamp01_cff CTF_raw;
                    progress_rate = safeDiv_cff R U;
                    friction_rate = safeDiv_cff (hedges + loops) U;
                    RMD_raw = progress_rate - friction_rate;
                    RMD = clamp01_cff (0.5 + RMD_raw);
                    depth_avg = safeDiv_cff revDepthSum rev;
                    belief_bonus = (if beliefChange then 0.2 else 0.0);
                    RDX_raw = (0.7 * depth_avg) + belief_bonus;
                    RDX = clamp01_cff RDX_raw;
                    type_diversity = safeDiv_cff (real evTypes_size) 4;
                    evidence_density = safeDiv_cff E C;
                    EDS_raw = (0.6 * type_diversity) + (0.4 * evidence_density);
                    EDS = clamp01_cff EDS_raw;
                    intent_strength = (if intentMarkers > 0 then 1.0 else 0.5);
                    drift_rate = safeDiv_cff driftSeg U;
                    IFD_raw = intent_strength - drift_rate;
                    IFD = clamp01_cff IFD_raw
                in Inr (JObj [(''AAS'', JNum AAS), (''CTF'', JNum CTF), (''RMD'', JNum RMD),
                              (''RDX'', JNum RDX), (''EDS'', JNum EDS), (''IFD'', JNum IFD)])))"

section \<open>Observed patterns (cff.ts, Backend\_5\_Observed Reasoning Patterns)\<close>

datatype ProfileCode = RE | IE | EW | AR | SI | RR | HE | MD

fun profile_key :: "ProfileCode \<Rightarrow> string" where
  "profile_key RE = ''RE''"
| "profile_key IE = ''IE''"
| "profile_key EW = ''EW''"
| "profile_key AR = ''AR''"
| "profile_key SI = ''SI''"
| "profile_key RR = ''RR''"
| "profile_key HE = ''HE''"
| "profile_key MD = ''MD''"

record ProfileMeta =
  pm_code :: ProfileCode
  pm_label :: string
  pm_description :: string

fun OBSERVED_PROFILE_META :: "ProfileCode \<Rightarrow> ProfileMeta" where
  "OBSERVED_PROFILE_META RE = \<lparr>
     pm_code = RE,
     pm_label = ''Reflective Explorer'',
     pm_description =
       ''Reflective Explorer shows active self-revision and exploratory restructuring during reasoning. Thought progresses through reflection, reassessment, and adaptive refinement.''\<rparr>"
| "OBSERVED_PROFILE_META IE = \<lparr>
     pm_code = IE,
     pm_label = ''Intuitive Explorer'',
     pm_description =
       ''Intuitive Explorer advances reasoning through associative leaps and conceptual exploration. Structure emerges gradually rather than being predefined.''\<rparr>"
| "OBSERVED_PROFILE_META EW = \<lparr>
     pm_code = EW,
     pm_label = ''Evidence Weaver'',
     pm_description =
       ''Evidence Weaver emphasizes linking claims with supporting material. Reasoning strength lies in evidence connectivity rather than abstract inference.''\<rparr>"
| "OBSERVED_PROFILE_META AR = \<lparr>
     pm_code = AR,
     pm_label = ''Analytical Reasoner'',
     pm_description =
       ''Analytical Reasoner breaks a problem into explicit components and evaluates them through stepwise logic. Reasoning emphasizes clear structure, rule-based validation, and consistency across claims and supporting points.''\<rparr>"
| "OBSERVED_PROFILE_META SI = \<lparr>
     pm_code = SI,
     pm_label = ''Strategic Integrator'',
     pm_description =
       ''Strategic Integrator aligns multiple reasoning strands into a unified direction. Decision-making reflects coordination and long-term framing.''\<rparr>"
| "OBSERVED_PROFILE_META RR = \<lparr>
     pm_code = RR,
     pm_label = ''Reflective Regulator'',
     pm_description =
       ''Reflective Regulator actively monitors and controls reasoning boundaries. This type prioritizes balance, restraint, and intentional stopping points.''\<rparr>"
| "OBSERVED_PROFILE_META HE = \<lparr>
     pm_code = HE,
     pm_label = ''Human Expressionist'',
     pm_description =
       ''Human Expressionist expresses reasoning through narrative and contextual meaning. Communication clarity and human resonance are central.''\<rparr>"
| "OBSERVED_PROFILE_META MD = \<lparr>
     pm_code = MD,
     pm_label = ''Machine-Dominant'',
     pm_description =
       ''Machine-Dominant pattern reflects heavy dependence on automated or system-driven reasoning flow. Human agency signals are limited.''\<rparr>"

record CoreAxes =
  core_AAS :: "real option"
  core_CTF :: "real option"
  core_RMD :: "real option"
  core_RDX :: "real option"
  core_EDS :: "real option"
  core_IFD :: "real option"
  core_KPF :: "real option"
  core_TPS :: "real option"
  core_Analyticity :: "real option"
  core_Flow :: "real option"
  core_MetacogRaw :: "real option"

record ObservedProfileScore =
  ops_meta :: ProfileMeta
  ops_score :: "real option"
  ops_pass_rule :: bool
  ops_reason :: "string list option"

text \<open>The loop of \<open>weightedAvg\<close> keeps the pair \<open>(W, S)\<close>.\<close>

definition weightedAvg :: "(real option \<times> real) list \<Rightarrow> real option" where
  "weightedAvg terms =
     (let WS = fold (\<lambda>t ws. case fst t of None \<Rightarrow> ws
                              | Some v \<Rightarrow> (fst ws + snd t, snd ws + v * snd t))
                 terms (0, 0)
      in if fst WS \<le> 0 then None else Some (snd WS / fst WS))"

definition scoreRE :: "CoreAxes \<Rightarrow> real option" where
  "scoreRE core = weightedAvg [(core_RDX core, 0.45), (core_CTF core, 0.30), (core_RMD core, 0.25)]"

definition scoreIE :: "CoreAxes \<Rightarrow> real option" where
  "scoreIE core =
     (case (core_Flow core, core_Analyticity core) of
        (Some f, Some a) \<Rightarrow> Some (clamp01 (0.60 * f + 0.40 * (1 - a)))
      | _ \<Rightarrow> None)"

definition scoreEW :: "CoreAxes \<Rightarrow> real option" where
  "scoreEW core = weightedAvg [(core_EDS core, 0.55), (core_AAS core, 0.45)]"

definition scoreAR :: "CoreAxes \<Rightarrow> real option" where
  "scoreAR core =
     (let base = weightedAvg [(core_AAS core, 0.65), (core_EDS core, 0.35)]
      in if base = None \<and> core_CTF core = None then None
         else
           let out = (case base of Some b \<Rightarrow> b | None \<Rightarrow> 0)
                     - (case core_CTF core of None \<Rightarrow> 0 | Some c \<Rightarrow> 0.20 * c)
           in Some (clamp01 out))"

definition scoreSI :: "CoreAxes \<Rightarrow> real option" where
  "scoreSI core =
     (case (core_Analyticity core, core_Flow core, core_MetacogRaw core) of
        (Some a, Some f, Some m) \<Rightarrow> Some (clamp01 (min (min a f) m))
      | _ \<Rightarrow> None)"

definition scoreRR :: "CoreAxes \<Rightarrow> real option" where
  "scoreRR core =
     weightedAvg [(core_RDX core, 0.60),
                  (case core_IFD core of None \<Rightarrow> None | Some i \<Rightarrow> Some (1 - i), 0.40)]"

definition authenticity_core :: "CoreAxes \<Rightarrow> real option" where
  "authenticity_core core =
     (case (core_KPF core, core_TPS core) of
        (None, None) \<Rightarrow> None
      | (Some k, Some t) \<Rightarrow> Some ((1 - k + t) / 2)
      | (Some k, None) \<Rightarrow> Some (1 - k)
      | (None, Some t) \<Rightarrow> Some t)"

definition machineScore_core :: "CoreAxes \<Rightarrow> real option" where
  "machineScore_core core =
     (case (core_KPF core, core_TPS core) of
        (None, None) \<Rightarrow> None
      | (Some k, Some t) \<Rightarrow> Some ((k + (1 - t)) / 2)
      | (Some k, None) \<Rightarrow> Some k
      | (None, Some t) \<Rightarrow> Some (1 - t))"

definition scoreHE :: "CoreAxes \<Rightarrow> real option" where
  "scoreHE core =
     (case authenticity_core core of
        None \<Rightarrow> None
      | Some A \<Rightarrow>
          Some (clamp01 (0.55 * A
                         + 0.25 * (case core_CTF core of Some c \<Rightarrow> c | None \<Rightarrow> 0)
                         + 0.20 * (case core_RMD core of Some r \<Rightarrow> r | None \<Rightarrow> 0))))"

definition scoreMD :: "CoreAxes \<Rightarrow> real option" where
  "scoreMD core =
     (case machineScore_core core of None \<Rightarrow> None | Some M \<Rightarrow> Some (clamp01 M))"

text \<open>
  \<open>passRule\<close>. The last argument is the text of \<^verbatim>\<open>${TH}\<close> in the template of the
  reason.
\<close>

definition passRule ::
  "ProfileCode \<Rightarrow> CoreAxes \<Rightarrow> real option \<Rightarrow> real \<Rightarrow> string \<Rightarrow> bool \<times> string list option" where
  "passRule code core score TH TH_text =
     (case score of
        None \<Rightarrow>
          (False,
           Some [if code = HE \<or> code = MD
                 then (if core_KPF core = None \<and> core_TPS core = None
                       then ''KPF-Sim and TPS-H are not available, score is not computable''
                       else ''KPF-Sim or TPS-H available, but required inputs for score are missing'')
                 else ''Required indicators missing, score is not computable''])
      | Some s \<Rightarrow>
          let pass = (s \<ge> TH);
              reason = (if \<not> pass then [''score < threshold ('' @ TH_text @ '')''] else [])
          in (pass, if reason \<noteq> [] then Some reason else None))"

record ObservedPatternsOutV2 =
  op_threshold :: real
  op_min_count :: nat
  op_max_count :: nat
  all_profiles :: "ObservedProfileScore list"
  profiles :: "ObservedProfileScore list"

text \<open>
  \<open>computeObservedPatternsV2\<close> as the pipeline calls it, without options: the
  threshold is the default \<open>0.62\<close> (whose text is \<^verbatim>\<open>0.62\<close>), the minimum 2 and the
  maximum 3. The pool holds the profiles with a score, so \<open>the\<close> is applied to scores
  that are present only.
\<close>

definition computeObservedPatternsV2 :: "CoreAxes \<Rightarrow> ObservedPatternsOutV2" where
  "computeObservedPatternsV2 core =
     (let TH = 0.62; observed_min = 2; observed_max = 3;
          order = [RE, IE, EW, AR, SI, RR, HE, MD];
          rawScores = (\<lambda>code. case code of
                         RE \<Rightarrow> scoreRE core | IE \<Rightarrow> scoreIE core | EW \<Rightarrow> scoreEW core
                       | AR \<Rightarrow> scoreAR core | SI \<Rightarrow> scoreSI core | RR \<Rightarrow> scoreRR core
                       | HE \<Rightarrow> scoreHE core | MD \<Rightarrow> scoreMD core);
          all = map (\<lambda>code.
                   let s0 = rawScores code;
                       s = (case s0 of None \<Rightarrow> None | Some x \<Rightarrow> Some (clamp01 x));
                       pr = passRule code core s TH ''0.62''
                   in \<lparr> ops_meta = OBSERVED_PROFILE_META code, ops_score = s,
                        ops_pass_rule = fst pr, ops_reason = snd pr \<rparr>) order;
          pool = sort_cmp (\<lambda>a b. the (ops_score b) - the (ops_score a))
                   (filter (\<lambda>p. ops_score p \<noteq> None) all);
          picked0 = filter (\<lambda>p. the (ops_score p) \<ge> TH) pool;
          picked1 = (if length picked0 > observed_max then take observed_max picked0 else picked0);
          picked2 = (if length picked1 < observed_min then take (min observed_min (length pool)) pool else picked1)
      in \<lparr> op_threshold = TH, op_min_count = observed_min, op_max_count = observed_max,
           all_profiles = all, profiles = picked2 \<rparr>)"

text \<open>
  \<open>deriveCff\<close> passes the raw features themselves as the axes. The axes are read
  from the fields of that name.
\<close>

definition CoreAxes_fields :: "string list" where
  "CoreAxes_fields =
     [''AAS'', ''CTF'', ''RMD'', ''RDX'', ''EDS'', ''IFD'', ''KPF'', ''TPS'',
      ''Analyticity'', ''Flow'', ''MetacogRaw'']"

definition coreAxes_of :: "json \<Rightarrow> CoreAxes" where
  "coreAxes_of v =
     \<lparr> core_AAS = numOpt (opt_get v ''AAS''), core_CTF = numOpt (opt_get v ''CTF''),
       core_RMD = numOpt (opt_get v ''RMD''), core_RDX = numOpt (opt_get v ''RDX''),
       core_EDS = numOpt (opt_get v ''EDS''), core_IFD = numOpt (opt_get v ''IFD''),
       core_KPF = numOpt (opt_get v ''KPF''), core_TPS = numOpt (opt_get v ''TPS''),
       core_Analyticity = numOpt (opt_get v ''Analyticity''),
       core_Flow = numOpt (opt_get v ''Flow''),
       core_MetacogRaw = numOpt (opt_get v ''MetacogRaw'') \<rparr>"

text \<open>The objects as the source builds them, key by key.\<close>

definition json_of_opt_num :: "real option \<Rightarrow> json" where
  "json_of_opt_num x = (case x of None \<Rightarrow> JNull | Some r \<Rightarrow> JNum r)"

definition json_of_profile :: "ObservedProfileScore \<Rightarrow> json" where
  "json_of_profile p =
     JObj [(''code'', JStr (profile_key (pm_code (ops_meta p)))),
           (''label'', JStr (pm_label (ops_meta p))),
           (''description'', JStr (pm_description (ops_meta p))),
           (''score'', json_of_opt_num (ops_score p)),
           (''pass_rule'', JBool (ops_pass_rule p)),
           (''reason'', case ops_reason p of None \<Rightarrow> JUndef | Some rs \<Rightarrow> JArr (map JStr rs))]"

definition json_of_observed :: "ObservedPatternsOutV2 \<Rightarrow> json" where
  "json_of_observed r =
     JObj [(''layer'', JStr ''Cognitive Pattern Profile Layer''),
           (''selection_rule'',
              JObj [(''threshold'', JNum (op_threshold r)),
                    (''min_count'', JNum (real (op_min_count r))),
                    (''max_count'', JNum (real (op_max_count r)))]),
           (''all_profiles'', JArr (map json_of_profile (all_profiles r))),
           (''profiles'', JArr (map json_of_profile (profiles r)))]"

section \<open>deriveCff (cff.ts)\<close>

definition deriveCff :: "json \<Rightarrow> js_error + json" where
  "deriveCff input =
     (let ai = analysis_input_of input;
          raw = raw_of ai
      in (case (if truthy raw then computeCFF6_v1 raw
                else Inr (JObj [(''cff'', JObj [(''indicators'', JObj [])])])) of
            Inl e \<Rightarrow> Inl e
          | Inr cff6 \<Rightarrow>
              (case (if truthy raw
                     then (if modelled_fields raw CoreAxes_fields
                           then Inr (json_of_observed (computeObservedPatternsV2 (coreAxes_of raw)))
                           else Inl Unmodelled)
                     else Inr (JObj [(''cff'', JObj [(''observed_patterns'', JArr [])])])) of
                 Inl e \<Rightarrow> Inl e
               | Inr patterns \<Rightarrow>
                   let finalType = computeFinalDeterminationCff
                         (coalesce (opt_get (opt_get cff6 ''cff'') ''indicators'') (JObj []))
                         (Some \<lparr> t2_mode = Some Regulation,
                                 conservative_lock_ai_hybrid = Some True \<rparr>)
                   in Inr (deepMergeAll [cff6, patterns, json_of_final_type finalType]))))"

section \<open>Cohort position (rsl.ts, Backend\_3\_Cohort)\<close>

text \<open>The decimal text of a natural number, as a template literal prints an integer.\<close>

fun string_of_nat :: "nat \<Rightarrow> string" where
  "string_of_nat n =
     (if n < 10 then [char_of (48 + n)]
      else string_of_nat (n div 10) @ [char_of (48 + n mod 10)])"

declare string_of_nat.simps [simp del]

definition is_digit :: "char \<Rightarrow> bool" where
  "is_digit c = (CHR ''0'' \<le> c \<and> c \<le> CHR ''9'')"

text \<open>\<^verbatim>\<open>s.replace(/[^0-9]/g, "")\<close>\<close>

definition digits_of :: "string \<Rightarrow> string" where
  "digits_of s = filter is_digit s"

text \<open>\<^verbatim>\<open>Number(s)\<close> on a string of decimal digits; the empty string gives 0.\<close>

definition number_of_digits :: "string \<Rightarrow> real" where
  "number_of_digits s = real (foldl (\<lambda>acc c. 10 * acc + (of_char c - 48)) (0::nat) s)"

text \<open>\<open>round4\<close> rounds to three decimals, as in the source.\<close>

definition round4 :: "real \<Rightarrow> real" where
  "round4 x = js_round (x * 1000) / 1000"

text \<open>
  \<open>percentile0to1\<close>. A member of the cohort list that is not a number counts as 0
  (\<^verbatim>\<open>Number.isFinite(x) ? x : 0\<close>).
\<close>

definition percentile0to1 :: "real \<Rightarrow> json list \<Rightarrow> real" where
  "percentile0to1 friValue cohortFriList =
     (if cohortFriList = [] then 0.5
      else
        let v = friValue;
            lower = length (filter (\<lambda>x. (case finiteNumber x of Some xx \<Rightarrow> xx | None \<Rightarrow> 0) < v)
                              cohortFriList)
        in round4 (real lower / real (length cohortFriList)))"

definition topPercentLabel :: "real \<Rightarrow> string" where
  "topPercentLabel p =
     (let topPercent = js_round ((1 - p) * 100)
      in if topPercent \<le> 1 then ''Top 1%''
         else ''Top '' @ string_of_nat (nat \<lfloor>topPercent\<rfloor>) @ ''%'')"

definition cohortInterpretationFromTopPercent :: "real \<Rightarrow> string" where
  "cohortInterpretationFromTopPercent t =
     (if t \<ge> 50 then
        ''Core reasoning steps are emerging, with structure still developing compared to most peers.''
      else if t \<ge> 30 then
        ''Developing structure, with several reasoning patterns beginning to align relative to comparable peers.''
      else if t \<ge> 20 then
        ''Generally well-structured reasoning compared to most peers, with room for further stabilization.''
      else if t \<ge> 10 then
        ''Consistently structured reasoning relative to comparable peers.''
      else if t \<ge> 5 then
        ''Highly consistent reasoning structure compared to most peers, even as complexity increases.''
      else
        ''Exceptionally stable reasoning structure within the current comparison group.'')"

section \<open>Rubric and stability index from raw features (rsl.ts, Backend\_4\_SRI)\<close>

text \<open>\<^verbatim>\<open>isFiniteNumber(x) ? Math.max(0, Math.floor(x)) : fallback\<close>\<close>

definition safeInt :: "json \<Rightarrow> real \<Rightarrow> real" where
  "safeInt x fallback =
     (case finiteNumber x of Some r \<Rightarrow> max 0 (of_int \<lfloor>r\<rfloor>) | None \<Rightarrow> fallback)"

definition safeNum_rsl :: "json \<Rightarrow> real \<Rightarrow> real" where
  "safeNum_rsl x fallback = (case finiteNumber x of Some r \<Rightarrow> r | None \<Rightarrow> fallback)"

definition peak01 :: "real \<Rightarrow> real \<Rightarrow> real \<Rightarrow> real" where
  "peak01 x target width =
     (if width \<le> 0 then 0
      else let d = \<bar>x - target\<bar> in clamp01_level (Some (1 - d / width)))"

definition computeRslRubric4FromRaw :: "json \<Rightarrow> json" where
  "computeRslRubric4FromRaw raw =
     (let l0 = opt_get raw ''layer_0''; l1 = opt_get raw ''layer_1'';
          l2 = opt_get raw ''layer_2''; l3 = opt_get raw ''layer_3'';
          units = max 1 (safeInt (opt_get l0 ''units'') 1);
          claims = safeInt (opt_get l0 ''claims'') 0;
          reasons = safeInt (opt_get l0 ''reasons'') 0;
          evidence = safeInt (opt_get l0 ''evidence'') 0;
          warrants = safeInt (opt_get l1 ''warrants'') 0;
          counterpoints = safeInt (opt_get l1 ''counterpoints'') 0;
          refutations = safeInt (opt_get l1 ''refutations'') 0;
          transitions = safeInt (opt_get l2 ''transitions'') 0;
          transitionOk = safeInt (opt_get l2 ''transition_ok'') 0;
          revisions = safeInt (opt_get l2 ''revisions'') 0;
          revisionDepthSum = safeNum_rsl (opt_get l2 ''revision_depth_sum'') 0;
          intentMarkers = safeInt (opt_get l3 ''intent_markers'') 0;
          driftSegments = safeInt (opt_get l3 ''drift_segments'') 0;
          hedges = safeInt (opt_get l3 ''hedges'') 0;
          loops = safeInt (opt_get l3 ''loops'') 0;
          selfReg = safeInt (opt_get l3 ''self_regulation_signals'') 0;
          adjacencyLinks = safeInt (opt_get raw ''adjacency_links'') 0;
          denomTrans = max 1 (units - 1);
          transRate = clamp01_level (Some (transitions / denomTrans));
          transQuality = clamp01_level (Some (transitionOk / max 1 transitions));
          revRate = clamp01_level (Some (revisions / max 1 units));
          revDepthAvg = revisionDepthSum / max 1 revisions;
          revDepth01 = clamp01_level (Some (revDepthAvg / 1.5));
          driftRate = clamp01_level (Some ((driftSegments + loops) / max 1 units));
          driftPenalty = driftRate;
          atoms = max 1 (claims + reasons + warrants + evidence);
          adjacency01 = clamp01_level (Some (adjacencyLinks / atoms));
          evidencePerClaim = evidence / max 1 claims;
          warrantsPerClaim = warrants / max 1 claims;
          counterRefPerClaim = (counterpoints + refutations) / max 1 claims;
          evidence01 = clamp01_level (Some (evidencePerClaim / 1.0));
          warrant01 = clamp01_level (Some (warrantsPerClaim / 1.0));
          counterRef01 = clamp01_level (Some (counterRefPerClaim / 0.6));
          hedgeRate = hedges / max 1 claims;
          hedgePenalty = clamp01_level (Some (hedgeRate / 0.7));
          balance01 = entropy01 [claims, reasons, warrants, evidence];
          coherence01 = clamp01_level (Some
            (0.45 * transQuality + 0.25 * adjacency01 + 0.30 * (1 - driftPenalty)));
          revModeration01 = peak01 revRate 0.15 0.15;
          intent01 = clamp01_level (Some (intentMarkers / 2));
          structure01 = clamp01_level (Some
            (0.40 * transRate + 0.30 * intent01 + 0.30 * revModeration01));
          evaluation01 = clamp01_level (Some
            (0.35 * evidence01 + 0.25 * warrant01 + 0.25 * counterRef01
             + 0.15 * (1 - hedgePenalty)));
          selfReg01 = clamp01_level (Some (selfReg / 2));
          integration01 = clamp01_level (Some
            (0.50 * balance01 + 0.20 * selfReg01 + 0.20 * transQuality + 0.10 * revDepth01));
          coherence = round2 (5 * coherence01);
          structure = round2 (5 * structure01);
          evaluationScore = round2 (5 * evaluation01);
          integration = round2 (5 * integration01)
      in JObj [(''coherence'', JNum coherence), (''structure'', JNum structure),
               (''evaluation'', JNum evaluationScore), (''integration'', JNum integration)])"

definition mean_rsl :: "real list \<Rightarrow> real" where
  "mean_rsl xs = (if xs = [] then 0 else foldl (\<lambda>a b. a + b) 0 xs / real (length xs))"

definition std_rsl :: "real list \<Rightarrow> real" where
  "std_rsl xs =
     (if xs = [] then 0
      else let m = mean_rsl xs; v = mean_rsl (map (\<lambda>x. (x - m) ^ 2) xs) in sqrt v)"

definition computeVarianceScore :: "real list \<Rightarrow> real" where
  "computeVarianceScore rslVector01 = (let s = std_rsl rslVector01 in clamp01_level (Some (s / 0.5)))"

record SRIOutput =
  sri :: real
  sri_notes :: string

text \<open>
  \<open>computeSRI\<close> on the three values \<open>deriveRsl\<close> hands it. Of its result
  \<open>deriveRsl\<close> reads \<^verbatim>\<open>sri\<close> and \<^verbatim>\<open>notes\<close>; the band and the diagnostics are
  not part of the record here.
\<close>

definition computeSRI :: "json \<Rightarrow> json \<Rightarrow> json \<Rightarrow> SRIOutput" where
  "computeSRI rslVector transitionJumpScore metaImbalanceScore =
     (case rslVector of
        JArr xs \<Rightarrow>
          if length xs < 2 then
            \<lparr> sri = 0.5, sri_notes =
               ''Structural reliability is not fully available due to insufficient structural data. Results are shown with coaching emphasis.'' \<rparr>
          else
            let v01 = map (\<lambda>x. clamp01_level (Some (case finiteNumber x of Some r \<Rightarrow> r | None \<Rightarrow> 0))) xs;
                varianceScore = computeVarianceScore v01;
                transitionScore = clamp01_level (Some
                  (case finiteNumber transitionJumpScore of Some r \<Rightarrow> r | None \<Rightarrow> 0.5));
                metaScore = clamp01_level (Some
                  (case finiteNumber metaImbalanceScore of Some r \<Rightarrow> r | None \<Rightarrow> 0.5));
                wVar = 0.4; wTrans = 0.3; wMeta = 0.3;
                instability = clamp01_level (Some
                  (wVar * varianceScore + wTrans * transitionScore + wMeta * metaScore));
                sriv = clamp01_level (Some (1 - instability))
            in if sriv \<ge> 0.8 then
                 \<lparr> sri = sriv, sri_notes =
                    ''Structural coherence is consistently maintained across reasoning segments. The structural reference is considered stable.'' \<rparr>
               else if sriv \<ge> 0.65 then
                 \<lparr> sri = sriv, sri_notes =
                    ''Structural coherence is generally maintained, with localized variability across segments. Stability is acceptable with moderate fluctuation.'' \<rparr>
               else
                 \<lparr> sri = sriv, sri_notes =
                    ''Structural variability is evident across reasoning segments. Stability is limited and interpretive caution is advised.'' \<rparr>
      | _ \<Rightarrow>
          \<lparr> sri = 0.5, sri_notes =
             ''Structural reliability is not fully available due to insufficient structural data. Results are shown with coaching emphasis.'' \<rparr>)"

section \<open>deriveRsl (rsl.ts)\<close>

text \<open>
  The local \<open>deepMerge\<close> of \<open>deriveRsl\<close> copies instead of mutating. \<open>deriveRsl\<close> calls
  it on plain objects only; on two plain objects its value is that of
  \<open>deepMergeInto\<close>. With an array as an argument (which does not occur) the model
  returns the first argument.
\<close>

definition deepMerge :: "json \<Rightarrow> json \<Rightarrow> json" where
  "deepMerge a b =
     (if \<not> (isPlainObject a \<or> (case a of JArr _ \<Rightarrow> True | _ \<Rightarrow> False)) then b
      else if \<not> (isPlainObject b \<or> (case b of JArr _ \<Rightarrow> True | _ \<Rightarrow> False)) then a
      else if isPlainObject a \<and> isPlainObject b then JObj (deepMergeInto (props a) (props b))
      else a)"

text \<open>\<^verbatim>\<open>Object.assign(target, src)\<close> on plain objects: every key of \<open>src\<close> is set.\<close>

definition object_assign :: "json \<Rightarrow> json \<Rightarrow> json" where
  "object_assign target src =
     JObj (fold (\<lambda>kv out. AList.update (fst kv) (snd kv) out) (props src) (props target))"

text \<open>\<^verbatim>\<open>obj.k = v\<close> on a plain object.\<close>

definition set_prop :: "json \<Rightarrow> string \<Rightarrow> json \<Rightarrow> json" where
  "set_prop obj k v = JObj (AList.update k v (props obj))"

fun level_key :: "RSLLevelCode \<Rightarrow> string" where
  "level_key L1 = ''L1''"
| "level_key L2 = ''L2''"
| "level_key L3 = ''L3''"
| "level_key L4 = ''L4''"
| "level_key L5 = ''L5''"
| "level_key L6 = ''L6''"

definition json_of_level_meta :: "RSLLevelMeta \<Rightarrow> json" where
  "json_of_level_meta m =
     JObj [(''level_short_name'', JStr (level_short_name m)),
           (''level_full_name'', JStr (level_full_name m)),
           (''level_description'', JStr (level_description m))]"

definition json_of_fri :: "FRIResult \<Rightarrow> json" where
  "json_of_fri r =
     JObj [(''rsl'', JObj [(''fri'', JObj [(''score'', JNum (fri_score r)),
                                         (''interpretation'', JStr (fri_interpretation r))])])]"

text \<open>
  \<^verbatim>\<open>Number(v ?? w ?? 0)\<close> for two candidate fields. The model covers a number or a
  missing value.
\<close>

definition number_of2 :: "json \<Rightarrow> json \<Rightarrow> js_error + real" where
  "number_of2 v w =
     (case coalesce v (coalesce w (JNum 0)) of JNum r \<Rightarrow> Inr r | _ \<Rightarrow> Inl Unmodelled)"

text \<open>A statement that may throw, followed by the rest of the function.\<close>

definition bind_err :: "'e + 'a \<Rightarrow> ('a \<Rightarrow> 'e + 'b) \<Rightarrow> 'e + 'b" where
  "bind_err m f = (case m of Inl e \<Rightarrow> Inl e | Inr x \<Rightarrow> f x)"

definition deriveRsl :: "json \<Rightarrow> js_error + json" where
  "deriveRsl input =
     (let ai = analysis_input_of input;
          raw = raw_of ai;
          rubric = coalesce (opt_get ai ''rsl_rubric'')
                     (coalesce (opt_get ai ''rubric'') (opt_get ai ''rslRubric''))
      in
      bind_err (number_of2 (opt_get rubric ''coherence'')
                  (opt_get rubric ''coherence_rubric_0to5'')) (\<lambda>coherence.
      bind_err (number_of2 (opt_get rubric ''structure'')
                  (opt_get rubric ''structure_rubric_0to5'')) (\<lambda>structure.
      bind_err (number_of2 (opt_get rubric ''evaluation'')
                  (opt_get rubric ''evaluation_rubric_0to5'')) (\<lambda>evaluation.
      bind_err (number_of2 (opt_get rubric ''integration'')
                  (opt_get rubric ''integration_rubric_0to5'')) (\<lambda>integration.
      bind_err (number_of2 (opt_get (opt_get raw ''layer_0'') ''evidence'')
                  (opt_get (opt_get raw ''layer_0'') ''evidence_count'')) (\<lambda>evidenceCount.
      let hasCounterpoint = truthy (coalesce (opt_get (opt_get raw ''layer_1'') ''counterpoints'')
                                      (opt_get (opt_get raw ''layer_1'') ''has_counterpoint''));
          hasRefutation = truthy (coalesce (opt_get (opt_get raw ''layer_1'') ''refutations'')
                                    (opt_get (opt_get raw ''layer_1'') ''has_refutation''));
          levelRes = computeRSLLevel
            \<lparr> coherence_rubric_0to5 = Fin coherence, structure_rubric_0to5 = Fin structure,
              evaluation_rubric_0to5 = Fin evaluation,
              integration_rubric_0to5 = Fin integration,
              evidence_count = Some (Fin evidenceCount), evidence_link_rate_0to1 = None,
              has_counterpoint = Some hasCounterpoint, has_refutation = Some hasRefutation \<rparr>
            levelFlags levelPolicy;
          friRes = computeFRI (Fin coherence) (Fin structure) (Fin evaluation) (Fin integration);
          cohortList = (case opt_get ai ''cohort_fri_list'' of JArr xs \<Rightarrow> xs | _ \<Rightarrow> []);
          friScore = fri_score friRes;
          pct = percentile0to1 friScore cohortList;
          topLabel = topPercentLabel pct;
          topDigits = number_of_digits (digits_of topLabel);
          topValue = (if topDigits \<noteq> 0 then topDigits else js_round ((1 - pct) * 100));
          cohort_rsl =
            JObj [(''charts'', JObj [(''cohort_positioning'', JObj
               [(''current'', JObj [(''x'', JNum pct), (''y'', JNum friScore)]),
                (''percentile_0to1'', JNum pct),
                (''top_percent_label'', JStr topLabel),
                (''interpretation'', JStr (cohortInterpretationFromTopPercent topValue))])])];
          rubric4 = (if truthy raw then computeRslRubric4FromRaw raw else JNull);
          sriOut =
            (if truthy rubric4 \<and> truthy (opt_get rubric4 ''rslVector'')
             then
               let s = computeSRI (opt_get rubric4 ''rslVector'')
                         (coalesce (opt_get rubric4 ''transitionJumpScore'') JNull)
                         (coalesce (opt_get rubric4 ''metaImbalanceScore'') JNull)
               in JObj [(''rsl'', JObj [(''sri'', JObj [(''score'', JNum (sri s)),
                                                    (''interpretation'', JStr (sri_notes s))])])]
             else JNull);
          out0 = JObj [(''rsl'', JObj
                   [(''level'', JStr (level_key (level levelRes))),
                    (''level_meta'', json_of_level_meta (meta levelRes)),
                    (''rubric'', JObj [(''coherence'', JNum coherence),
                                      (''structure'', JNum structure),
                                      (''evaluation'', JNum evaluation),
                                      (''integration'', JNum integration)])])];
          out1 = object_assign out0 (json_of_fri friRes);
          out2 = set_prop out1 ''rsl'' (deepMerge (opt_get out1 ''rsl'') cohort_rsl);
          out3 = (if truthy rubric4 \<and> truthy (opt_get (opt_get rubric4 ''rsl'') ''rubric4'')
                  then set_prop out2 ''rsl'' (deepMerge (opt_get out2 ''rsl'') (opt_get rubric4 ''rsl''))
                  else out2);
          out4 = (if truthy sriOut
                  then set_prop out3 ''rsl'' (deepMerge (opt_get out3 ''rsl'') (opt_get sriOut ''rsl''))
                  else out3)
      in Inr out4))))))"

section \<open>Cognitive style (rfs.ts, Backend\_12\_Cognitive Style Summary)\<close>

record StyleInputs =
  si_aas :: real
  si_ctf :: real
  si_rmd :: real
  si_rdx :: real
  si_eds :: real
  si_ifd :: real
  rsl_control :: real
  rsl_validation :: real
  rsl_hypothesis :: real
  rsl_expansion :: real

text \<open>\<open>safe01\<close> on a number.\<close>

definition safe01 :: "real \<Rightarrow> real" where
  "safe01 x = clamp01 x"

definition DEFAULT_PRIMARY_PATTERN :: "nat \<Rightarrow> string" where
  "DEFAULT_PRIMARY_PATTERN styleId =
     (if styleId = 1 then ''Reflective Explorer''
      else if styleId = 2 then ''Reflective Explorer''
      else if styleId = 3 then ''Analytical Reasoner''
      else if styleId = 4 then ''Intuitive Explorer''
      else if styleId = 5 then ''Reflective Explorer''
      else if styleId = 6 then ''Procedural Thinker''
      else if styleId = 7 then ''Creative Explorer''
      else if styleId = 8 then ''Associative Thinker''
      else ''Linear Responder'')"

definition PHRASE_MAP :: "nat \<Rightarrow> string" where
  "PHRASE_MAP styleId =
     (if styleId = 1 then ''structured and exploratory''
      else if styleId = 2 then ''structured but exploratory''
      else if styleId = 3 then ''highly structured and deliberate''
      else if styleId = 4 then ''exploratory with emerging structure''
      else if styleId = 5 then ''balanced and adaptive''
      else if styleId = 6 then ''moderately structured and steady''
      else if styleId = 7 then ''highly exploratory and fluid''
      else if styleId = 8 then ''loosely structured with exploration''
      else ''unstructured and linear'')"

definition computeStructureScore :: "StyleInputs \<Rightarrow> real" where
  "computeStructureScore m =
     (let s = 0.40 * safe01 (si_rdx m) + 0.30 * safe01 (si_aas m) + 0.20 * safe01 (si_eds m)
              + 0.10 * (1 - safe01 (si_ifd m))
      in clamp01 s)"

definition computeExplorationScore :: "StyleInputs \<Rightarrow> real" where
  "computeExplorationScore m =
     (let e = 0.45 * safe01 (si_ctf m) + 0.25 * safe01 (si_rmd m)
              + 0.20 * safe01 (rsl_hypothesis m) + 0.10 * safe01 (rsl_expansion m)
      in clamp01 e)"

definition classifyStyleId :: "real \<Rightarrow> real \<Rightarrow> nat" where
  "classifyStyleId structure exploration =
     (let S = clamp01 structure; E = clamp01 exploration
      in if S \<ge> 0.67 \<and> E \<ge> 0.67 then 1
         else if S \<ge> 0.67 \<and> E \<ge> 0.45 then 2
         else if S \<ge> 0.67 \<and> E < 0.45 then 3
         else if S \<ge> 0.45 \<and> E \<ge> 0.67 then 4
         else if S \<ge> 0.45 \<and> E \<ge> 0.45 then 5
         else if S \<ge> 0.45 \<and> E < 0.45 then 6
         else if S < 0.45 \<and> E \<ge> 0.67 then 7
         else if S < 0.45 \<and> E \<ge> 0.45 then 8
         else 9)"

definition computeRfs9Type :: "StyleInputs \<Rightarrow> json" where
  "computeRfs9Type inputs =
     (let structure = computeStructureScore inputs;
          exploration = computeExplorationScore inputs;
          styleId = classifyStyleId structure exploration
      in JObj [(''rfs'', JObj [(''primary_pattern'', JStr (DEFAULT_PRIMARY_PATTERN styleId)),
                              (''representative_phrase'', JStr (PHRASE_MAP styleId))])])"

text \<open>
  \<open>computeRfsFromPayload\<close> on the payload that \<open>deriveRfs\<close> builds: six numbers under
  \<^verbatim>\<open>cff\<close> and no \<^verbatim>\<open>rsl\<close>, so the four proxies are \<^verbatim>\<open>safe01(0)\<close>.
\<close>

definition computeRfsFromPayload :: "real \<Rightarrow> real \<Rightarrow> real \<Rightarrow> real \<Rightarrow> real \<Rightarrow> real \<Rightarrow> json" where
  "computeRfsFromPayload aas ctf rmd rdx eds ifd =
     computeRfs9Type
       \<lparr> si_aas = safe01 aas, si_ctf = safe01 ctf, si_rmd = safe01 rmd, si_rdx = safe01 rdx,
         si_eds = safe01 eds, si_ifd = safe01 ifd,
         rsl_control = safe01 0, rsl_validation = safe01 0, rsl_hypothesis = safe01 0,
         rsl_expansion = safe01 0 \<rparr>"

section \<open>deriveRfs (rfs.ts)\<close>

text \<open>
  With a non-empty \<^verbatim>\<open>role_configs\<close>, \<open>deriveRfs\<close> calls \<open>computeRfsJobGroupTop3\<close> with
  \<^verbatim>\<open>style.rfs\<close> as the role-fit input, an object that has no \<^verbatim>\<open>axes\<close>. The map over
  the roles starts with the first role: reading \<^verbatim>\<open>cfg.job_id\<close> throws a TypeError
  when the role is \<^verbatim>\<open>null\<close>; an unknown job id throws the error of the job lookup;
  after that \<open>checkMinRequirements\<close> and \<open>assertAxes01\<close> read a property of the missing
  \<^verbatim>\<open>input.axes\<close> (or of a missing \<^verbatim>\<open>min_requirements\<close>), which is a TypeError on
  every path. So the call never returns. A job id that is a number, an array or an
  object is converted to a property key, which is outside the model.
\<close>

definition roleFit_of_style :: "json list \<Rightarrow> js_error" where
  "roleFit_of_style roleConfigs =
     (let cfg = hd roleConfigs
      in if nullish cfg then TypeError
         else (case opt_get cfg ''job_id'' of
                 JStr s \<Rightarrow> (case JOB_INDEX s of None \<Rightarrow> JobIdNotFound s | Some _ \<Rightarrow> TypeError)
               | JUndef \<Rightarrow> JobIdNotFound ''undefined''
               | JNull \<Rightarrow> JobIdNotFound ''null''
               | JBool b \<Rightarrow> JobIdNotFound (if b then ''true'' else ''false'')
               | _ \<Rightarrow> Unmodelled))"

definition deriveRfs :: "json \<Rightarrow> js_error + json" where
  "deriveRfs input =
     (let ai = analysis_input_of input;
          indicators = coalesce (opt_get (opt_get input ''cff'') ''indicators'')
                         (coalesce (opt_get (opt_get ai ''cff'') ''indicators'') (JObj []))
      in
      bind_err (number_of2 (opt_get indicators ''AAS'') (opt_get indicators ''aas'')) (\<lambda>aas.
      bind_err (number_of2 (opt_get indicators ''CTF'') (opt_get indicators ''ctf'')) (\<lambda>ctf.
      bind_err (number_of2 (opt_get indicators ''RMD'') (opt_get indicators ''rmd'')) (\<lambda>rmd.
      bind_err (number_of2 (opt_get indicators ''RDX'') (opt_get indicators ''rdx'')) (\<lambda>rdx.
      bind_err (number_of2 (opt_get indicators ''EDS'') (opt_get indicators ''eds'')) (\<lambda>eds.
      bind_err (number_of2 (opt_get indicators ''IFD'') (opt_get indicators ''ifd'')) (\<lambda>ifd.
      let style = computeRfsFromPayload aas ctf rmd rdx eds ifd;
          roleConfigs = (case opt_get ai ''role_configs'' of JArr xs \<Rightarrow> xs | _ \<Rightarrow> [])
      in if length roleConfigs > 0 then Inl (roleFit_of_style roleConfigs)
         else Inr style)))))))"

section \<open>Control axes (rc.ts, Backend\_8)\<close>

text \<open>\<^verbatim>\<open>isFiniteNumber(x) ? x : 0\<close>\<close>

definition n0 :: "json \<Rightarrow> real" where
  "n0 x = (case finiteNumber x of Some r \<Rightarrow> r | None \<Rightarrow> 0)"

text \<open>The \<open>safeDiv\<close> of the control summary (Backend\_8): \<^verbatim>\<open>a / Math.max(1, b)\<close>.\<close>

definition safeDiv_rc :: "real \<Rightarrow> real \<Rightarrow> real" where
  "safeDiv_rc a b = a / max 1 b"

definition sat :: "real \<Rightarrow> real \<Rightarrow> real" where
  "sat x k = (let xx = (if x < 0 then 0 else x) in xx / (xx + k))"

definition computeADR_min :: "json \<Rightarrow> ControlVector" where
  "computeADR_min raw =
     (let l0 = opt_get raw ''layer_0''; l1 = opt_get raw ''layer_1'';
          l2 = opt_get raw ''layer_2''; l3 = opt_get raw ''layer_3'';
          U = max 1 (of_int \<lfloor>n0 (opt_get l0 ''units'')\<rfloor>);
          C = max 0 (n0 (opt_get l0 ''claims''));
          reasons = max 0 (n0 (opt_get l0 ''reasons''));
          evidence = max 0 (n0 (opt_get l0 ''evidence''));
          counterpoints = max 0 (n0 (opt_get l1 ''counterpoints''));
          refutations = max 0 (n0 (opt_get l1 ''refutations''));
          transitions = max 0 (n0 (opt_get l2 ''transitions''));
          transitionOk = max 0 (n0 (opt_get l2 ''transition_ok''));
          revisions = max 0 (n0 (opt_get l2 ''revisions''));
          revisionDepthSum = max 0 (n0 (opt_get l2 ''revision_depth_sum''));
          intentMarkers = max 0 (n0 (opt_get l3 ''intent_markers''));
          driftSegments = max 0 (n0 (opt_get l3 ''drift_segments''));
          selfReg = max 0 (n0 (opt_get l3 ''self_regulation_signals''));
          transitionDensity = safeDiv_rc transitions U;
          transitionQuality = clamp01 (safeDiv_rc transitionOk transitions);
          revisionRate = safeDiv_rc revisions U;
          revisionDepthAvg = safeDiv_rc revisionDepthSum (max 1 revisions);
          counterRate = safeDiv_rc (counterpoints + refutations) (max 1 C);
          intentRate = safeDiv_rc intentMarkers U;
          driftRate = safeDiv_rc driftSegments U;
          reasonRate = safeDiv_rc reasons (max 1 C);
          evidenceRate = safeDiv_rc evidence (max 1 C);
          A_core = 0.30 * sat intentRate 0.25 + 0.28 * sat revisionRate 0.30
                   + 0.24 * sat counterRate 0.35 + 0.12 * transitionQuality
                   + 0.06 * sat (safeDiv_rc selfReg U) 0.20;
          A_penalty = 0.24 * sat driftRate 0.25
                      + 0.16 * sat (transitionDensity * (1 - transitionQuality)) 0.25;
          A = clamp01 (A_core - A_penalty);
          D_core = 0.45 * sat reasonRate 0.9 + 0.35 * sat evidenceRate 0.7
                   + 0.20 * sat transitionDensity 0.7;
          D = clamp01 D_core;
          R_core = 0.32 * sat revisionRate 0.28 + 0.24 * sat revisionDepthAvg 0.9
                   + 0.22 * sat counterRate 0.30 + 0.16 * sat (safeDiv_rc selfReg U) 0.25
                   + 0.06 * transitionQuality;
          R_penalty = 0.12 * sat driftRate 0.30;
          R = clamp01 (R_core - R_penalty)
      in \<lparr> cv_A = A, cv_D = D, cv_R = R \<rparr>)"

fun band_key :: "ReliabilityBand \<Rightarrow> string" where
  "band_key HIGH = ''HIGH''"
| "band_key MEDIUM = ''MEDIUM''"
| "band_key LOW = ''LOW''"

definition computeRCFromRaw :: "json \<Rightarrow> json" where
  "computeRCFromRaw raw =
     (let adr = computeADR_min raw;
          rc = inferRCFromADR adr
      in JObj [(''rc'', JObj [(''summary'', JStr (summary rc)),
                             (''control_pattern'', JStr (control_pattern rc)),
                             (''reliability_band'', JStr (band_key (reliability_band rc))),
                             (''band_rationale'', JStr (band_rationale rc)),
                             (''pattern_interpretation'', JStr (pattern_interpretation rc))])])"

definition signalTemplate :: "string \<Rightarrow> string \<Rightarrow> string \<Rightarrow> real \<Rightarrow> string \<times> json" where
  "signalTemplate sid txt grp prio =
     (sid, JObj [(''id'', JStr sid), (''text'', JStr txt), (''group'', JStr grp),
                 (''priority'', JNum prio)])"

definition buildSignalLibraryV1_S1toS18 :: json where
  "buildSignalLibraryV1_S1toS18 = JObj
     [
      signalTemplate ''S1''
        ''Revision activity occurs at semantic decision boundaries.''
        ''REVISION'' 10,
      signalTemplate ''S2''
        ''Argument order adjustments correspond to logical correction.''
        ''REVISION'' 20,
      signalTemplate ''S3''
        ''Claim scope or conditions are refined through explicit revision.''
        ''REVISION'' 30,
      signalTemplate ''S4''
        ''Prior assumptions are explicitly re-evaluated during reasoning progression.''
        ''REVISION'' 40,
      signalTemplate ''S5''
        ''Consistency checks appear across structural transitions.''
        ''TRANSITION'' 10,
      signalTemplate ''S6''
        ''Logical transitions between claims and supporting reasons are explicitly maintained.''
        ''TRANSITION'' 20,
      signalTemplate ''S7''
        ''Structural continuity is preserved across multi-step reasoning transitions.''
        ''TRANSITION'' 30,
      signalTemplate ''S8''
        ''Alternative viewpoints are introduced and structurally examined.''
        ''COUNTER'' 10,
      signalTemplate ''S9''
        ''Counter-arguments are explicitly addressed through refutational reasoning.''
        ''COUNTER'' 20,
      signalTemplate ''S10''
        ''Evidence is evaluated against potential contradictions rather than accepted at face value.''
        ''COUNTER'' 30,
      signalTemplate ''S11''
        ''Multiple evidence types are integrated within the reasoning structure.''
        ''EVIDENCE'' 10,
      signalTemplate ''S12''
        ''Evidence placement aligns with the logical role it serves within the argument.''
        ''EVIDENCE'' 20,
      signalTemplate ''S13''
        ''Supporting evidence is selectively introduced at structurally relevant points.''
        ''EVIDENCE'' 30,
      signalTemplate ''S14''
        ''No sustained repetitive propagation is observed across reasoning segments.''
        ''NONAUTO'' 10,
      signalTemplate ''S15''
        ''Structural variation is maintained without reliance on template-like repetition.''
        ''NONAUTO'' 20,
      signalTemplate ''S16''
        ''Reasoning progression avoids uniform continuation patterns across sections.''
        ''NONAUTO'' 30,
      signalTemplate ''S17''
        ''Structural behavior reflects document-specific reasoning rather than generic composition patterns.''
        ''SPECIFICITY'' 10,
      signalTemplate ''S18''
        ''Observed structural signals vary across sections in response to local reasoning demands.''
        ''SPECIFICITY'' 20]"

section \<open>Structural control signals (rc.ts, Backend\_11)\<close>

text \<open>
  The helpers of this section are its own: \<open>safeDiv\<close> is \<^verbatim>\<open>d > 0 ? n / d : 0\<close> here.
  Its \<open>safeNum\<close> converts with \<^verbatim>\<open>Number(x)\<close> before it tests for a finite number:
  \<^verbatim>\<open>null\<close>, \<^verbatim>\<open>false\<close> and the empty string give 0, \<^verbatim>\<open>true\<close> gives 1, and
  \<^verbatim>\<open>undefined\<close> and an object give \<^verbatim>\<open>NaN\<close>, hence the fallback. What \<^verbatim>\<open>Number\<close> makes
  of a non-empty string or of an array is outside the model; \<open>number_like\<close> is the test
  for the values inside it.
\<close>

fun number_like :: "json \<Rightarrow> bool" where
  "number_like (JStr s) = (s = [])"
| "number_like (JArr _) = False"
| "number_like _ = True"

text \<open>\<^verbatim>\<open>Number(x)\<close> when it is finite.\<close>

fun finite_Number :: "json \<Rightarrow> real option" where
  "finite_Number (JNum r) = Some r"
| "finite_Number JNull = Some 0"
| "finite_Number (JBool b) = Some (if b then 1 else 0)"
| "finite_Number (JStr s) = (if s = [] then Some 0 else None)"
| "finite_Number _ = None"

definition safeNum_ag :: "json \<Rightarrow> real \<Rightarrow> real" where
  "safeNum_ag x fallback = (case finite_Number x of Some n \<Rightarrow> n | None \<Rightarrow> fallback)"

text \<open>A per-unit array: an array of such values, or a falsy value, which counts as missing.\<close>

fun per_unit_like :: "json \<Rightarrow> bool" where
  "per_unit_like (JArr xs) = list_all number_like xs"
| "per_unit_like v = (\<not> truthy v)"

definition safeDiv_ag :: "real \<Rightarrow> real \<Rightarrow> real" where
  "safeDiv_ag n d = (if d > 0 then n / d else 0)"

definition sum_ag :: "json list \<Rightarrow> real" where
  "sum_ag arr = foldl (\<lambda>s v. s + safeNum_ag v 0) 0 arr"

definition mean_ag :: "json list \<Rightarrow> real" where
  "mean_ag arr = (if length arr \<noteq> 0 then sum_ag arr / real (length arr) else 0)"

definition std_ag :: "json list \<Rightarrow> real" where
  "std_ag arr =
     (let n = length arr
      in if n < 2 then 0
         else
           let m = mean_ag arr;
               ss = foldl (\<lambda>s v. let dv = safeNum_ag v 0 - m in s + dv * dv) 0 arr
           in sqrt (ss / (real n - 1)))"

definition cv_ag :: "json list \<Rightarrow> real" where
  "cv_ag arr = (let m = mean_ag arr in if m \<le> 0 then 0 else std_ag arr / m)"

text \<open>The differences of neighbours in a list.\<close>

fun neighbour_diffs :: "real list \<Rightarrow> real list" where
  "neighbour_diffs (x # y # rest) = (y - x) # neighbour_diffs (y # rest)"
| "neighbour_diffs _ = []"

definition diffsSortedIndices :: "real list \<Rightarrow> real list" where
  "diffsSortedIndices indices =
     (if length indices < 2 then []
      else
        let xs = sort_cmp (\<lambda>a b. a - b)
                   (filter (\<lambda>x. x \<ge> 0) (map (\<lambda>x. of_int \<lfloor>x\<rfloor>) indices))
        in neighbour_diffs xs)"

text \<open>The argument is \<^verbatim>\<open>undefined\<close> or an array here.\<close>

definition eventIndicesFromPerUnit :: "json \<Rightarrow> real list" where
  "eventIndicesFromPerUnit perUnit =
     (case perUnit of
        JArr xs \<Rightarrow> map real (filter (\<lambda>i. safeNum_ag (xs ! i) 0 > 0) [0..<length xs])
      | _ \<Rightarrow> [])"

definition chooseK :: "real \<Rightarrow> real" where
  "chooseK units =
     (let u = max 1 (of_int \<lfloor>units\<rfloor>)
      in if u < 6 then 3
         else let k = js_round (sqrt u) in min 8 (max 3 k))"

record SegRange =
  seg_start :: real
  seg_end :: real
  seg_len :: real

definition segmentRanges :: "real \<Rightarrow> real \<Rightarrow> SegRange list" where
  "segmentRanges units K =
     (let u = max 1 (of_int \<lfloor>units\<rfloor>);
          k = max 1 (of_int \<lfloor>K\<rfloor>)
      in map (\<lambda>i.
            let start = of_int \<lfloor>(real i * u) / k\<rfloor>;
                fin = of_int \<lfloor>((real i + 1) * u) / k\<rfloor>
            in \<lparr> seg_start = start, seg_end = fin, seg_len = max 0 (fin - start) \<rparr>)
           [0..<nat \<lfloor>k\<rfloor>])"

definition sliceSum :: "json \<Rightarrow> real \<Rightarrow> real \<Rightarrow> real" where
  "sliceSum arr start fin =
     (case arr of
        JArr xs \<Rightarrow>
          if length xs = 0 then 0
          else
            let s = max 0 start;
                e = min (real (length xs)) (max s fin)
            in foldl (\<lambda>out v. out + safeNum_ag v 0) 0
                 (drop (nat \<lfloor>s\<rfloor>) (take (nat \<lfloor>e\<rfloor>) xs))
      | _ \<Rightarrow> 0)"

text \<open>A read past the end of an array gives \<^verbatim>\<open>undefined\<close>, which counts as 0.\<close>

definition nth_or0 :: "real list \<Rightarrow> nat \<Rightarrow> real" where
  "nth_or0 xs i = (if i < length xs then xs ! i else 0)"

definition l2dist :: "real list \<Rightarrow> real list \<Rightarrow> real" where
  "l2dist a b =
     (let n = max (length a) (length b);
          ss = foldl (\<lambda>s i. let dv = nth_or0 a i - nth_or0 b i in s + dv * dv) 0 [0..<n]
      in sqrt ss)"

definition per_unit_keys :: "string list" where
  "per_unit_keys =
     [''claims'', ''reasons'', ''evidence'', ''sub_claims'', ''warrants'', ''counterpoints'',
      ''refutations'', ''transitions'']"

text \<open>\<^verbatim>\<open>raw.per_unit || {}\<close> and \<^verbatim>\<open>raw.totals || {}\<close>\<close>

definition or_empty :: "json \<Rightarrow> json" where
  "or_empty v = (if truthy v then v else JObj [])"

definition computeStructuralVariance :: "json \<Rightarrow> real" where
  "computeStructuralVariance raw =
     (let SV_MAX = 0.35;
          units = max 1 (of_int \<lfloor>safeNum_ag (opt_get raw ''units'') 1\<rfloor>);
          K = chooseK units;
          ranges = segmentRanges units K;
          pu = or_empty (opt_get raw ''per_unit'');
          hasAnyPerUnit =
            list_ex (\<lambda>k. case opt_get pu k of JArr xs \<Rightarrow> length xs > 0 | _ \<Rightarrow> False)
              per_unit_keys
      in if \<not> hasAnyPerUnit then 0
         else
           let segVecs = map (\<lambda>rg.
                   let uSeg = max 1 (seg_len rg)
                   in map (\<lambda>k. sliceSum (opt_get pu k) (seg_start rg) (seg_end rg) / uSeg)
                        per_unit_keys) ranges;
               dim = (case segVecs of [] \<Rightarrow> 0 | v # _ \<Rightarrow> length v);
               sBar = map (\<lambda>j. safeDiv_ag (foldl (\<lambda>s v. s + nth_or0 v j) 0 segVecs)
                                   (real (length segVecs))) [0..<dim];
               acc = foldl (\<lambda>s v. s + l2dist v sBar) 0 segVecs;
               SV_raw = safeDiv_ag acc (real (length segVecs))
           in clamp01 (safeDiv_ag SV_raw SV_MAX))"

definition computeHumanRhythmIndex :: "json \<Rightarrow> real" where
  "computeHumanRhythmIndex raw =
     (let CV_REF = 0.6;
          cvs1 = (case opt_get raw ''unit_lengths'' of
                    JArr xs \<Rightarrow>
                      if length xs \<ge> 2
                      then [(cv_ag (map (\<lambda>x. JNum (max 0 (safeNum_ag x 0))) xs), 0.6)]
                      else []
                  | _ \<Rightarrow> []);
          pu = or_empty (opt_get raw ''per_unit'');
          tIdx = eventIndicesFromPerUnit (opt_get pu ''transitions'');
          rIdx = eventIndicesFromPerUnit (opt_get pu ''revisions'');
          tDiffs = diffsSortedIndices tIdx;
          cvs2 = (if length tDiffs \<ge> 2 then [(cv_ag (map JNum tDiffs), 0.2)] else []);
          rDiffs = diffsSortedIndices rIdx;
          cvs3 = (if length rDiffs \<ge> 2 then [(cv_ag (map JNum rDiffs), 0.2)] else []);
          cvs = cvs1 @ cvs2 @ cvs3
      in if length cvs = 0 then 0
         else
           let num = foldl (\<lambda>s vw. s + fst vw * snd vw) 0 cvs;
               den = foldl (\<lambda>s vw. s + snd vw) 0 cvs;
               combined = (if den > 0 then num / den else 0)
           in clamp01 (safeDiv_ag combined CV_REF))"

text \<open>The loop over the 0/1 list keeps the finished runs and the current run.\<close>

definition computeAvgChainLengthFromPerUnitTransitions :: "json \<Rightarrow> real" where
  "computeAvgChainLengthFromPerUnitTransitions perUnitTransitions =
     (case perUnitTransitions of
        JArr vs \<Rightarrow>
          if length vs = 0 then 1
          else
            let xs = map (\<lambda>v. if safeNum_ag v 0 > 0 then (1::nat) else 0) vs;
                st = foldl (\<lambda>rc x. if x = 1 then (fst rc, snd rc + 1)
                                     else if snd rc > 0 then (fst rc @ [snd rc], 0)
                                     else rc) ([], 0::real) xs;
                runs = (if snd st > 0 then fst st @ [snd st] else fst st)
            in if length runs \<noteq> 0 then mean_ag (map JNum runs) else 1
      | _ \<Rightarrow> 1)"

definition computeTransitionFlow :: "json \<Rightarrow> real" where
  "computeTransitionFlow raw =
     (let totals = or_empty (opt_get raw ''totals'');
          pu = or_empty (opt_get raw ''per_unit'');
          totalTransitions =
            (case opt_get pu ''transitions'' of
               JArr xs \<Rightarrow> sum_ag xs
             | _ \<Rightarrow> safeNum_ag (opt_get totals ''transitions'') 0);
          validTransitions =
            (case opt_get pu ''transition_ok'' of
               JArr xs \<Rightarrow> sum_ag xs
             | _ \<Rightarrow> safeNum_ag (opt_get totals ''transition_ok'') 0);
          ratio = safeDiv_ag validTransitions (max 1 totalTransitions);
          avgChain = computeAvgChainLengthFromPerUnitTransitions (opt_get pu ''transitions'');
          tf = ratio * ln (1 + max 0 avgChain)
      in clamp01 tf)"

text \<open>
  \<open>depthSum\<close> is \<open>None\<close> when \<^verbatim>\<open>safeNum(totals.revision_depth_sum, NaN)\<close> is \<^verbatim>\<open>NaN\<close>.
\<close>

definition computeRevisionDepth :: "json \<Rightarrow> real" where
  "computeRevisionDepth raw =
     (let D_MAX = 3.0; R_REF = 12;
          totals = or_empty (opt_get raw ''totals'');
          pu = or_empty (opt_get raw ''per_unit'');
          depthSum =
            (case opt_get pu ''revision_depth'' of
               JArr xs \<Rightarrow> Some (sum_ag xs)
             | _ \<Rightarrow> finite_Number (opt_get totals ''revision_depth_sum''))
      in case depthSum of
           Some ds \<Rightarrow> clamp01 (safeDiv_ag ds D_MAX)
         | None \<Rightarrow>
             let revisions =
                   (case opt_get pu ''revisions'' of
                      JArr xs \<Rightarrow> sum_ag xs
                    | _ \<Rightarrow> safeNum_ag (opt_get totals ''revisions'') 0);
                 proxy = safeDiv_ag (ln (1 + max 0 revisions)) (ln (1 + max 1 R_REF))
             in clamp01 proxy)"

text \<open>
  \<open>computeAgencyIndicators\<close>. The model covers raw features whose \<^verbatim>\<open>units\<close> and totals
  are number-like and whose \<^verbatim>\<open>unit_lengths\<close> and per-unit fields are arrays of
  number-like values or missing. Reading \<^verbatim>\<open>raw.units\<close> of \<^verbatim>\<open>null\<close> or \<^verbatim>\<open>undefined\<close>
  throws.
\<close>

definition agency_modelled :: "json \<Rightarrow> bool" where
  "agency_modelled raw =
     (number_like (opt_get raw ''units'')
      \<and> per_unit_like (opt_get raw ''unit_lengths'')
      \<and> list_all (\<lambda>k. per_unit_like (opt_get (or_empty (opt_get raw ''per_unit'')) k))
            (per_unit_keys @ [''transition_ok'', ''revisions'', ''revision_depth''])
      \<and> list_all (\<lambda>k. number_like (opt_get (or_empty (opt_get raw ''totals'')) k))
            [''transitions'', ''transition_ok'', ''revision_depth_sum'', ''revisions''])"

definition computeAgencyIndicators :: "json \<Rightarrow> js_error + json" where
  "computeAgencyIndicators raw =
     (if nullish raw then Inl TypeError
      else if \<not> agency_modelled raw then Inl Unmodelled
      else
        let structural_variance = computeStructuralVariance raw;
            human_rhythm_index = computeHumanRhythmIndex raw;
            transition_flow = computeTransitionFlow raw;
            revision_depth = computeRevisionDepth raw
        in Inr (JObj [(''structural_variance'', JNum structural_variance),
                      (''human_rhythm_index'', JNum human_rhythm_index),
                      (''transition_flow'', JNum transition_flow),
                      (''revision_depth'', JNum revision_depth)]))"

section \<open>deriveRc (rc.ts)\<close>

text \<open>
  \<open>computePHumanFromCFV\<close> is called with one argument, so reading \<^verbatim>\<open>model.z_clip\<close>
  throws inside the \<^verbatim>\<open>try\<close> and \<open>dist\<close> is \<^verbatim>\<open>{ rc: {} }\<close> whether \<open>cfv\<close> is there or
  not.
\<close>

definition deriveRc :: "json \<Rightarrow> js_error + json" where
  "deriveRc input =
     (let ai = analysis_input_of input;
          raw = raw_of ai;
          rcSummary = (if truthy raw then computeRCFromRaw raw else JObj [(''rc'', JObj [])]);
          lib = buildSignalLibraryV1_S1toS18;
          observed = opt_get (opt_get rcSummary ''rc'') ''observed_structural_signals'';
          observedBlock =
            (if truthy observed
             then JObj [(''rc'', JObj [(''observed_structural_signals'', observed),
                                      (''observed_structural_signals_library'', lib)])]
             else JObj [(''rc'', JObj [(''observed_structural_signals_library'', lib)])]);
          cfv = coalesce (opt_get (opt_get ai ''cff'') ''cfv'')
                  (coalesce (opt_get (opt_get ai ''cff'') ''indicators'')
                     (opt_get (opt_get ai ''cff'') ''indicators_vector''));
          dist = (if truthy cfv then JObj [(''rc'', JObj [])] else JObj [(''rc'', JObj [])])
      in
      bind_err (if truthy raw then computeAgencyIndicators raw
                else Inr (JObj [(''rc'', JObj [(''structural_control_signals'', JObj [])])]))
        (\<lambda>agency. Inr (deepMergeAll [rcSummary, observedBlock, dist, agency])))"

section \<open>derive (derive.ts)\<close>

text \<open>
  \<^verbatim>\<open>{ ...a, ...b }\<close>: the own enumerable properties of each operand in turn. An
  array spreads its indices; \<^verbatim>\<open>null\<close>, \<^verbatim>\<open>undefined\<close>, numbers and booleans spread
  nothing. A string would spread its characters, which does not happen to the results
  of the modules and is left out for the input.
\<close>

fun own_props :: "json \<Rightarrow> (string \<times> json) list" where
  "own_props (JObj kvs) = kvs"
| "own_props (JArr xs) = zip (map string_of_nat [0..<length xs]) xs"
| "own_props _ = []"

definition spread :: "json list \<Rightarrow> json" where
  "spread objs =
     JObj (fold (\<lambda>v out. fold (\<lambda>kv acc. AList.update (fst kv) (snd kv) acc) (own_props v) out)
             objs [])"

definition derive :: "json \<Rightarrow> js_error + json" where
  "derive input =
     bind_err (deriveRsl input) (\<lambda>a.
     bind_err (deriveCff input) (\<lambda>b.
     bind_err (deriveRc (spread [input, b])) (\<lambda>c.
     bind_err (deriveRfs (spread [input, b, a])) (\<lambda>d.
     Inr (deepMergeAll [a, b, c, d])))))"

text \<open>Raw features with ten units and four claims, and the input that carries them.\<close>

definition example_raw_features :: json where
  "example_raw_features = JObj [(''units'', JNum 10), (''claims'', JNum 4)]"

definition example_input :: json where
  "example_input = JObj [(''raw_features'', example_raw_features)]"

section \<open>Deep merge: what a key holds afterwards\<close>

lemma getProp_update:
  "getProp (AList.update k v t) k' = (if k' = k then v else getProp t k')"
  by (simp add: getProp_def update_conv')

lemma deepMergeInto_other:
  "k \<notin> fst ` set s \<Longrightarrow> map_of (deepMergeInto t s) k = map_of t k"
proof (induction t s rule: deepMergeInto.induct)
  case (1 target)
  then show ?case by simp
next
  case (2 target k' sv rest)
  then show ?case by (auto simp: update_conv')
qed

text \<open>
  Claim C3. After merging the object \<open>s\<close> into the object \<open>t\<close>, a key that \<open>s\<close> does
  not have keeps the value it had in \<open>t\<close>. A key of \<open>s\<close> whose value is a plain object
  in both \<open>t\<close> and \<open>s\<close> holds the recursive merge of the two objects. Every other key of
  \<open>s\<close> (its value in \<open>s\<close> is an array or a scalar, or its value in \<open>t\<close> is an array, a
  scalar or missing) holds exactly the value of \<open>s\<close>: the source value replaces the
  target value as a whole, and arrays are never concatenated.
\<close>

theorem deepMergeInto_lookup:
  "distinct (map fst s) \<Longrightarrow>
   map_of (deepMergeInto t s) k =
     (case map_of s k of
        None \<Rightarrow> map_of t k
      | Some sv \<Rightarrow>
          Some (if isPlainObject (getProp t k) \<and> isPlainObject sv
                then JObj (deepMergeInto (props (getProp t k)) (props sv))
                else sv))"
proof (induction t s rule: deepMergeInto.induct)
  case (1 target)
  then show ?case by simp
next
  case (2 target k' sv rest)
  show ?case
  proof (cases "k = k'")
    case True
    with 2 have "k \<notin> fst ` set rest" by auto
    then show ?thesis using True
      by (simp add: deepMergeInto_other update_conv')
  next
    case False
    with 2 show ?thesis
      by (auto simp: update_conv' getProp_update split: option.splits)
  qed
qed

theorem deepMergeInto_lookup_witness:
  "distinct (map fst [(''a'', JObj [(''y'', JNum 2)]), (''b'', JArr [JNum 2])])
   \<and> map_of (deepMergeInto [(''a'', JObj [(''x'', JNum 1)]), (''b'', JArr [JNum 1])]
        [(''a'', JObj [(''y'', JNum 2)]), (''b'', JArr [JNum 2])]) ''a''
      = Some (JObj [(''x'', JNum 1), (''y'', JNum 2)])
   \<and> map_of (deepMergeInto [(''a'', JObj [(''x'', JNum 1)]), (''b'', JArr [JNum 1])]
        [(''a'', JObj [(''y'', JNum 2)]), (''b'', JArr [JNum 2])]) ''b''
      = Some (JArr [JNum 2])"
  using deepMergeInto_lookup [of "[(''a'', JObj [(''y'', JNum 2)]), (''b'', JArr [JNum 2])]"
      "[(''a'', JObj [(''x'', JNum 1)]), (''b'', JArr [JNum 1])]" "''a''"]
    deepMergeInto_lookup [of "[(''a'', JObj [(''y'', JNum 2)]), (''b'', JArr [JNum 2])]"
      "[(''a'', JObj [(''x'', JNum 1)]), (''b'', JArr [JNum 1])]" "''b''"]
  by (simp add: getProp_def)

section \<open>Rounding to the nearest double\<close>

lemma rne_eqI:
  assumes "\<bar>y - of_int m\<bar> < 1 / 2"
  shows "rne y = m"
proof -
  have "of_int m - 1 / 2 < y" "y < of_int m + 1 / 2" using assms by linarith+
  then consider "\<lfloor>y\<rfloor> = m" | "\<lfloor>y\<rfloor> = m - 1" by linarith
  then show ?thesis
  proof cases
    case 1
    then show ?thesis using assms unfolding rne_def Let_def by (auto simp: abs_if split: if_splits)
  next
    case 2
    then show ?thesis using assms unfolding rne_def Let_def by (auto simp: abs_if split: if_splits)
  qed
qed

lemma rne_tie:
  assumes "y = of_int m + 1 / 2"
  shows "rne y = (if even m then m else m + 1)"
proof -
  have "\<lfloor>y\<rfloor> = m" using assms by linarith
  then show ?thesis using assms unfolding rne_def Let_def by simp
qed

lemma rne_bound: "\<bar>of_int (rne y) - y\<bar> \<le> 1 / 2"
  unfolding rne_def Let_def by (auto simp: abs_if) linarith+

lemma rne_of_int: "rne (of_int m) = m"
  by (rule rne_eqI) simp

lemma ulp_pos: "0 < ulp x"
  by (simp add: ulp_def)

lemma dbl_zero: "dbl 0 = 0"
  by (simp add: dbl_def)

text \<open>The rounding error is at most half a unit in the last place.\<close>

lemma dbl_half_ulp: "\<bar>dbl x - x\<bar> \<le> ulp x / 2"
proof (cases "x = 0")
  case True
  then show ?thesis using ulp_pos[of x] by (simp add: dbl_zero)
next
  case False
  have "\<bar>of_int (rne (x / ulp x)) - x / ulp x\<bar> \<le> 1 / 2" by (rule rne_bound)
  then have "\<bar>of_int (rne (x / ulp x)) - x / ulp x\<bar> * ulp x \<le> 1 / 2 * ulp x"
    using ulp_pos[of x] by (intro mult_right_mono) simp_all
  moreover have "\<bar>of_int (rne (x / ulp x)) - x / ulp x\<bar> * ulp x
      = \<bar>(of_int (rne (x / ulp x)) - x / ulp x) * ulp x\<bar>"
    using ulp_pos[of x] by (simp add: abs_mult)
  moreover have "(of_int (rne (x / ulp x)) - x / ulp x) * ulp x
      = of_int (rne (x / ulp x)) * ulp x - x"
    using ulp_pos[of x] by (simp add: field_simps)
  ultimately show ?thesis using False by (simp add: dbl_def)
qed

lemma expo_normal:
  assumes "2 powr of_int e \<le> \<bar>x\<bar>" "\<bar>x\<bar> < 2 powr of_int (e + 1)" "- 1022 \<le> e"
  shows "expo x = e"
proof -
  have "0 < \<bar>x\<bar>" using assms(1) by (smt (verit) powr_gt_zero)
  then have "\<lfloor>log 2 \<bar>x\<bar>\<rfloor> = e"
    using assms by (simp add: floor_log_eq_powr_iff)
  then show ?thesis using assms(3) by (simp add: expo_def)
qed

text \<open>
  A value of between \<open>2\<^sup>5\<^sup>2\<close> and \<open>2\<^sup>5\<^sup>3\<close> units of size \<open>2\<^sup>-\<^sup>n\<close> is rounded to a
  whole number of these units.
\<close>

lemma ulp_scaled:
  assumes "2 ^ 52 \<le> \<bar>x\<bar> * 2 ^ n" "\<bar>x\<bar> * 2 ^ n < 2 ^ 53" "n \<le> 1074"
  shows "ulp x = 1 / 2 ^ n"
proof -
  have a: "2 powr of_int (52 - int n) \<le> \<bar>x\<bar>"
  proof -
    have "(2::real) powr of_int (52 - int n) = 2 powr (52 - real n)" by simp
    also have "\<dots> = 2 powr 52 / 2 powr real n" by (rule powr_diff)
    also have "\<dots> = 2 ^ 52 / 2 ^ n" by (simp add: powr_realpow)
    also have "\<dots> \<le> \<bar>x\<bar>" using assms(1) by (simp add: field_simps)
    finally show ?thesis .
  qed
  have b: "\<bar>x\<bar> < 2 powr of_int (52 - int n + 1)"
  proof -
    have "(2::real) powr of_int (52 - int n + 1) = 2 powr (53 - real n)" by simp
    also have "\<dots> = 2 powr 53 / 2 powr real n" by (rule powr_diff)
    also have "\<dots> = 2 ^ 53 / 2 ^ n" by (simp add: powr_realpow)
    finally have "(2::real) powr of_int (52 - int n + 1) = 2 ^ 53 / 2 ^ n" .
    moreover have "\<bar>x\<bar> < 2 ^ 53 / 2 ^ n" using assms(2) by (simp add: field_simps)
    ultimately show ?thesis by simp
  qed
  have "expo x = 52 - int n"
    by (rule expo_normal[OF a b]) (use assms(3) in simp)
  then have "ulp x = 2 powr of_int (- int n)" by (simp add: ulp_def)
  also have "\<dots> = 1 / 2 powr real n"
    by (simp add: powr_minus_divide)
  also have "\<dots> = 1 / 2 ^ n"
    by (simp add: powr_realpow)
  finally show ?thesis .
qed

lemma dbl_eqI:
  assumes "2 ^ 52 \<le> \<bar>x\<bar> * 2 ^ n" "\<bar>x\<bar> * 2 ^ n < 2 ^ 53" "n \<le> 1074"
    and "\<bar>x * 2 ^ n - of_int m\<bar> < 1 / 2"
  shows "dbl x = of_int m / 2 ^ n"
proof -
  have u: "ulp x = 1 / 2 ^ n" by (rule ulp_scaled[OF assms(1-3)])
  have "x \<noteq> 0" using assms(1) by auto
  moreover have "rne (x / ulp x) = m"
    by (rule rne_eqI) (use assms(4) in \<open>simp add: u\<close>)
  ultimately show ?thesis by (simp add: dbl_def u)
qed

lemma dbl_tieI:
  assumes "2 ^ 52 \<le> \<bar>x\<bar> * 2 ^ n" "\<bar>x\<bar> * 2 ^ n < 2 ^ 53" "n \<le> 1074"
    and "x * 2 ^ n = of_int m + 1 / 2"
  shows "dbl x = of_int (if even m then m else m + 1) / 2 ^ n"
proof -
  have u: "ulp x = 1 / 2 ^ n" by (rule ulp_scaled[OF assms(1-3)])
  have "x \<noteq> 0" using assms(1) by auto
  moreover have "rne (x / ulp x) = (if even m then m else m + 1)"
    by (rule rne_tie) (use assms(4) in \<open>simp add: u\<close>)
  ultimately show ?thesis by (simp add: dbl_def u)
qed

text \<open>The integers from 0 to 1024 and the halves of the integers up to 512 are doubles.\<close>

lemma dbl_exact:
  assumes "2 ^ 52 \<le> \<bar>x\<bar> * 2 ^ n" "\<bar>x\<bar> * 2 ^ n < 2 ^ 53" "n \<le> 1074"
    and "x * 2 ^ n = of_int m"
  shows "dbl x = x"
proof -
  have "dbl x = of_int m / 2 ^ n"
    by (rule dbl_eqI[OF assms(1-3)]) (simp add: assms(4))
  also have "\<dots> = x" using assms(4) by (simp add: field_simps)
  finally show ?thesis .
qed

lemma dbl_small_int: "dbl 1 = 1" "dbl 2 = 2" "dbl 3 = 3" "dbl 4 = 4" "dbl 5 = 5"
  using dbl_exact[of 1 52 "2 ^ 52"] dbl_exact[of 2 51 "2 ^ 52"] dbl_exact[of 3 51 "3 * 2 ^ 51"]
    dbl_exact[of 4 50 "2 ^ 52"] dbl_exact[of 5 50 "5 * 2 ^ 50"]
  by simp_all

lemma dbl_nonneg: "0 \<le> x \<Longrightarrow> 0 \<le> dbl x"
proof -
  assume x: "0 \<le> x"
  have "0 \<le> x / ulp x" using x ulp_pos[of x] by simp
  then have "0 \<le> \<lfloor>x / ulp x\<rfloor>" by simp
  then have "0 \<le> rne (x / ulp x)" unfolding rne_def Let_def by auto
  then show ?thesis using ulp_pos[of x] by (simp add: dbl_def)
qed

text \<open>The same for a square root, with the bounds squared.\<close>

lemma fsqrt_eqI:
  fixes m :: int
  assumes "n \<le> 1074" "2 ^ 52 < m" "m < 2 ^ 53"
    and lo: "(2 * of_int m - 1) * (2 * of_int m - 1) < 4 * x * 4 ^ n"
    and hi: "4 * x * 4 ^ n < (2 * of_int m + 1) * (2 * of_int m + 1)"
  shows "fsqrt x = of_int m / 2 ^ n"
proof -
  define y where "y = sqrt x * 2 ^ n"
  have "sqrt (x * 4 ^ n) = sqrt x * sqrt (4 ^ n)" by (rule real_sqrt_mult)
  also have "sqrt ((4::real) ^ n) = 2 ^ n" by (simp add: real_sqrt_power)
  finally have y: "sqrt (x * 4 ^ n) = y" by (simp add: y_def)
  have mp: "4503599627370497 \<le> real_of_int m" "real_of_int m \<le> 9007199254740991"
  proof -
    have "4503599627370497 \<le> m" "m \<le> 9007199254740991" using assms(2,3) by simp_all
    then have "real_of_int 4503599627370497 \<le> of_int m"
      "real_of_int m \<le> of_int 9007199254740991"
      by (simp_all only: of_int_le_iff)
    then show "4503599627370497 \<le> real_of_int m" "real_of_int m \<le> 9007199254740991"
      by simp_all
  qed
  have lo': "(of_int m - 1 / 2)\<^sup>2 < x * 4 ^ n"
    using lo by (simp add: power2_eq_square algebra_simps)
  have hi': "x * 4 ^ n < (of_int m + 1 / 2)\<^sup>2"
    using hi by (simp add: power2_eq_square algebra_simps)
  have "sqrt ((of_int m - 1 / 2)\<^sup>2) < sqrt (x * 4 ^ n)"
    using lo' by (rule real_sqrt_less_mono)
  then have l: "of_int m - 1 / 2 < y" using mp(1) by (simp add: y)
  have "sqrt (x * 4 ^ n) < sqrt ((of_int m + 1 / 2)\<^sup>2)"
    using hi' by (rule real_sqrt_less_mono)
  then have h: "y < of_int m + 1 / 2" using mp(1) by (simp add: y)
  have y0: "0 \<le> y" using l mp(1) by linarith
  have a: "\<bar>sqrt x\<bar> * 2 ^ n = y"
  proof -
    have "\<bar>sqrt x\<bar> * 2 ^ n = \<bar>y\<bar>" by (simp add: y_def abs_mult)
    with y0 show ?thesis by simp
  qed
  have "dbl (sqrt x) = of_int m / 2 ^ n"
  proof (rule dbl_eqI)
    have "4503599627370496 \<le> y" "y < 9007199254740992" using l h mp by linarith+
    then show "2 ^ 52 \<le> \<bar>sqrt x\<bar> * 2 ^ n" "\<bar>sqrt x\<bar> * 2 ^ n < 2 ^ 53"
      unfolding a by simp_all
    show "n \<le> 1074" by fact
    show "\<bar>sqrt x * 2 ^ n - of_int m\<bar> < 1 / 2" using l h by (simp add: y_def[symmetric] abs_if)
  qed
  then show ?thesis by (simp add: fsqrt_def)
qed

section \<open>The level never drops when a finite rubric dimension rises\<close>

lemma js_round_mono: "x \<le> y \<Longrightarrow> js_round x \<le> js_round y"
  by (simp add: js_round_def floor_mono)

lemma clampInt0to5_mono: "x \<le> y \<Longrightarrow> clampInt0to5 (Fin x) \<le> clampInt0to5 (Fin y)"
  using js_round_mono[of x y] by (auto simp: Let_def)

lemma clampInt0to5_not_finite: "\<not> isFinite_num x \<Longrightarrow> clampInt0to5 x = clampInt0to5 (Fin 0)"
  by (cases x) (simp_all add: js_round_def)

text \<open>A gate that the rubric minimum passes stays passed when the minimum rises.\<close>

lemma js_ge_mono: "js_ge (Fin a) g \<Longrightarrow> a \<le> b \<Longrightarrow> js_ge (Fin b) g"
  by (cases g) simp_all

text \<open>
  The level is the last gate passed in the chain of assignments. When every gate that
  was passed stays passed, the last one passed cannot move down.
\<close>

lemma level_chain_mono:
  assumes "p2 \<longrightarrow> q2" "p3 \<longrightarrow> q3" "p4 \<longrightarrow> q4" "p5 \<longrightarrow> q5" "p6 \<longrightarrow> q6"
  shows "level_rank (if p6 then L6 else if p5 then L5 else if p4 then L4
                     else if p3 then L3 else if p2 then L2 else L1)
       \<le> level_rank (if q6 then L6 else if q5 then L5 else if q4 then L4
                     else if q3 then L3 else if q2 then L2 else L1)"
  using assms by (cases p6; cases p5; cases p4; cases p3; cases p2; simp)

lemma computeRSLLevel_mono:
  assumes c: "clampInt0to5 (coherence_rubric_0to5 inp) \<le> clampInt0to5 (coherence_rubric_0to5 inp')"
    and s: "clampInt0to5 (structure_rubric_0to5 inp) \<le> clampInt0to5 (structure_rubric_0to5 inp')"
    and e: "clampInt0to5 (evaluation_rubric_0to5 inp) \<le> clampInt0to5 (evaluation_rubric_0to5 inp')"
    and i: "clampInt0to5 (integration_rubric_0to5 inp)
              \<le> clampInt0to5 (integration_rubric_0to5 inp')"
    and r: "evidence_count inp' = evidence_count inp"
      "evidence_link_rate_0to1 inp' = evidence_link_rate_0to1 inp"
      "has_counterpoint inp' = has_counterpoint inp"
      "has_refutation inp' = has_refutation inp"
  shows "level_rank (level (computeRSLLevel inp flags policy))
       \<le> level_rank (level (computeRSLLevel inp' flags policy))"
proof -
  have ev: "evidenceOK inp' policy flags = evidenceOK inp policy flags"
    using r by (simp add: evidenceOK_def)
  define rm where "rm = min (min (min (clampInt0to5 (coherence_rubric_0to5 inp))
      (clampInt0to5 (structure_rubric_0to5 inp))) (clampInt0to5 (evaluation_rubric_0to5 inp)))
      (clampInt0to5 (integration_rubric_0to5 inp))"
  define rm' where "rm' = min (min (min (clampInt0to5 (coherence_rubric_0to5 inp'))
      (clampInt0to5 (structure_rubric_0to5 inp'))) (clampInt0to5 (evaluation_rubric_0to5 inp')))
      (clampInt0to5 (integration_rubric_0to5 inp'))"
  have rm: "rm \<le> rm'" unfolding rm_def rm'_def using c s e i by (auto simp: min_def)
  have up: "js_ge (Fin rm) g \<Longrightarrow> js_ge (Fin rm') g" for g
    using rm by (rule js_ge_mono[rotated])
  have upi: "js_ge (Fin (clampInt0to5 (integration_rubric_0to5 inp))) g
      \<Longrightarrow> js_ge (Fin (clampInt0to5 (integration_rubric_0to5 inp'))) g" for g
    using i by (rule js_ge_mono[rotated])
  show ?thesis
    unfolding computeRSLLevel_def Let_def RSLLevelResult.simps ev r
      rm_def[symmetric] rm'_def[symmetric]
    apply (rule level_chain_mono)
    using up upi by simp_all
qed

lemma computeRSLLevel_cong:
  assumes "clampInt0to5 (coherence_rubric_0to5 inp') = clampInt0to5 (coherence_rubric_0to5 inp)"
    and "clampInt0to5 (structure_rubric_0to5 inp') = clampInt0to5 (structure_rubric_0to5 inp)"
    and "clampInt0to5 (evaluation_rubric_0to5 inp') = clampInt0to5 (evaluation_rubric_0to5 inp)"
    and "clampInt0to5 (integration_rubric_0to5 inp')
           = clampInt0to5 (integration_rubric_0to5 inp)"
    and "evidence_count inp' = evidence_count inp"
      "evidence_link_rate_0to1 inp' = evidence_link_rate_0to1 inp"
      "has_counterpoint inp' = has_counterpoint inp"
      "has_refutation inp' = has_refutation inp"
  shows "computeRSLLevel inp' flags policy = computeRSLLevel inp flags policy"
  unfolding computeRSLLevel_def evidenceOK_def assms by (rule refl)

lemma dbl_03: "dbl 0.3 = 5404319552844595 / 2 ^ 54"
  using dbl_eqI[of "0.3" 54 5404319552844595] by simp

text \<open>The gates of the policy that \<open>deriveRsl\<close> passes.\<close>

lemma adjustedGate_levelPolicy:
  "adjustedGate (Fin 1) levelFlags levelPolicy = Fin 1"
  "adjustedGate (Fin 2) levelFlags levelPolicy = Fin 2"
  "adjustedGate (Fin 3) levelFlags levelPolicy = Fin 3"
  "adjustedGate (Fin 4) levelFlags levelPolicy = Fin 4"
  "adjustedGate (Fin 5) levelFlags levelPolicy = Fin 5"
  by (simp_all add: adjustedGate_def levelFlags_def js_round_def fadd_def number_of_def
      dbl_small_int Let_def)

text \<open>
  Claim C6, as stated, fails: a rubric value that is not finite is scored as 0. With
  the flags and the policy of \<open>deriveRsl\<close>, four rubric values of 5 and enough evidence
  give the level \<open>L6\<close>; raising the coherence from 5 to \<^verbatim>\<open>Infinity\<close> gives \<open>L1\<close>.
\<close>

theorem computeRSLLevel_infinity_counterexample:
  "js_less (Fin 5) PInf
   \<and> level (computeRSLLevel
        \<lparr> coherence_rubric_0to5 = Fin 5, structure_rubric_0to5 = Fin 5,
          evaluation_rubric_0to5 = Fin 5, integration_rubric_0to5 = Fin 5,
          evidence_count = Some (Fin 2), evidence_link_rate_0to1 = Some (Fin (1 / 2)),
          has_counterpoint = None, has_refutation = None \<rparr> levelFlags levelPolicy) = L6
   \<and> level (computeRSLLevel
        \<lparr> coherence_rubric_0to5 = PInf, structure_rubric_0to5 = Fin 5,
          evaluation_rubric_0to5 = Fin 5, integration_rubric_0to5 = Fin 5,
          evidence_count = Some (Fin 2), evidence_link_rate_0to1 = Some (Fin (1 / 2)),
          has_counterpoint = None, has_refutation = None \<rparr> levelFlags levelPolicy) = L1"
proof -
  have p: "gate_L2_min levelPolicy = Fin 1" "gate_L3_min levelPolicy = Fin 2"
    "gate_L4_min levelPolicy = Fin 3" "gate_L5_min levelPolicy = Fin 4"
    "gate_L6_min levelPolicy = Fin 5" "l6_integration_min levelPolicy = Fin 5"
    by (simp_all add: levelPolicy_def)
  have f: "strict_mode levelFlags = False" "allow_L6 levelFlags = True"
    by (simp_all add: levelFlags_def)
  have ev: "evidenceOK
        \<lparr> coherence_rubric_0to5 = x, structure_rubric_0to5 = Fin 5,
          evaluation_rubric_0to5 = Fin 5, integration_rubric_0to5 = Fin 5,
          evidence_count = Some (Fin 2), evidence_link_rate_0to1 = Some (Fin (1 / 2)),
          has_counterpoint = None, has_refutation = None \<rparr> levelPolicy levelFlags" for x
    by (simp add: evidenceOK_def levelFlags_def levelPolicy_def dbl_03 Let_def)
  show ?thesis
    by (simp add: computeRSLLevel_def Let_def p f ev adjustedGate_levelPolicy js_round_def)
qed

text \<open>
  Claim C6, amended. For every input, flags and policy: raising one rubric dimension
  (coherence, structure, evaluation or integration) from a finite value \<open>c\<close> to a finite
  value \<open>c'\<close> with everything else unchanged never lowers the level in the order
  \<open>L1 < L2 < L3 < L4 < L5 < L6\<close>. The other inputs and the policy are arbitrary, finite
  or not, and the gate thresholds need not be increasing. A rubric value that is not
  finite gives the result of the value 0.
\<close>

theorem computeRSLLevel_monotonic:
  assumes "c \<le> c'"
  shows
    "level_rank (level (computeRSLLevel (inp\<lparr>coherence_rubric_0to5 := Fin c\<rparr>) flags policy))
       \<le> level_rank (level (computeRSLLevel (inp\<lparr>coherence_rubric_0to5 := Fin c'\<rparr>) flags policy))
     \<and> level_rank (level (computeRSLLevel (inp\<lparr>structure_rubric_0to5 := Fin c\<rparr>) flags policy))
       \<le> level_rank (level (computeRSLLevel (inp\<lparr>structure_rubric_0to5 := Fin c'\<rparr>) flags policy))
     \<and> level_rank (level (computeRSLLevel (inp\<lparr>evaluation_rubric_0to5 := Fin c\<rparr>) flags policy))
       \<le> level_rank (level (computeRSLLevel (inp\<lparr>evaluation_rubric_0to5 := Fin c'\<rparr>) flags policy))
     \<and> level_rank (level (computeRSLLevel (inp\<lparr>integration_rubric_0to5 := Fin c\<rparr>) flags policy))
       \<le> level_rank (level (computeRSLLevel (inp\<lparr>integration_rubric_0to5 := Fin c'\<rparr>) flags policy))
     \<and> (\<not> isFinite_num x \<longrightarrow>
          computeRSLLevel (inp\<lparr>coherence_rubric_0to5 := x\<rparr>) flags policy
            = computeRSLLevel (inp\<lparr>coherence_rubric_0to5 := Fin 0\<rparr>) flags policy
        \<and> computeRSLLevel (inp\<lparr>structure_rubric_0to5 := x\<rparr>) flags policy
            = computeRSLLevel (inp\<lparr>structure_rubric_0to5 := Fin 0\<rparr>) flags policy
        \<and> computeRSLLevel (inp\<lparr>evaluation_rubric_0to5 := x\<rparr>) flags policy
            = computeRSLLevel (inp\<lparr>evaluation_rubric_0to5 := Fin 0\<rparr>) flags policy
        \<and> computeRSLLevel (inp\<lparr>integration_rubric_0to5 := x\<rparr>) flags policy
            = computeRSLLevel (inp\<lparr>integration_rubric_0to5 := Fin 0\<rparr>) flags policy)"
proof -
  note m = clampInt0to5_mono[OF assms]
  have a: "level_rank (level (computeRSLLevel (inp\<lparr>coherence_rubric_0to5 := Fin c\<rparr>) flags policy))
       \<le> level_rank (level (computeRSLLevel (inp\<lparr>coherence_rubric_0to5 := Fin c'\<rparr>) flags policy))"
    by (rule computeRSLLevel_mono) (use m in \<open>simp_all del: clampInt0to5.simps\<close>)
  have b: "level_rank (level (computeRSLLevel (inp\<lparr>structure_rubric_0to5 := Fin c\<rparr>) flags policy))
       \<le> level_rank (level (computeRSLLevel (inp\<lparr>structure_rubric_0to5 := Fin c'\<rparr>) flags policy))"
    by (rule computeRSLLevel_mono) (use m in \<open>simp_all del: clampInt0to5.simps\<close>)
  have c: "level_rank (level (computeRSLLevel (inp\<lparr>evaluation_rubric_0to5 := Fin c\<rparr>) flags policy))
       \<le> level_rank (level (computeRSLLevel (inp\<lparr>evaluation_rubric_0to5 := Fin c'\<rparr>) flags policy))"
    by (rule computeRSLLevel_mono) (use m in \<open>simp_all del: clampInt0to5.simps\<close>)
  have d: "level_rank (level (computeRSLLevel (inp\<lparr>integration_rubric_0to5 := Fin c\<rparr>) flags policy))
       \<le> level_rank (level (computeRSLLevel (inp\<lparr>integration_rubric_0to5 := Fin c'\<rparr>) flags policy))"
    by (rule computeRSLLevel_mono) (use m in \<open>simp_all del: clampInt0to5.simps\<close>)
  have e: "computeRSLLevel (inp\<lparr>coherence_rubric_0to5 := x\<rparr>) flags policy
            = computeRSLLevel (inp\<lparr>coherence_rubric_0to5 := Fin 0\<rparr>) flags policy
        \<and> computeRSLLevel (inp\<lparr>structure_rubric_0to5 := x\<rparr>) flags policy
            = computeRSLLevel (inp\<lparr>structure_rubric_0to5 := Fin 0\<rparr>) flags policy
        \<and> computeRSLLevel (inp\<lparr>evaluation_rubric_0to5 := x\<rparr>) flags policy
            = computeRSLLevel (inp\<lparr>evaluation_rubric_0to5 := Fin 0\<rparr>) flags policy
        \<and> computeRSLLevel (inp\<lparr>integration_rubric_0to5 := x\<rparr>) flags policy
            = computeRSLLevel (inp\<lparr>integration_rubric_0to5 := Fin 0\<rparr>) flags policy"
    if "\<not> isFinite_num x"
    using clampInt0to5_not_finite[OF that]
    by (intro conjI computeRSLLevel_cong) (simp_all del: clampInt0to5.simps)
  from a b c d e show ?thesis by blast
qed

theorem computeRSLLevel_monotonic_witness:
  "(0::real) \<le> 3 \<and> \<not> isFinite_num NaN
   \<and> level (computeRSLLevel
        (\<lparr> coherence_rubric_0to5 = Fin 3, structure_rubric_0to5 = Fin 3,
           evaluation_rubric_0to5 = Fin 3, integration_rubric_0to5 = Fin 3,
           evidence_count = Some (Fin 2), evidence_link_rate_0to1 = Some (Fin (1 / 2)),
           has_counterpoint = None, has_refutation = None \<rparr>
         \<lparr>coherence_rubric_0to5 := Fin 0\<rparr>) levelFlags levelPolicy) = L1
   \<and> level (computeRSLLevel
        (\<lparr> coherence_rubric_0to5 = Fin 3, structure_rubric_0to5 = Fin 3,
           evaluation_rubric_0to5 = Fin 3, integration_rubric_0to5 = Fin 3,
           evidence_count = Some (Fin 2), evidence_link_rate_0to1 = Some (Fin (1 / 2)),
           has_counterpoint = None, has_refutation = None \<rparr>
         \<lparr>coherence_rubric_0to5 := Fin 3\<rparr>) levelFlags levelPolicy) = L4
   \<and> level_rank (level (computeRSLLevel
        (\<lparr> coherence_rubric_0to5 = Fin 3, structure_rubric_0to5 = Fin 3,
           evaluation_rubric_0to5 = Fin 3, integration_rubric_0to5 = Fin 3,
           evidence_count = Some (Fin 2), evidence_link_rate_0to1 = Some (Fin (1 / 2)),
           has_counterpoint = None, has_refutation = None \<rparr>
         \<lparr>coherence_rubric_0to5 := Fin 0\<rparr>) levelFlags levelPolicy))
     \<le> level_rank (level (computeRSLLevel
        (\<lparr> coherence_rubric_0to5 = Fin 3, structure_rubric_0to5 = Fin 3,
           evaluation_rubric_0to5 = Fin 3, integration_rubric_0to5 = Fin 3,
           evidence_count = Some (Fin 2), evidence_link_rate_0to1 = Some (Fin (1 / 2)),
           has_counterpoint = None, has_refutation = None \<rparr>
         \<lparr>coherence_rubric_0to5 := Fin 3\<rparr>) levelFlags levelPolicy))
   \<and> level (computeRSLLevel
        (\<lparr> coherence_rubric_0to5 = Fin 3, structure_rubric_0to5 = Fin 3,
           evaluation_rubric_0to5 = Fin 3, integration_rubric_0to5 = Fin 3,
           evidence_count = Some (Fin 2), evidence_link_rate_0to1 = Some (Fin (1 / 2)),
           has_counterpoint = None, has_refutation = None \<rparr>
         \<lparr>coherence_rubric_0to5 := NaN\<rparr>) levelFlags levelPolicy) = L1"
proof -
  let ?inp = "\<lparr> coherence_rubric_0to5 = Fin 3, structure_rubric_0to5 = Fin 3,
           evaluation_rubric_0to5 = Fin 3, integration_rubric_0to5 = Fin 3,
           evidence_count = Some (Fin 2), evidence_link_rate_0to1 = Some (Fin (1 / 2)),
           has_counterpoint = None, has_refutation = None \<rparr>"
  have le: "(0::real) \<le> 3" by simp
  have p: "gate_L2_min levelPolicy = Fin 1" "gate_L3_min levelPolicy = Fin 2"
    "gate_L4_min levelPolicy = Fin 3" "gate_L5_min levelPolicy = Fin 4"
    "gate_L6_min levelPolicy = Fin 5" "l6_integration_min levelPolicy = Fin 5"
    by (simp_all add: levelPolicy_def)
  have f: "strict_mode levelFlags = False" "allow_L6 levelFlags = True"
    by (simp_all add: levelFlags_def)
  have ev: "evidenceOK (?inp\<lparr>coherence_rubric_0to5 := x\<rparr>) levelPolicy levelFlags" for x
    by (simp add: evidenceOK_def levelFlags_def levelPolicy_def dbl_03 Let_def)
  have lo: "level (computeRSLLevel (?inp\<lparr>coherence_rubric_0to5 := Fin 0\<rparr>)
      levelFlags levelPolicy) = L1"
    using ev[of "Fin 0"]
    by (simp add: computeRSLLevel_def Let_def p f adjustedGate_levelPolicy js_round_def)
  have hi: "level (computeRSLLevel (?inp\<lparr>coherence_rubric_0to5 := Fin 3\<rparr>)
      levelFlags levelPolicy) = L4"
    using ev[of "Fin 3"]
    by (simp add: computeRSLLevel_def Let_def p f adjustedGate_levelPolicy js_round_def)
  have nf: "\<not> isFinite_num NaN" by simp
  show ?thesis
    using le nf lo hi computeRSLLevel_monotonic [OF le, of ?inp levelFlags levelPolicy NaN]
    by simp
qed

section \<open>The FRI in double arithmetic\<close>

lemma expo_le_10:
  assumes "x \<noteq> 0" "\<bar>x\<bar> \<le> 1024"
  shows "expo x \<le> 10"
proof -
  have "log 2 \<bar>x\<bar> \<le> log 2 (2 powr 10)"
    using assms by (subst log_le_cancel_iff) simp_all
  also have "\<dots> = 10" by (rule log_powr_cancel) simp_all
  finally have "\<lfloor>log 2 \<bar>x\<bar>\<rfloor> \<le> 10" by linarith
  then show ?thesis by (simp add: expo_def)
qed

text \<open>Up to 1024 in magnitude, rounding moves a value by less than \<open>10\<^sup>-\<^sup>1\<^sup>2\<close>.\<close>

lemma eps_pos: "0 < eps" and eps_small: "eps \<le> 1 / 1000000000000"
  by (simp_all add: eps_def)

lemma dbl_err:
  assumes "\<bar>x\<bar> \<le> 1024"
  shows "\<bar>dbl x - x\<bar> \<le> eps"
proof (cases "x = 0")
  case True
  then show ?thesis by (simp add: dbl_zero eps_def)
next
  case False
  have "expo x - 52 \<le> - 42" using expo_le_10[OF False assms] by simp
  then have "ulp x \<le> 2 powr of_int (- 42)"
    unfolding ulp_def by (intro powr_mono) simp_all
  also have "\<dots> = 1 / 2 ^ 42"
    by (simp add: powr_minus_divide)
  finally have "ulp x / 2 \<le> eps" by (simp add: eps_def)
  with dbl_half_ulp[of x] show ?thesis by linarith
qed

lemma prod_err:
  fixes a b a' b' :: real
  assumes "\<bar>a' - a\<bar> \<le> ea" "\<bar>b' - b\<bar> \<le> eb" "\<bar>a\<bar> \<le> A" "\<bar>b'\<bar> \<le> B"
  shows "\<bar>a' * b' - a * b\<bar> \<le> ea * B + A * eb"
proof -
  have "a' * b' - a * b = (a' - a) * b' + a * (b' - b)" by (simp add: algebra_simps)
  then have "\<bar>a' * b' - a * b\<bar> \<le> \<bar>a' - a\<bar> * \<bar>b'\<bar> + \<bar>a\<bar> * \<bar>b' - b\<bar>"
    by (metis abs_mult abs_triangle_ineq)
  moreover have "\<bar>a' - a\<bar> * \<bar>b'\<bar> \<le> ea * B"
    using assms by (intro mult_mono) auto
  moreover have "\<bar>a\<bar> * \<bar>b' - b\<bar> \<le> A * eb"
    using assms by (intro mult_mono) auto
  ultimately show ?thesis by linarith
qed

text \<open>A weight times a clamped rubric value.\<close>

lemma weight_err:
  assumes w: "\<bar>w - w0\<bar> \<le> eps" and "0 \<le> w0" "w0 \<le> 1" "0 \<le> c" "c \<le> 5"
  shows "\<bar>fmul w c - w0 * c\<bar> \<le> 6 * eps"
proof -
  have "\<bar>w * c - w0 * c\<bar> \<le> eps * 5 + 1 * 0"
    by (rule prod_err[OF w]) (use assms in auto)
  then have a: "\<bar>w * c - w0 * c\<bar> \<le> 5 * eps" by simp
  have "w0 * c \<le> 1 * 5" using assms by (intro mult_mono) auto
  moreover have "0 \<le> w0 * c" using assms by simp
  ultimately have b: "\<bar>w0 * c\<bar> \<le> 5" by simp
  have "\<bar>w * c\<bar> \<le> 1024" using a b eps_small eps_pos by linarith
  from dbl_err[OF this] have "\<bar>fmul w c - w * c\<bar> \<le> eps" by (simp add: fmul_def)
  with a show ?thesis by linarith
qed

lemma clamp0to5_range: "0 \<le> clamp0to5 x" "clamp0to5 x \<le> 5"
  by (cases x; simp)+

lemma clip_err: "\<bar>max 0 (min 5 p') - max 0 (min 5 p)\<bar> \<le> \<bar>p' - p\<bar>" for p p' :: real
  by (auto simp: max_def min_def abs_if)

lemma js_round_err: "\<bar>js_round x - x\<bar> \<le> 1 / 2"
  unfolding js_round_def by linarith

text \<open>
  The score is a number of hundredths \<open>k\<close>, rounded to a double, and \<open>k / 100\<close> is within
  half a hundredth, and the rounding errors, of the formula over the reals.
\<close>

lemma FRI_double_general:
  fixes c3 c4 c5 c6 :: real
  assumes r: "0 \<le> c3" "c3 \<le> 5" "0 \<le> c4" "c4 \<le> 5" "0 \<le> c5" "c5 \<le> 5" "0 \<le> c6" "c6 \<le> 5"
  defines "CRS \<equiv> fadd (fadd (fmul (dbl 0.3) c3) (fmul (dbl 0.4) c4)) (fmul (dbl 0.3) c5)"
    and "RM \<equiv> fadd (dbl 0.85) (fmul (fdiv c6 5) (dbl 0.3))"
  defines "F \<equiv> max 0 (min 5 (fmul CRS RM))"
  shows "\<exists>k::int. 0 \<le> k \<and> k \<le> 500
            \<and> round2_fri F = dbl (of_int k / 100)
            \<and> \<bar>of_int k / 100 - max 0 (min 5 (CRS_spec c3 c4 c5 * RM_spec c6))\<bar>
                 \<le> 1 / 200 + 1 / 10 ^ 9"
proof -
  note e = eps_pos eps_small
  have w3: "\<bar>dbl 0.3 - 0.3\<bar> \<le> eps" by (rule dbl_err) simp
  have w4: "\<bar>dbl 0.4 - 0.4\<bar> \<le> eps" by (rule dbl_err) simp
  define w85 where "w85 = dbl 0.85"
  have "\<bar>dbl 0.85 - 0.85\<bar> \<le> eps" by (rule dbl_err) simp
  then have w85: "\<bar>w85 - 17 / 20\<bar> \<le> eps" by (simp add: w85_def)
  have rms: "RM_spec c6 = 17 / 20 + c6 / 5 * (3 / 10)" by (simp add: RM_spec_def)
  define a3 where "a3 = fmul (dbl 0.3) c3"
  define a4 where "a4 = fmul (dbl 0.4) c4"
  define a5 where "a5 = fmul (dbl 0.3) c5"
  have a3: "\<bar>a3 - 0.3 * c3\<bar> \<le> 6 * eps"
    unfolding a3_def by (rule weight_err[OF w3]) (use r in simp_all)
  have a4: "\<bar>a4 - 0.4 * c4\<bar> \<le> 6 * eps"
    unfolding a4_def by (rule weight_err[OF w4]) (use r in simp_all)
  have a5: "\<bar>a5 - 0.3 * c5\<bar> \<le> 6 * eps"
    unfolding a5_def by (rule weight_err[OF w3]) (use r in simp_all)
  define s1 where "s1 = fadd a3 a4"
  have "\<bar>a3 + a4\<bar> \<le> 1024" using a3 a4 r e by linarith
  from dbl_err[OF this] have s1: "\<bar>s1 - (0.3 * c3 + 0.4 * c4)\<bar> \<le> 13 * eps"
    using a3 a4 unfolding s1_def fadd_def by linarith
  have CRS: "CRS = dbl (s1 + a5)"
    by (simp add: CRS_def s1_def a3_def a4_def a5_def fadd_def)
  have "\<bar>s1 + a5\<bar> \<le> 1024" using s1 a5 r e by linarith
  from dbl_err[OF this] have crs: "\<bar>CRS - CRS_spec c3 c4 c5\<bar> \<le> 20 * eps"
    using s1 a5 unfolding CRS CRS_spec_def by linarith
  have crs_b: "0 \<le> CRS_spec c3 c4 c5" "CRS_spec c3 c4 c5 \<le> 5"
    using r by (simp_all add: CRS_spec_def)
  define q where "q = fdiv c6 5"
  have "\<bar>c6 / 5\<bar> \<le> 1024" using r by simp
  from dbl_err[OF this] have q: "\<bar>q - c6 / 5\<bar> \<le> eps"
    by (simp add: q_def fdiv_def)
  have w3b: "\<bar>dbl 0.3\<bar> \<le> 1" using w3 e by linarith
  have "\<bar>q * dbl 0.3 - c6 / 5 * 0.3\<bar> \<le> eps * 1 + 1 * eps"
    by (rule prod_err[OF q w3 _ w3b]) (use r in simp)
  then have qw: "\<bar>q * dbl 0.3 - c6 / 5 * 0.3\<bar> \<le> 2 * eps" by simp
  define t where "t = fmul q (dbl 0.3)"
  have "\<bar>q * dbl 0.3\<bar> \<le> 1024" using qw r e by linarith
  from dbl_err[OF this] have t: "\<bar>t - c6 / 5 * 0.3\<bar> \<le> 3 * eps"
    using qw unfolding t_def fmul_def by linarith
  have RM: "RM = dbl (w85 + t)"
    by (simp add: RM_def t_def q_def fadd_def w85_def)
  have "\<bar>w85 + t\<bar> \<le> 1024" using t w85 r e by linarith
  from dbl_err[OF this] have rm: "\<bar>RM - RM_spec c6\<bar> \<le> 5 * eps"
    using t w85 unfolding RM rms by linarith
  have rm_b: "0 \<le> RM_spec c6" "RM_spec c6 \<le> 2" using r unfolding rms by linarith+
  have rm_b': "\<bar>RM\<bar> \<le> 3" using rm rm_b e by linarith
  have "\<bar>CRS * RM - CRS_spec c3 c4 c5 * RM_spec c6\<bar> \<le> 20 * eps * 3 + 5 * (5 * eps)"
    by (rule prod_err[OF crs rm _ rm_b']) (use crs_b in simp)
  then have p0: "\<bar>CRS * RM - CRS_spec c3 c4 c5 * RM_spec c6\<bar> \<le> 85 * eps" by simp
  have "CRS_spec c3 c4 c5 * RM_spec c6 \<le> 5 * 2"
    using crs_b rm_b by (intro mult_mono) auto
  moreover have "0 \<le> CRS_spec c3 c4 c5 * RM_spec c6" using crs_b rm_b by simp
  ultimately have "\<bar>CRS * RM\<bar> \<le> 1024" using p0 e by linarith
  from dbl_err[OF this] have p: "\<bar>fmul CRS RM - CRS_spec c3 c4 c5 * RM_spec c6\<bar> \<le> 86 * eps"
    using p0 unfolding fmul_def by linarith
  define Fe where "Fe = max 0 (min 5 (CRS_spec c3 c4 c5 * RM_spec c6))"
  have f: "\<bar>F - Fe\<bar> \<le> 86 * eps"
    unfolding F_def Fe_def using clip_err[of "fmul CRS RM" "CRS_spec c3 c4 c5 * RM_spec c6"] p
    by linarith
  have fb: "0 \<le> F" "F \<le> 5" by (simp_all add: F_def)
  define X where "X = fmul F 100"
  have "\<bar>F * 100\<bar> \<le> 1024" using fb by simp
  from dbl_err[OF this] have x: "\<bar>X - F * 100\<bar> \<le> eps" by (simp add: X_def fmul_def)
  have x0: "0 \<le> X" unfolding X_def fmul_def by (rule dbl_nonneg) (use fb in simp)
  define k where "k = \<lfloor>X + 1 / 2\<rfloor>"
  have kr: "js_round X = of_int k" by (simp add: js_round_def k_def)
  have "0 \<le> k" unfolding k_def using x0 by simp
  moreover have "k \<le> 500"
  proof -
    have "X + 1 / 2 < 501" using x fb e by linarith
    then show ?thesis unfolding k_def by linarith
  qed
  moreover have "round2_fri F = dbl (of_int k / 100)"
    by (simp add: round2_fri_def X_def[symmetric] kr fdiv_def)
  moreover have "\<bar>of_int k / 100 - Fe\<bar> \<le> 1 / 200 + 1 / 10 ^ 9"
  proof -
    have "\<bar>of_int k - X\<bar> \<le> 1 / 2" using js_round_err[of X] by (simp add: kr)
    then have "\<bar>of_int k - Fe * 100\<bar> \<le> 1 / 2 + 8601 * eps"
      using x f by linarith
    then have "\<bar>of_int k / 100 - Fe\<bar> \<le> 1 / 200 + 1 / 1000000000"
      using e by linarith
    then show ?thesis by simp
  qed
  ultimately show ?thesis unfolding Fe_def by blast
qed

text \<open>The steps of three evaluations, each one rounding.\<close>

lemma fri_step_1: "dbl (3 / 10) = 5404319552844595 / 18014398509481984"
  using dbl_eqI[of "3 / 10" 54 "5404319552844595"] by (simp add: dbl_zero)

lemma fri_step_2: "dbl (2 / 5) = 3602879701896397 / 9007199254740992"
  using dbl_eqI[of "2 / 5" 54 "7205759403792794"] by (simp add: dbl_zero)

lemma fri_step_3: "dbl (17 / 20) = 7656119366529843 / 9007199254740992"
  using dbl_eqI[of "17 / 20" 53 "7656119366529843"] by (simp add: dbl_zero)

lemma fri_step_4: "fmul (5404319552844595 / 18014398509481984) 5 = 3 / 2"
  using dbl_eqI[of "(5404319552844595 / 18014398509481984) * 5" 52 "6755399441055744"] by (simp add: fmul_def)

lemma fri_step_5: "fmul (3602879701896397 / 9007199254740992) 5 = 2"
  using dbl_eqI[of "(3602879701896397 / 9007199254740992) * 5" 51 "4503599627370496"] by (simp add: fmul_def)

lemma fri_step_6: "fadd (3 / 2) 2 = 7 / 2"
  using dbl_eqI[of "(3 / 2) + 2" 51 "7881299347898368"] by (simp add: fadd_def)

lemma fri_step_7: "fadd (7 / 2) (3 / 2) = 5"
  using dbl_eqI[of "(7 / 2) + (3 / 2)" 50 "5629499534213120"] by (simp add: fadd_def)

lemma fri_step_8: "fdiv 5 5 = 1"
  using dbl_eqI[of "5 / 5" 52 "4503599627370496"] by (simp add: fdiv_def)

lemma fri_step_9: "fmul 1 (5404319552844595 / 18014398509481984) = 5404319552844595 / 18014398509481984"
  using dbl_eqI[of "1 * (5404319552844595 / 18014398509481984)" 54 "5404319552844595"] by (simp add: fmul_def)

lemma fri_step_10: "fadd (7656119366529843 / 9007199254740992) (5404319552844595 / 18014398509481984) = 2589569785738035 / 2251799813685248"
  using dbl_eqI[of "(7656119366529843 / 9007199254740992) + (5404319552844595 / 18014398509481984)" 52 "5179139571476070"] by (simp add: fadd_def)

lemma fri_step_11: "fmul 5 (2589569785738035 / 2251799813685248) = 23 / 4"
  using dbl_tieI[of "5 * (2589569785738035 / 2251799813685248)" 50 "6473924464345087"] by (simp add: fmul_def)

lemma fri_step_12: "fmul 5 100 = 500"
  using dbl_eqI[of "5 * 100" 44 "8796093022208000"] by (simp add: fmul_def)

lemma fri_step_13: "fdiv 500 100 = 5"
  using dbl_eqI[of "500 / 100" 50 "5629499534213120"] by (simp add: fdiv_def)

lemma fri_step_14: "fmul (3602879701896397 / 9007199254740992) 0 = 0"
  by (simp add: fmul_def dbl_zero)

lemma fri_step_15: "fmul (5404319552844595 / 18014398509481984) 0 = 0"
  by (simp add: fmul_def dbl_zero)

lemma fri_step_16: "fadd (3 / 2) 0 = 3 / 2"
  using dbl_eqI[of "(3 / 2) + 0" 52 "6755399441055744"] by (simp add: fadd_def)

lemma fri_step_17: "fdiv 0 5 = 0"
  by (simp add: fdiv_def dbl_zero)

lemma fri_step_18: "fmul 0 (5404319552844595 / 18014398509481984) = 0"
  by (simp add: fmul_def dbl_zero)

lemma fri_step_19: "fadd (7656119366529843 / 9007199254740992) 0 = 7656119366529843 / 9007199254740992"
  using dbl_eqI[of "(7656119366529843 / 9007199254740992) + 0" 53 "7656119366529843"] by (simp add: fadd_def)

lemma fri_step_20: "fmul (3 / 2) (7656119366529843 / 9007199254740992) = 2871044762448691 / 2251799813685248"
  using dbl_eqI[of "(3 / 2) * (7656119366529843 / 9007199254740992)" 52 "5742089524897382"] by (simp add: fmul_def)

lemma fri_step_21: "fmul (2871044762448691 / 2251799813685248) 100 = 8972014882652159 / 70368744177664"
  using dbl_eqI[of "(2871044762448691 / 2251799813685248) * 100" 46 "8972014882652159"] by (simp add: fmul_def)

lemma fri_step_22: "fdiv 127 100 = 2859785763380265 / 2251799813685248"
  using dbl_eqI[of "127 / 100" 52 "5719571526760530"] by (simp add: fdiv_def)

lemma fri_step_23: "fmul (5404319552844595 / 18014398509481984) 3 = 2026619832316723 / 2251799813685248"
  using dbl_tieI[of "(5404319552844595 / 18014398509481984) * 3" 53 "8106479329266892"] by (simp add: fmul_def)

lemma fri_step_24: "fmul (3602879701896397 / 9007199254740992) 3 = 1351079888211149 / 1125899906842624"
  using dbl_tieI[of "(3602879701896397 / 9007199254740992) * 3" 52 "5404319552844595"] by (simp add: fmul_def)

lemma fri_step_25: "fmul (5404319552844595 / 18014398509481984) 4 = 5404319552844595 / 4503599627370496"
  using dbl_eqI[of "(5404319552844595 / 18014398509481984) * 4" 52 "5404319552844595"] by (simp add: fmul_def)

lemma fri_step_26: "fadd (2026619832316723 / 2251799813685248) (1351079888211149 / 1125899906842624) = 4728779608739021 / 2251799813685248"
  using dbl_eqI[of "(2026619832316723 / 2251799813685248) + (1351079888211149 / 1125899906842624)" 51 "4728779608739021"] by (simp add: fadd_def)

lemma fri_step_27: "fadd (4728779608739021 / 2251799813685248) (5404319552844595 / 4503599627370496) = 3715469692580659 / 1125899906842624"
  using dbl_tieI[of "(4728779608739021 / 2251799813685248) + (5404319552844595 / 4503599627370496)" 51 "7430939385161318"] by (simp add: fadd_def)

lemma fri_step_28: "fmul (3715469692580659 / 1125899906842624) (2589569785738035 / 2251799813685248) = 8545580292935515 / 2251799813685248"
  using dbl_eqI[of "(3715469692580659 / 1125899906842624) * (2589569785738035 / 2251799813685248)" 51 "8545580292935515"] by (simp add: fmul_def)

lemma fri_step_29: "fmul (8545580292935515 / 2251799813685248) 100 = 6676234603855871 / 17592186044416"
  using dbl_eqI[of "(8545580292935515 / 2251799813685248) * 100" 44 "6676234603855871"] by (simp add: fmul_def)

lemma fri_step_30: "fdiv 379 100 = 4267160646933545 / 1125899906842624"
  using dbl_eqI[of "379 / 100" 51 "8534321293867090"] by (simp add: fdiv_def)

lemma fri_step_31: "dbl (127 / 100) = 2859785763380265 / 2251799813685248"
  using dbl_eqI[of "127 / 100" 52 "5719571526760530"] by (simp add: dbl_zero)

lemma fri_step_32: "dbl (379 / 100) = 4267160646933545 / 1125899906842624"
  using dbl_eqI[of "379 / 100" 51 "8534321293867090"] by (simp add: dbl_zero)

lemma fri_step_33: "dbl (23 / 20) = 2589569785738035 / 2251799813685248"
  using dbl_eqI[of "23 / 20" 52 "5179139571476070"] by (simp add: dbl_zero)

lemmas fri_steps = fri_step_1 fri_step_2 fri_step_3 fri_step_4 fri_step_5 fri_step_6 fri_step_7 fri_step_8 fri_step_9 fri_step_10 fri_step_11 fri_step_12 fri_step_13 fri_step_14 fri_step_15 fri_step_16 fri_step_17 fri_step_18 fri_step_19 fri_step_20 fri_step_21 fri_step_22 fri_step_23 fri_step_24 fri_step_25 fri_step_26 fri_step_27 fri_step_28 fri_step_29 fri_step_30 fri_step_31 fri_step_32 fri_step_33

lemma computeFRI_5555:
  "fmul (fadd (fadd (fmul (dbl 0.3) 5) (fmul (dbl 0.4) 5)) (fmul (dbl 0.3) 5))
        (fadd (dbl 0.85) (fmul (fdiv 5 5) (dbl 0.3))) = 5.75"
  "fri_score (computeFRI (Fin 5) (Fin 5) (Fin 5) (Fin 5)) = 5"
  by (simp_all add: computeFRI_def Let_def round2_fri_def js_round_def fri_steps)

lemma computeFRI_5000: "fri_score (computeFRI (Fin 5) (Fin 0) (Fin 0) (Fin 0)) = dbl 1.27"
  by (simp add: computeFRI_def Let_def round2_fri_def js_round_def fri_steps)

lemma computeFRI_3345: "fri_score (computeFRI (Fin 3) (Fin 3) (Fin 4) (Fin 5)) = dbl 3.79"
  by (simp add: computeFRI_def Let_def round2_fri_def js_round_def fri_steps)

lemma FRI_spec_5000: "FRI_spec 5 0 0 0 = 1.28"
  by (simp add: FRI_spec_def CRS_spec_def RM_spec_def js_round_def)

lemma dbl_127_far: "dbl 1.27 < 1.28 - 1 / 200"
  by (simp add: fri_steps)

text \<open>
  Claim C9, as stated, fails: the score is the rounding of a product of doubles, not of
  the formula's value. For \<open>computeFRI(5,0,0,0)\<close> the formula gives \<open>1.5 \<times> 0.85 = 1.275\<close>,
  which rounded to two decimals is \<open>1.28\<close>; in doubles the product is just below
  \<open>1.275\<close>, a hundred times it is just below \<open>127.5\<close>, and the score is the double
  \<open>1.27\<close>.
\<close>

theorem computeFRI_tie_counterexample:
  "fri_score (computeFRI (Fin 5) (Fin 0) (Fin 0) (Fin 0)) = dbl 1.27
   \<and> FRI_spec 5 0 0 0 = 1.28
   \<and> dbl 1.27 < 1.28 - 1 / 200"
  using computeFRI_5000 FRI_spec_5000 dbl_127_far by simp

text \<open>
  Claim C9, amended. \<open>computeFRI\<close> evaluates \<open>clamp(CRS \<times> RM, 0, 5)\<close> with
  \<open>CRS = 0.3\<cdot>R3 + 0.4\<cdot>R4 + 0.3\<cdot>R5\<close> and \<open>RM = 0.85 + (R6/5)\<times>0.3\<close>, on the rubric values
  clamped to \<open>[0, 5]\<close> (a value that is not finite counts as 0), in the arithmetic of
  doubles, and rounds with \<^verbatim>\<open>Math.round(x * 100) / 100\<close>. For all arguments the score is
  the double nearest to \<open>k / 100\<close> for a whole number \<open>k\<close> of hundredths from 0 to 500,
  and \<open>k / 100\<close> differs from the value of the formula over the reals by at most half a
  hundredth and \<open>10\<^sup>-\<^sup>9\<close>: it is the formula rounded to two decimals, except that
  next to a tie the neighbouring hundredth may be taken. For \<open>computeFRI(5,5,5,5)\<close>:
  \<open>CRS = 5\<close>, \<open>RM = 1.15\<close>, the product before the clamp is \<open>5.75\<close>, also in doubles,
  and the score is exactly \<open>5\<close>. For \<open>computeFRI(3,3,4,5)\<close> the formula gives \<open>3.795\<close>
  and the score is the double \<open>3.79\<close>.
\<close>

theorem computeFRI_formula:
  "(\<exists>k::int. 0 \<le> k \<and> k \<le> 500
       \<and> fri_score (computeFRI R3 R4 R5 R6) = dbl (of_int k / 100)
       \<and> \<bar>of_int k / 100
            - max 0 (min 5 (CRS_spec (clamp0to5 R3) (clamp0to5 R4) (clamp0to5 R5)
                              * RM_spec (clamp0to5 R6)))\<bar>
            \<le> 1 / 200 + 1 / 10 ^ 9)
   \<and> CRS_spec 5 5 5 = 5 \<and> RM_spec 5 = 1.15 \<and> CRS_spec 5 5 5 * RM_spec 5 = 5.75
   \<and> fmul (fadd (fadd (fmul (dbl 0.3) 5) (fmul (dbl 0.4) 5)) (fmul (dbl 0.3) 5))
          (fadd (dbl 0.85) (fmul (fdiv 5 5) (dbl 0.3))) = 5.75
   \<and> fri_score (computeFRI (Fin 5) (Fin 5) (Fin 5) (Fin 5)) = 5
   \<and> CRS_spec 3 3 4 * RM_spec 5 = 3.795
   \<and> fri_score (computeFRI (Fin 3) (Fin 3) (Fin 4) (Fin 5)) = dbl 3.79"
proof -
  have "\<exists>k::int. 0 \<le> k \<and> k \<le> 500
       \<and> fri_score (computeFRI R3 R4 R5 R6) = dbl (of_int k / 100)
       \<and> \<bar>of_int k / 100
            - max 0 (min 5 (CRS_spec (clamp0to5 R3) (clamp0to5 R4) (clamp0to5 R5)
                              * RM_spec (clamp0to5 R6)))\<bar>
            \<le> 1 / 200 + 1 / 10 ^ 9"
    using FRI_double_general[of "clamp0to5 R3" "clamp0to5 R4" "clamp0to5 R5" "clamp0to5 R6"]
    by (simp add: computeFRI_def Let_def clamp0to5_range)
  moreover have "CRS_spec 5 5 5 = 5" "RM_spec 5 = 1.15" "CRS_spec 5 5 5 * RM_spec 5 = 5.75"
    "CRS_spec 3 3 4 * RM_spec 5 = 3.795"
    by (simp_all add: CRS_spec_def RM_spec_def)
  ultimately show ?thesis
    using computeFRI_5555 computeFRI_3345 by simp
qed

section \<open>The nearest centroid in double arithmetic\<close>










lemma rc_step_1: "dbl (3 / 25) = 1080863910568919 / 9007199254740992"
  using dbl_eqI[of "3 / 25" 56 "8646911284551352"] by (simp add: dbl_zero)

lemma rc_step_2: "dbl (11 / 50) = 7926335344172073 / 36028797018963968"
  using dbl_eqI[of "11 / 50" 55 "7926335344172073"] by (simp add: dbl_zero)

lemma rc_step_3: "dbl (39 / 100) = 3512807709348987 / 9007199254740992"
  using dbl_eqI[of "39 / 100" 54 "7025615418697974"] by (simp add: dbl_zero)

lemma rc_step_4: "dbl (17 / 20) = 7656119366529843 / 9007199254740992"
  using dbl_eqI[of "17 / 20" 53 "7656119366529843"] by (simp add: dbl_zero)

lemma rc_step_5: "dbl (4 / 5) = 3602879701896397 / 4503599627370496"
  using dbl_eqI[of "4 / 5" 53 "7205759403792794"] by (simp add: dbl_zero)

lemma rc_step_6: "fsub 0 (7656119366529843 / 9007199254740992) = - (7656119366529843 / 9007199254740992)"
  using dbl_eqI[of "0 - (7656119366529843 / 9007199254740992)" 53 "- 7656119366529843"] by (simp add: fsub_def)

lemma rc_step_7: "fsub (3512807709348987 / 9007199254740992) (3602879701896397 / 4503599627370496) = - (3692951694443807 / 9007199254740992)"
  using dbl_eqI[of "(3512807709348987 / 9007199254740992) - (3602879701896397 / 4503599627370496)" 54 "- 7385903388887614"] by (simp add: fsub_def)

lemma rc_step_8: "fsub 0 (3602879701896397 / 4503599627370496) = - (3602879701896397 / 4503599627370496)"
  using dbl_eqI[of "0 - (3602879701896397 / 4503599627370496)" 53 "- 7205759403792794"] by (simp add: fsub_def)

lemma rc_step_9: "fmul (- (7656119366529843 / 9007199254740992)) (- (7656119366529843 / 9007199254740992)) = 3253850730775183 / 4503599627370496"
  using dbl_eqI[of "(- (7656119366529843 / 9007199254740992)) * (- (7656119366529843 / 9007199254740992))" 53 "6507701461550366"] by (simp add: fmul_def)

lemma rc_step_10: "fmul (- (3692951694443807 / 9007199254740992)) (- (3692951694443807 / 9007199254740992)) = 1514110194721961 / 9007199254740992"
  using dbl_eqI[of "(- (3692951694443807 / 9007199254740992)) * (- (3692951694443807 / 9007199254740992))" 55 "6056440778887844"] by (simp add: fmul_def)

lemma rc_step_11: "fmul (- (3602879701896397 / 4503599627370496)) (- (3602879701896397 / 4503599627370496)) = 1441151880758559 / 2251799813685248"
  using dbl_eqI[of "(- (3602879701896397 / 4503599627370496)) * (- (3602879701896397 / 4503599627370496))" 53 "5764607523034236"] by (simp add: fmul_def)

lemma rc_step_12: "fadd (3253850730775183 / 4503599627370496) (1514110194721961 / 9007199254740992) = 8021811656272327 / 9007199254740992"
  using dbl_eqI[of "(3253850730775183 / 4503599627370496) + (1514110194721961 / 9007199254740992)" 53 "8021811656272327"] by (simp add: fadd_def)

lemma rc_step_13: "fadd (8021811656272327 / 9007199254740992) (1441151880758559 / 2251799813685248) = 3446604794826641 / 2251799813685248"
  using dbl_tieI[of "(8021811656272327 / 9007199254740992) + (1441151880758559 / 2251799813685248)" 52 "6893209589653281"] by (simp add: fadd_def)

lemma rc_step_14: "fsqrt (3446604794826641 / 2251799813685248) = 5571737264027195 / 4503599627370496"
  using fsqrt_eqI[where n = 52 and m = "5571737264027195" and x = "3446604794826641 / 2251799813685248"] by simp

lemma rc_step_15: "dbl (11 / 20) = 2476979795053773 / 4503599627370496"
  using dbl_eqI[of "11 / 20" 53 "4953959590107546"] by (simp add: dbl_zero)

lemma rc_step_16: "dbl (3 / 5) = 5404319552844595 / 9007199254740992"
  using dbl_eqI[of "3 / 5" 53 "5404319552844595"] by (simp add: dbl_zero)

lemma rc_step_17: "fsub (3512807709348987 / 9007199254740992) (2476979795053773 / 4503599627370496) = - (1441151880758559 / 9007199254740992)"
  using dbl_eqI[of "(3512807709348987 / 9007199254740992) - (2476979795053773 / 4503599627370496)" 55 "- 5764607523034236"] by (simp add: fsub_def)

lemma rc_step_18: "fsub 0 (5404319552844595 / 9007199254740992) = - (5404319552844595 / 9007199254740992)"
  using dbl_eqI[of "0 - (5404319552844595 / 9007199254740992)" 53 "- 5404319552844595"] by (simp add: fsub_def)

lemma rc_step_19: "fmul (- (1441151880758559 / 9007199254740992)) (- (1441151880758559 / 9007199254740992)) = 461168601842739 / 18014398509481984"
  using dbl_eqI[of "(- (1441151880758559 / 9007199254740992)) * (- (1441151880758559 / 9007199254740992))" 58 "7378697629483824"] by (simp add: fmul_def)

lemma rc_step_20: "fmul (- (5404319552844595 / 9007199254740992)) (- (5404319552844595 / 9007199254740992)) = 3242591731706757 / 9007199254740992"
  using dbl_eqI[of "(- (5404319552844595 / 9007199254740992)) * (- (5404319552844595 / 9007199254740992))" 54 "6485183463413514"] by (simp add: fmul_def)

lemma rc_step_21: "fadd (1441151880758559 / 2251799813685248) (461168601842739 / 18014398509481984) = 2997595911977803 / 4503599627370496"
  using dbl_tieI[of "(1441151880758559 / 2251799813685248) + (461168601842739 / 18014398509481984)" 53 "5995191823955605"] by (simp add: fadd_def)

lemma rc_step_22: "fadd (2997595911977803 / 4503599627370496) (3242591731706757 / 9007199254740992) = 2309445888915591 / 2251799813685248"
  using dbl_tieI[of "(2997595911977803 / 4503599627370496) + (3242591731706757 / 9007199254740992)" 52 "4618891777831181"] by (simp add: fadd_def)

lemma rc_step_23: "fsqrt (2309445888915591 / 2251799813685248) = 285055088491031 / 281474976710656"
  using fsqrt_eqI[where n = 52 and m = "4560881415856496" and x = "2309445888915591 / 2251799813685248"] by simp

lemma rc_step_24: "dbl (3 / 4) = 3 / 4"
  using dbl_eqI[of "3 / 4" 53 "6755399441055744"] by (simp add: dbl_zero)

lemma rc_step_25: "dbl (1 / 4) = 1 / 4"
  using dbl_eqI[of "1 / 4" 54 "4503599627370496"] by (simp add: dbl_zero)

lemma rc_step_26: "fsub 0 (3 / 4) = - (3 / 4)"
  using dbl_eqI[of "0 - (3 / 4)" 53 "- 6755399441055744"] by (simp add: fsub_def)

lemma rc_step_27: "fsub 0 (1 / 4) = - (1 / 4)"
  using dbl_eqI[of "0 - (1 / 4)" 54 "- 4503599627370496"] by (simp add: fsub_def)

lemma rc_step_28: "fmul (- (3 / 4)) (- (3 / 4)) = 9 / 16"
  using dbl_eqI[of "(- (3 / 4)) * (- (3 / 4))" 53 "5066549580791808"] by (simp add: fmul_def)

lemma rc_step_29: "fmul (- (1 / 4)) (- (1 / 4)) = 1 / 16"
  using dbl_eqI[of "(- (1 / 4)) * (- (1 / 4))" 56 "4503599627370496"] by (simp add: fmul_def)

lemma rc_step_30: "fadd (9 / 16) (461168601842739 / 18014398509481984) = 2648566940856589 / 4503599627370496"
  using dbl_tieI[of "(9 / 16) + (461168601842739 / 18014398509481984)" 53 "5297133881713177"] by (simp add: fadd_def)

lemma rc_step_31: "fadd (2648566940856589 / 4503599627370496) (1 / 16) = 2930041917567245 / 4503599627370496"
  using dbl_eqI[of "(2648566940856589 / 4503599627370496) + (1 / 16)" 53 "5860083835134490"] by (simp add: fadd_def)

lemma rc_step_32: "fsqrt (2930041917567245 / 4503599627370496) = 908148380226759 / 1125899906842624"
  using fsqrt_eqI[where n = 53 and m = "7265187041814072" and x = "2930041917567245 / 4503599627370496"] by simp

lemma rc_step_33: "dbl (7 / 10) = 3152519739159347 / 4503599627370496"
  using dbl_eqI[of "7 / 10" 53 "6305039478318694"] by (simp add: dbl_zero)

lemma rc_step_34: "dbl (3 / 10) = 5404319552844595 / 18014398509481984"
  using dbl_eqI[of "3 / 10" 54 "5404319552844595"] by (simp add: dbl_zero)

lemma rc_step_35: "dbl (1 / 5) = 3602879701896397 / 18014398509481984"
  using dbl_eqI[of "1 / 5" 55 "7205759403792794"] by (simp add: dbl_zero)

lemma rc_step_36: "fsub 0 (3152519739159347 / 4503599627370496) = - (3152519739159347 / 4503599627370496)"
  using dbl_eqI[of "0 - (3152519739159347 / 4503599627370496)" 53 "- 6305039478318694"] by (simp add: fsub_def)

lemma rc_step_37: "fsub (3512807709348987 / 9007199254740992) (5404319552844595 / 18014398509481984) = 1621295865853379 / 18014398509481984"
  using dbl_eqI[of "(3512807709348987 / 9007199254740992) - (5404319552844595 / 18014398509481984)" 56 "6485183463413516"] by (simp add: fsub_def)

lemma rc_step_38: "fsub 0 (3602879701896397 / 18014398509481984) = - (3602879701896397 / 18014398509481984)"
  using dbl_eqI[of "0 - (3602879701896397 / 18014398509481984)" 55 "- 7205759403792794"] by (simp add: fsub_def)

lemma rc_step_39: "fmul (- (3152519739159347 / 4503599627370496)) (- (3152519739159347 / 4503599627370496)) = 8827055269646171 / 18014398509481984"
  using dbl_eqI[of "(- (3152519739159347 / 4503599627370496)) * (- (3152519739159347 / 4503599627370496))" 54 "8827055269646171"] by (simp add: fmul_def)

lemma rc_step_40: "fmul (1621295865853379 / 18014398509481984) (1621295865853379 / 18014398509481984) = 4669332093657733 / 576460752303423488"
  using dbl_eqI[of "(1621295865853379 / 18014398509481984) * (1621295865853379 / 18014398509481984)" 59 "4669332093657733"] by (simp add: fmul_def)

lemma rc_step_41: "fmul (- (3602879701896397 / 18014398509481984)) (- (3602879701896397 / 18014398509481984)) = 1441151880758559 / 36028797018963968"
  using dbl_eqI[of "(- (3602879701896397 / 18014398509481984)) * (- (3602879701896397 / 18014398509481984))" 57 "5764607523034236"] by (simp add: fmul_def)

lemma rc_step_42: "fadd (8827055269646171 / 18014398509481984) (4669332093657733 / 576460752303423488) = 8972971897572975 / 18014398509481984"
  using dbl_eqI[of "(8827055269646171 / 18014398509481984) + (4669332093657733 / 576460752303423488)" 54 "8972971897572975"] by (simp add: fadd_def)

lemma rc_step_43: "fadd (8972971897572975 / 18014398509481984) (1441151880758559 / 36028797018963968) = 4846773918976127 / 9007199254740992"
  using dbl_eqI[of "(8972971897572975 / 18014398509481984) + (1441151880758559 / 36028797018963968)" 53 "4846773918976127"] by (simp add: fadd_def)

lemma rc_step_44: "fsqrt (4846773918976127 / 9007199254740992) = 6607258011527917 / 9007199254740992"
  using fsqrt_eqI[where n = 53 and m = "6607258011527917" and x = "4846773918976127 / 9007199254740992"] by simp

lemma rc_step_45: "fsub 0 (2476979795053773 / 4503599627370496) = - (2476979795053773 / 4503599627370496)"
  using dbl_eqI[of "0 - (2476979795053773 / 4503599627370496)" 53 "- 4953959590107546"] by (simp add: fsub_def)

lemma rc_step_46: "fmul (- (2476979795053773 / 4503599627370496)) (- (2476979795053773 / 4503599627370496)) = 5449355549118301 / 18014398509481984"
  using dbl_eqI[of "(- (2476979795053773 / 4503599627370496)) * (- (2476979795053773 / 4503599627370496))" 54 "5449355549118301"] by (simp add: fmul_def)

lemma rc_step_47: "fadd (5449355549118301 / 18014398509481984) (461168601842739 / 18014398509481984) = 369407759435065 / 1125899906842624"
  using dbl_eqI[of "(5449355549118301 / 18014398509481984) + (461168601842739 / 18014398509481984)" 54 "5910524150961040"] by (simp add: fadd_def)

lemma rc_step_48: "fadd (369407759435065 / 1125899906842624) (5449355549118301 / 18014398509481984) = 2839969925019835 / 4503599627370496"
  using dbl_tieI[of "(369407759435065 / 1125899906842624) + (5449355549118301 / 18014398509481984)" 53 "5679939850039670"] by (simp add: fadd_def)

lemma rc_step_49: "fsqrt (2839969925019835 / 4503599627370496) = 7152646362308917 / 9007199254740992"
  using fsqrt_eqI[where n = 53 and m = "7152646362308917" and x = "2839969925019835 / 4503599627370496"] by simp

lemma rc_step_50: "dbl (1 / 2) = 1 / 2"
  using dbl_eqI[of "1 / 2" 53 "4503599627370496"] by (simp add: dbl_zero)

lemma rc_step_51: "fsub 0 (1 / 2) = - (1 / 2)"
  using dbl_eqI[of "0 - (1 / 2)" 53 "- 4503599627370496"] by (simp add: fsub_def)

lemma rc_step_52: "fmul (- (1 / 2)) (- (1 / 2)) = 1 / 4"
  using dbl_eqI[of "(- (1 / 2)) * (- (1 / 2))" 54 "4503599627370496"] by (simp add: fmul_def)

lemma rc_step_53: "fadd (1 / 4) (4669332093657733 / 576460752303423488) = 1162379063824325 / 4503599627370496"
  using dbl_eqI[of "(1 / 4) + (4669332093657733 / 576460752303423488)" 54 "4649516255297300"] by (simp add: fadd_def)

lemma rc_step_54: "fadd (1162379063824325 / 4503599627370496) (1441151880758559 / 36028797018963968) = 1342523048919145 / 4503599627370496"
  using dbl_tieI[of "(1162379063824325 / 4503599627370496) + (1441151880758559 / 36028797018963968)" 54 "5370092195676579"] by (simp add: fadd_def)

lemma rc_step_55: "fsqrt (1342523048919145 / 4503599627370496) = 614724852212789 / 1125899906842624"
  using fsqrt_eqI[where n = 53 and m = "4917798817702312" and x = "1342523048919145 / 4503599627370496"] by simp

lemma rc_step_56: "dbl (3 / 20) = 5404319552844595 / 36028797018963968"
  using dbl_eqI[of "3 / 20" 55 "5404319552844595"] by (simp add: dbl_zero)

lemma rc_step_57: "fsub 0 (5404319552844595 / 36028797018963968) = - (5404319552844595 / 36028797018963968)"
  using dbl_eqI[of "0 - (5404319552844595 / 36028797018963968)" 55 "- 5404319552844595"] by (simp add: fsub_def)

lemma rc_step_58: "fmul (- (5404319552844595 / 36028797018963968)) (- (5404319552844595 / 36028797018963968)) = 3242591731706757 / 144115188075855872"
  using dbl_eqI[of "(- (5404319552844595 / 36028797018963968)) * (- (5404319552844595 / 36028797018963968))" 58 "6485183463413514"] by (simp add: fmul_def)

lemma rc_step_59: "fadd (1441151880758559 / 36028797018963968) (4669332093657733 / 576460752303423488) = 6931940546448669 / 144115188075855872"
  using dbl_eqI[of "(1441151880758559 / 36028797018963968) + (4669332093657733 / 576460752303423488)" 57 "6931940546448669"] by (simp add: fadd_def)

lemma rc_step_60: "fadd (6931940546448669 / 144115188075855872) (3242591731706757 / 144115188075855872) = 5087266139077713 / 72057594037927936"
  using dbl_eqI[of "(6931940546448669 / 144115188075855872) + (3242591731706757 / 144115188075855872)" 56 "5087266139077713"] by (simp add: fadd_def)

lemma rc_step_61: "fsqrt (5087266139077713 / 72057594037927936) = 4786544671084239 / 18014398509481984"
  using fsqrt_eqI[where n = 54 and m = "4786544671084239" and x = "5087266139077713 / 72057594037927936"] by simp

lemma rc_step_62: "fadd (3242591731706757 / 144115188075855872) (461168601842739 / 18014398509481984) = 6931940546448669 / 144115188075855872"
  using dbl_eqI[of "(3242591731706757 / 144115188075855872) + (461168601842739 / 18014398509481984)" 57 "6931940546448669"] by (simp add: fadd_def)

lemma rc_step_63: "dbl (1 / 10) = 3602879701896397 / 36028797018963968"
  using dbl_eqI[of "1 / 10" 56 "7205759403792794"] by (simp add: dbl_zero)

lemma rc_step_64: "fsub 0 (3602879701896397 / 36028797018963968) = - (3602879701896397 / 36028797018963968)"
  using dbl_eqI[of "0 - (3602879701896397 / 36028797018963968)" 56 "- 7205759403792794"] by (simp add: fsub_def)

lemma rc_step_65: "fmul (- (3602879701896397 / 36028797018963968)) (- (3602879701896397 / 36028797018963968)) = 1441151880758559 / 144115188075855872"
  using dbl_eqI[of "(- (3602879701896397 / 36028797018963968)) * (- (3602879701896397 / 36028797018963968))" 59 "5764607523034236"] by (simp add: fmul_def)

lemma rc_step_66: "fadd (1441151880758559 / 144115188075855872) (1514110194721961 / 9007199254740992) = 1604182187269371 / 9007199254740992"
  using dbl_eqI[of "(1441151880758559 / 144115188075855872) + (1514110194721961 / 9007199254740992)" 55 "6416728749077484"] by (simp add: fadd_def)

lemma rc_step_67: "fadd (1604182187269371 / 9007199254740992) (1441151880758559 / 144115188075855872) = 1694254179816781 / 9007199254740992"
  using dbl_eqI[of "(1604182187269371 / 9007199254740992) + (1441151880758559 / 144115188075855872)" 55 "6777016719267124"] by (simp add: fadd_def)

lemma rc_step_68: "fsqrt (1694254179816781 / 9007199254740992) = 1953233536074701 / 4503599627370496"
  using fsqrt_eqI[where n = 54 and m = "7812934144298804" and x = "1694254179816781 / 9007199254740992"] by simp

lemma rc_step_69: "dbl (2 / 25) = 5764607523034235 / 72057594037927936"
  using dbl_eqI[of "2 / 25" 56 "5764607523034235"] by (simp add: dbl_zero)

lemma rc_step_70: "dbl (4 / 25) = 5764607523034235 / 36028797018963968"
  using dbl_eqI[of "4 / 25" 55 "5764607523034235"] by (simp add: dbl_zero)

lemma rc_step_71: "dbl (3 / 100) = 1080863910568919 / 36028797018963968"
  using dbl_eqI[of "3 / 100" 58 "8646911284551352"] by (simp add: dbl_zero)

lemma rc_step_72: "fsub (5764607523034235 / 72057594037927936) (7656119366529843 / 9007199254740992) = - (1733885856537641 / 2251799813685248)"
  using dbl_eqI[of "(5764607523034235 / 72057594037927936) - (7656119366529843 / 9007199254740992)" 53 "- 6935543426150564"] by (simp add: fsub_def)

lemma rc_step_73: "fsub (5764607523034235 / 36028797018963968) (3602879701896397 / 4503599627370496) = - (5764607523034235 / 9007199254740992)"
  using dbl_eqI[of "(5764607523034235 / 36028797018963968) - (3602879701896397 / 4503599627370496)" 53 "- 5764607523034235"] by (simp add: fsub_def)

lemma rc_step_74: "fsub (1080863910568919 / 36028797018963968) (3602879701896397 / 4503599627370496) = - (1733885856537641 / 2251799813685248)"
  using dbl_eqI[of "(1080863910568919 / 36028797018963968) - (3602879701896397 / 4503599627370496)" 53 "- 6935543426150564"] by (simp add: fsub_def)

lemma rc_step_75: "fmul (- (1733885856537641 / 2251799813685248)) (- (1733885856537641 / 2251799813685248)) = 2670184219067967 / 4503599627370496"
  using dbl_eqI[of "(- (1733885856537641 / 2251799813685248)) * (- (1733885856537641 / 2251799813685248))" 53 "5340368438135934"] by (simp add: fmul_def)

lemma rc_step_76: "fmul (- (5764607523034235 / 9007199254740992)) (- (5764607523034235 / 9007199254740992)) = 7378697629483821 / 18014398509481984"
  using dbl_eqI[of "(- (5764607523034235 / 9007199254740992)) * (- (5764607523034235 / 9007199254740992))" 54 "7378697629483821"] by (simp add: fmul_def)

lemma rc_step_77: "fadd (2670184219067967 / 4503599627370496) (7378697629483821 / 18014398509481984) = 2257429313219461 / 2251799813685248"
  using dbl_eqI[of "(2670184219067967 / 4503599627370496) + (7378697629483821 / 18014398509481984)" 52 "4514858626438922"] by (simp add: fadd_def)

lemma rc_step_78: "fadd (2257429313219461 / 2251799813685248) (2670184219067967 / 4503599627370496) = 7185042845506889 / 4503599627370496"
  using dbl_eqI[of "(2257429313219461 / 2251799813685248) + (2670184219067967 / 4503599627370496)" 52 "7185042845506889"] by (simp add: fadd_def)

lemma rc_step_79: "fsqrt (7185042845506889 / 4503599627370496) = 5688458163831907 / 4503599627370496"
  using fsqrt_eqI[where n = 52 and m = "5688458163831907" and x = "7185042845506889 / 4503599627370496"] by simp

lemma rc_step_80: "fsub (5764607523034235 / 72057594037927936) (3602879701896397 / 4503599627370496) = - (6485183463413515 / 9007199254740992)"
  using dbl_eqI[of "(5764607523034235 / 72057594037927936) - (3602879701896397 / 4503599627370496)" 53 "- 6485183463413515"] by (simp add: fsub_def)

lemma rc_step_81: "fsub (5764607523034235 / 36028797018963968) (2476979795053773 / 4503599627370496) = - (3512807709348987 / 9007199254740992)"
  using dbl_tieI[of "(5764607523034235 / 36028797018963968) - (2476979795053773 / 4503599627370496)" 54 "- 7025615418697975"] by (simp add: fsub_def)

lemma rc_step_82: "fsub (1080863910568919 / 36028797018963968) (5404319552844595 / 9007199254740992) = - (5134103575202365 / 9007199254740992)"
  using dbl_eqI[of "(1080863910568919 / 36028797018963968) - (5404319552844595 / 9007199254740992)" 53 "- 5134103575202365"] by (simp add: fsub_def)

lemma rc_step_83: "fmul (- (6485183463413515 / 9007199254740992)) (- (6485183463413515 / 9007199254740992)) = 4669332093657731 / 9007199254740992"
  using dbl_eqI[of "(- (6485183463413515 / 9007199254740992)) * (- (6485183463413515 / 9007199254740992))" 53 "4669332093657731"] by (simp add: fmul_def)

lemma rc_step_84: "fmul (- (3512807709348987 / 9007199254740992)) (- (3512807709348987 / 9007199254740992)) = 1369995006646105 / 9007199254740992"
  using dbl_eqI[of "(- (3512807709348987 / 9007199254740992)) * (- (3512807709348987 / 9007199254740992))" 55 "5479980026584420"] by (simp add: fmul_def)

lemma rc_step_85: "fmul (- (5134103575202365 / 9007199254740992)) (- (5134103575202365 / 9007199254740992)) = 731609759466337 / 2251799813685248"
  using dbl_eqI[of "(- (5134103575202365 / 9007199254740992)) * (- (5134103575202365 / 9007199254740992))" 54 "5852878075730696"] by (simp add: fmul_def)

lemma rc_step_86: "fadd (4669332093657731 / 9007199254740992) (1369995006646105 / 9007199254740992) = 1509831775075959 / 2251799813685248"
  using dbl_eqI[of "(4669332093657731 / 9007199254740992) + (1369995006646105 / 9007199254740992)" 53 "6039327100303836"] by (simp add: fadd_def)

lemma rc_step_87: "fadd (1509831775075959 / 2251799813685248) (731609759466337 / 2251799813685248) = 280180191817787 / 281474976710656"
  using dbl_eqI[of "(1509831775075959 / 2251799813685248) + (731609759466337 / 2251799813685248)" 53 "8965766138169184"] by (simp add: fadd_def)

lemma rc_step_88: "fsqrt (280180191817787 / 281474976710656) = 8986458817459717 / 9007199254740992"
  using fsqrt_eqI[where n = 53 and m = "8986458817459717" and x = "280180191817787 / 281474976710656"] by simp

lemma rc_step_89: "fsub (5764607523034235 / 72057594037927936) (3 / 4) = - (6034823500676465 / 9007199254740992)"
  using dbl_eqI[of "(5764607523034235 / 72057594037927936) - (3 / 4)" 53 "- 6034823500676465"] by (simp add: fsub_def)

lemma rc_step_90: "fsub (1080863910568919 / 36028797018963968) (1 / 4) = - (7926335344172073 / 36028797018963968)"
  using dbl_eqI[of "(1080863910568919 / 36028797018963968) - (1 / 4)" 55 "- 7926335344172073"] by (simp add: fsub_def)

lemma rc_step_91: "fmul (- (6034823500676465 / 9007199254740992)) (- (6034823500676465 / 9007199254740992)) = 252708234090827 / 562949953421312"
  using dbl_eqI[of "(- (6034823500676465 / 9007199254740992)) * (- (6034823500676465 / 9007199254740992))" 54 "8086663490906464"] by (simp add: fmul_def)

lemma rc_step_92: "fmul (- (7926335344172073 / 36028797018963968)) (- (7926335344172073 / 36028797018963968)) = 54493555491183 / 1125899906842624"
  using dbl_eqI[of "(- (7926335344172073 / 36028797018963968)) * (- (7926335344172073 / 36028797018963968))" 57 "6975175102871424"] by (simp add: fmul_def)

lemma rc_step_93: "fadd (252708234090827 / 562949953421312) (1369995006646105 / 9007199254740992) = 5413326752099337 / 9007199254740992"
  using dbl_eqI[of "(252708234090827 / 562949953421312) + (1369995006646105 / 9007199254740992)" 53 "5413326752099337"] by (simp add: fadd_def)

lemma rc_step_94: "fadd (5413326752099337 / 9007199254740992) (54493555491183 / 1125899906842624) = 5849275196028801 / 9007199254740992"
  using dbl_eqI[of "(5413326752099337 / 9007199254740992) + (54493555491183 / 1125899906842624)" 53 "5849275196028801"] by (simp add: fadd_def)

lemma rc_step_95: "fsqrt (5849275196028801 / 9007199254740992) = 7258483807686395 / 9007199254740992"
  using fsqrt_eqI[where n = 53 and m = "7258483807686395" and x = "5849275196028801 / 9007199254740992"] by simp

lemma rc_step_96: "fsub (5764607523034235 / 72057594037927936) (3152519739159347 / 4503599627370496) = - (5584463537939415 / 9007199254740992)"
  using dbl_eqI[of "(5764607523034235 / 72057594037927936) - (3152519739159347 / 4503599627370496)" 53 "- 5584463537939415"] by (simp add: fsub_def)

lemma rc_step_97: "fsub (5764607523034235 / 36028797018963968) (5404319552844595 / 18014398509481984) = - (5044031582654955 / 36028797018963968)"
  using dbl_eqI[of "(5764607523034235 / 36028797018963968) - (5404319552844595 / 18014398509481984)" 55 "- 5044031582654955"] by (simp add: fsub_def)

lemma rc_step_98: "fsub (1080863910568919 / 36028797018963968) (3602879701896397 / 18014398509481984) = - (6124895493223875 / 36028797018963968)"
  using dbl_eqI[of "(1080863910568919 / 36028797018963968) - (3602879701896397 / 18014398509481984)" 55 "- 6124895493223875"] by (simp add: fsub_def)

lemma rc_step_99: "fmul (- (5584463537939415 / 9007199254740992)) (- (5584463537939415 / 9007199254740992)) = 6924734787044875 / 18014398509481984"
  using dbl_eqI[of "(- (5584463537939415 / 9007199254740992)) * (- (5584463537939415 / 9007199254740992))" 54 "6924734787044875"] by (simp add: fmul_def)

lemma rc_step_100: "fmul (- (5044031582654955 / 36028797018963968)) (- (5044031582654955 / 36028797018963968)) = 5649315372573549 / 288230376151711744"
  using dbl_eqI[of "(- (5044031582654955 / 36028797018963968)) * (- (5044031582654955 / 36028797018963968))" 58 "5649315372573549"] by (simp add: fmul_def)

lemma rc_step_101: "fmul (- (6124895493223875 / 36028797018963968)) (- (6124895493223875 / 36028797018963968)) = 8329857870784471 / 288230376151711744"
  using dbl_eqI[of "(- (6124895493223875 / 36028797018963968)) * (- (6124895493223875 / 36028797018963968))" 58 "8329857870784471"] by (simp add: fmul_def)

lemma rc_step_102: "fadd (6924734787044875 / 18014398509481984) (5649315372573549 / 288230376151711744) = 3638908498915361 / 9007199254740992"
  using dbl_eqI[of "(6924734787044875 / 18014398509481984) + (5649315372573549 / 288230376151711744)" 54 "7277816997830722"] by (simp add: fadd_def)

lemma rc_step_103: "fadd (3638908498915361 / 9007199254740992) (8329857870784471 / 288230376151711744) = 7798433114754751 / 18014398509481984"
  using dbl_eqI[of "(3638908498915361 / 9007199254740992) + (8329857870784471 / 288230376151711744)" 54 "7798433114754751"] by (simp add: fadd_def)

lemma rc_step_104: "fsqrt (7798433114754751 / 18014398509481984) = 5926299053345455 / 9007199254740992"
  using fsqrt_eqI[where n = 53 and m = "5926299053345455" and x = "7798433114754751 / 18014398509481984"] by simp

lemma rc_step_105: "fsub (5764607523034235 / 72057594037927936) (2476979795053773 / 4503599627370496) = - (8466767299456533 / 18014398509481984)"
  using dbl_eqI[of "(5764607523034235 / 72057594037927936) - (2476979795053773 / 4503599627370496)" 54 "- 8466767299456533"] by (simp add: fsub_def)

lemma rc_step_106: "fsub (1080863910568919 / 36028797018963968) (2476979795053773 / 4503599627370496) = - (1170935903116329 / 2251799813685248)"
  using dbl_eqI[of "(1080863910568919 / 36028797018963968) - (2476979795053773 / 4503599627370496)" 53 "- 4683743612465316"] by (simp add: fsub_def)

lemma rc_step_107: "fmul (- (8466767299456533 / 18014398509481984)) (- (8466767299456533 / 18014398509481984)) = 3979380630744571 / 18014398509481984"
  using dbl_eqI[of "(- (8466767299456533 / 18014398509481984)) * (- (8466767299456533 / 18014398509481984))" 55 "7958761261489142"] by (simp add: fmul_def)

lemma rc_step_108: "fmul (- (1170935903116329 / 2251799813685248)) (- (1170935903116329 / 2251799813685248)) = 4871093356963929 / 18014398509481984"
  using dbl_eqI[of "(- (1170935903116329 / 2251799813685248)) * (- (1170935903116329 / 2251799813685248))" 54 "4871093356963929"] by (simp add: fmul_def)

lemma rc_step_109: "fadd (3979380630744571 / 18014398509481984) (1369995006646105 / 9007199254740992) = 6719370644036781 / 18014398509481984"
  using dbl_eqI[of "(3979380630744571 / 18014398509481984) + (1369995006646105 / 9007199254740992)" 54 "6719370644036781"] by (simp add: fadd_def)

lemma rc_step_110: "fadd (6719370644036781 / 18014398509481984) (4871093356963929 / 18014398509481984) = 5795232000500355 / 9007199254740992"
  using dbl_eqI[of "(6719370644036781 / 18014398509481984) + (4871093356963929 / 18014398509481984)" 53 "5795232000500355"] by (simp add: fadd_def)

lemma rc_step_111: "fsqrt (5795232000500355 / 9007199254740992) = 7224874348800673 / 9007199254740992"
  using fsqrt_eqI[where n = 53 and m = "7224874348800673" and x = "5795232000500355 / 9007199254740992"] by simp

lemma rc_step_112: "fsub (5764607523034235 / 72057594037927936) (1 / 2) = - (7566047373982433 / 18014398509481984)"
  using dbl_eqI[of "(5764607523034235 / 72057594037927936) - (1 / 2)" 54 "- 7566047373982433"] by (simp add: fsub_def)

lemma rc_step_113: "fmul (- (7566047373982433 / 18014398509481984)) (- (7566047373982433 / 18014398509481984)) = 6355479794145243 / 36028797018963968"
  using dbl_eqI[of "(- (7566047373982433 / 18014398509481984)) * (- (7566047373982433 / 18014398509481984))" 55 "6355479794145243"] by (simp add: fmul_def)

lemma rc_step_114: "fadd (6355479794145243 / 36028797018963968) (5649315372573549 / 288230376151711744) = 7061644215716937 / 36028797018963968"
  using dbl_eqI[of "(6355479794145243 / 36028797018963968) + (5649315372573549 / 288230376151711744)" 55 "7061644215716937"] by (simp add: fadd_def)

lemma rc_step_115: "fadd (7061644215716937 / 36028797018963968) (8329857870784471 / 288230376151711744) = 2025719112391249 / 9007199254740992"
  using dbl_eqI[of "(7061644215716937 / 36028797018963968) + (8329857870784471 / 288230376151711744)" 55 "8102876449564996"] by (simp add: fadd_def)

lemma rc_step_116: "fsqrt (2025719112391249 / 9007199254740992) = 8543080399819503 / 18014398509481984"
  using fsqrt_eqI[where n = 54 and m = "8543080399819503" and x = "2025719112391249 / 9007199254740992"] by simp

lemma rc_step_117: "fsub (5764607523034235 / 72057594037927936) (3602879701896397 / 18014398509481984) = - (8646911284551353 / 72057594037927936)"
  using dbl_eqI[of "(5764607523034235 / 72057594037927936) - (3602879701896397 / 18014398509481984)" 56 "- 8646911284551353"] by (simp add: fsub_def)

lemma rc_step_118: "fsub (1080863910568919 / 36028797018963968) (5404319552844595 / 36028797018963968) = - (1080863910568919 / 9007199254740992)"
  using dbl_eqI[of "(1080863910568919 / 36028797018963968) - (5404319552844595 / 36028797018963968)" 56 "- 8646911284551352"] by (simp add: fsub_def)

lemma rc_step_119: "fmul (- (8646911284551353 / 72057594037927936)) (- (8646911284551353 / 72057594037927936)) = 2075258708292325 / 144115188075855872"
  using dbl_eqI[of "(- (8646911284551353 / 72057594037927936)) * (- (8646911284551353 / 72057594037927936))" 59 "8301034833169300"] by (simp add: fmul_def)

lemma rc_step_120: "fmul (- (1080863910568919 / 9007199254740992)) (- (1080863910568919 / 9007199254740992)) = 4150517416584649 / 288230376151711744"
  using dbl_eqI[of "(- (1080863910568919 / 9007199254740992)) * (- (1080863910568919 / 9007199254740992))" 59 "8301034833169298"] by (simp add: fmul_def)

lemma rc_step_121: "fadd (2075258708292325 / 144115188075855872) (5649315372573549 / 288230376151711744) = 1224979098644775 / 36028797018963968"
  using dbl_tieI[of "(2075258708292325 / 144115188075855872) + (5649315372573549 / 288230376151711744)" 57 "4899916394579099"] by (simp add: fadd_def)

lemma rc_step_122: "fadd (1224979098644775 / 36028797018963968) (4150517416584649 / 288230376151711744) = 54493555491183 / 1125899906842624"
  using dbl_tieI[of "(1224979098644775 / 36028797018963968) + (4150517416584649 / 288230376151711744)" 57 "6975175102871424"] by (simp add: fadd_def)

lemma rc_step_123: "fsqrt (54493555491183 / 1125899906842624) = 7926335344172073 / 36028797018963968"
  using fsqrt_eqI[where n = 55 and m = "7926335344172073" and x = "54493555491183 / 1125899906842624"] by simp

lemma rc_step_124: "fsub (5764607523034235 / 72057594037927936) (5404319552844595 / 36028797018963968) = - (5044031582654955 / 72057594037927936)"
  using dbl_eqI[of "(5764607523034235 / 72057594037927936) - (5404319552844595 / 36028797018963968)" 56 "- 5044031582654955"] by (simp add: fsub_def)

lemma rc_step_125: "fmul (- (5044031582654955 / 72057594037927936)) (- (5044031582654955 / 72057594037927936)) = 5649315372573549 / 1152921504606846976"
  using dbl_eqI[of "(- (5044031582654955 / 72057594037927936)) * (- (5044031582654955 / 72057594037927936))" 60 "5649315372573549"] by (simp add: fmul_def)

lemma rc_step_126: "fadd (5649315372573549 / 1152921504606846976) (1369995006646105 / 9007199254740992) = 5656521131977343 / 36028797018963968"
  using dbl_eqI[of "(5649315372573549 / 1152921504606846976) + (1369995006646105 / 9007199254740992)" 55 "5656521131977343"] by (simp add: fadd_def)

lemma rc_step_127: "fadd (5656521131977343 / 36028797018963968) (4150517416584649 / 288230376151711744) = 771916976131303 / 4503599627370496"
  using dbl_eqI[of "(5656521131977343 / 36028797018963968) + (4150517416584649 / 288230376151711744)" 55 "6175335809050424"] by (simp add: fadd_def)

lemma rc_step_128: "fsqrt (771916976131303 / 4503599627370496) = 7458048008497555 / 18014398509481984"
  using fsqrt_eqI[where n = 54 and m = "7458048008497555" and x = "771916976131303 / 4503599627370496"] by simp

lemma rc_step_129: "fsub (5764607523034235 / 72057594037927936) (3602879701896397 / 36028797018963968) = - (1441151880758559 / 72057594037927936)"
  using dbl_eqI[of "(5764607523034235 / 72057594037927936) - (3602879701896397 / 36028797018963968)" 58 "- 5764607523034236"] by (simp add: fsub_def)

lemma rc_step_130: "fsub (1080863910568919 / 36028797018963968) (3602879701896397 / 36028797018963968) = - (1261007895663739 / 18014398509481984)"
  using dbl_eqI[of "(1080863910568919 / 36028797018963968) - (3602879701896397 / 36028797018963968)" 56 "- 5044031582654956"] by (simp add: fsub_def)

lemma rc_step_131: "fmul (- (1441151880758559 / 72057594037927936)) (- (1441151880758559 / 72057594037927936)) = 461168601842739 / 1152921504606846976"
  using dbl_eqI[of "(- (1441151880758559 / 72057594037927936)) * (- (1441151880758559 / 72057594037927936))" 64 "7378697629483824"] by (simp add: fmul_def)

lemma rc_step_132: "fmul (- (1261007895663739 / 18014398509481984)) (- (1261007895663739 / 18014398509481984)) = 5649315372573551 / 1152921504606846976"
  using dbl_eqI[of "(- (1261007895663739 / 18014398509481984)) * (- (1261007895663739 / 18014398509481984))" 60 "5649315372573551"] by (simp add: fmul_def)

lemma rc_step_133: "fadd (461168601842739 / 1152921504606846976) (7378697629483821 / 18014398509481984) = 3692951694443807 / 9007199254740992"
  using dbl_eqI[of "(461168601842739 / 1152921504606846976) + (7378697629483821 / 18014398509481984)" 54 "7385903388887614"] by (simp add: fadd_def)

lemma rc_step_134: "fadd (3692951694443807 / 9007199254740992) (5649315372573551 / 1152921504606846976) = 1868543485396019 / 4503599627370496"
  using dbl_eqI[of "(3692951694443807 / 9007199254740992) + (5649315372573551 / 1152921504606846976)" 54 "7474173941584076"] by (simp add: fadd_def)

lemma rc_step_135: "fsqrt (1868543485396019 / 4503599627370496) = 5801783086105539 / 9007199254740992"
  using fsqrt_eqI[where n = 53 and m = "5801783086105539" and x = "1868543485396019 / 4503599627370496"] by simp

lemmas rc_steps = rc_step_1 rc_step_2 rc_step_3 rc_step_4 rc_step_5 rc_step_6 rc_step_7 rc_step_8 rc_step_9 rc_step_10 rc_step_11 rc_step_12 rc_step_13 rc_step_14 rc_step_15 rc_step_16 rc_step_17 rc_step_18 rc_step_19 rc_step_20 rc_step_21 rc_step_22 rc_step_23 rc_step_24 rc_step_25 rc_step_26 rc_step_27 rc_step_28 rc_step_29 rc_step_30 rc_step_31 rc_step_32 rc_step_33 rc_step_34 rc_step_35 rc_step_36 rc_step_37 rc_step_38 rc_step_39 rc_step_40 rc_step_41 rc_step_42 rc_step_43 rc_step_44 rc_step_45 rc_step_46 rc_step_47 rc_step_48 rc_step_49 rc_step_50 rc_step_51 rc_step_52 rc_step_53 rc_step_54 rc_step_55 rc_step_56 rc_step_57 rc_step_58 rc_step_59 rc_step_60 rc_step_61 rc_step_62 rc_step_63 rc_step_64 rc_step_65 rc_step_66 rc_step_67 rc_step_68 rc_step_69 rc_step_70 rc_step_71 rc_step_72 rc_step_73 rc_step_74 rc_step_75 rc_step_76 rc_step_77 rc_step_78 rc_step_79 rc_step_80 rc_step_81 rc_step_82 rc_step_83 rc_step_84 rc_step_85 rc_step_86 rc_step_87 rc_step_88 rc_step_89 rc_step_90 rc_step_91 rc_step_92 rc_step_93 rc_step_94 rc_step_95 rc_step_96 rc_step_97 rc_step_98 rc_step_99 rc_step_100 rc_step_101 rc_step_102 rc_step_103 rc_step_104 rc_step_105 rc_step_106 rc_step_107 rc_step_108 rc_step_109 rc_step_110 rc_step_111 rc_step_112 rc_step_113 rc_step_114 rc_step_115 rc_step_116 rc_step_117 rc_step_118 rc_step_119 rc_step_120 rc_step_121 rc_step_122 rc_step_123 rc_step_124 rc_step_125 rc_step_126 rc_step_127 rc_step_128 rc_step_129 rc_step_130 rc_step_131 rc_step_132 rc_step_133 rc_step_134 rc_step_135

lemma euclidean_tie_input:
  "euclidean \<lparr> cv_A = 0, cv_D = dbl (39 / 100), cv_R = 0 \<rparr> (CENTROIDS deep_reflective_human) = 5571737264027195 / 4503599627370496"
  "euclidean \<lparr> cv_A = 0, cv_D = dbl (39 / 100), cv_R = 0 \<rparr> (CENTROIDS moderate_reflective_human) = 285055088491031 / 281474976710656"
  "euclidean \<lparr> cv_A = 0, cv_D = dbl (39 / 100), cv_R = 0 \<rparr> (CENTROIDS moderate_procedural_human) = 908148380226759 / 1125899906842624"
  "euclidean \<lparr> cv_A = 0, cv_D = dbl (39 / 100), cv_R = 0 \<rparr> (CENTROIDS shallow_procedural_human) = 6607258011527917 / 9007199254740992"
  "euclidean \<lparr> cv_A = 0, cv_D = dbl (39 / 100), cv_R = 0 \<rparr> (CENTROIDS moderate_reflective_hybrid) = 7152646362308917 / 9007199254740992"
  "euclidean \<lparr> cv_A = 0, cv_D = dbl (39 / 100), cv_R = 0 \<rparr> (CENTROIDS shallow_procedural_hybrid) = 614724852212789 / 1125899906842624"
  "euclidean \<lparr> cv_A = 0, cv_D = dbl (39 / 100), cv_R = 0 \<rparr> (CENTROIDS shallow_procedural_ai) = 4786544671084239 / 18014398509481984"
  "euclidean \<lparr> cv_A = 0, cv_D = dbl (39 / 100), cv_R = 0 \<rparr> (CENTROIDS moderate_procedural_ai) = 4786544671084239 / 18014398509481984"
  "euclidean \<lparr> cv_A = 0, cv_D = dbl (39 / 100), cv_R = 0 \<rparr> (CENTROIDS deep_procedural_ai) = 1953233536074701 / 4503599627370496"
  by (simp_all add: euclidean_def Let_def rc_steps)

lemma euclidean_band_input:
  "euclidean \<lparr> cv_A = dbl (2 / 25), cv_D = dbl (4 / 25), cv_R = dbl (3 / 100) \<rparr> (CENTROIDS deep_reflective_human) = 5688458163831907 / 4503599627370496"
  "euclidean \<lparr> cv_A = dbl (2 / 25), cv_D = dbl (4 / 25), cv_R = dbl (3 / 100) \<rparr> (CENTROIDS moderate_reflective_human) = 8986458817459717 / 9007199254740992"
  "euclidean \<lparr> cv_A = dbl (2 / 25), cv_D = dbl (4 / 25), cv_R = dbl (3 / 100) \<rparr> (CENTROIDS moderate_procedural_human) = 7258483807686395 / 9007199254740992"
  "euclidean \<lparr> cv_A = dbl (2 / 25), cv_D = dbl (4 / 25), cv_R = dbl (3 / 100) \<rparr> (CENTROIDS shallow_procedural_human) = 5926299053345455 / 9007199254740992"
  "euclidean \<lparr> cv_A = dbl (2 / 25), cv_D = dbl (4 / 25), cv_R = dbl (3 / 100) \<rparr> (CENTROIDS moderate_reflective_hybrid) = 7224874348800673 / 9007199254740992"
  "euclidean \<lparr> cv_A = dbl (2 / 25), cv_D = dbl (4 / 25), cv_R = dbl (3 / 100) \<rparr> (CENTROIDS shallow_procedural_hybrid) = 8543080399819503 / 18014398509481984"
  "euclidean \<lparr> cv_A = dbl (2 / 25), cv_D = dbl (4 / 25), cv_R = dbl (3 / 100) \<rparr> (CENTROIDS shallow_procedural_ai) = 7926335344172073 / 36028797018963968"
  "euclidean \<lparr> cv_A = dbl (2 / 25), cv_D = dbl (4 / 25), cv_R = dbl (3 / 100) \<rparr> (CENTROIDS moderate_procedural_ai) = 7458048008497555 / 18014398509481984"
  "euclidean \<lparr> cv_A = dbl (2 / 25), cv_D = dbl (4 / 25), cv_R = dbl (3 / 100) \<rparr> (CENTROIDS deep_procedural_ai) = 5801783086105539 / 9007199254740992"
  by (simp_all add: euclidean_def Let_def rc_steps)


lemma label_shallow_procedural_ai:
  "formatControlPatternLabel shallow_procedural_ai = ''Shallow Procedural Ai''"
  by code_simp

text \<open>
  At \<open>(0, 0.39, 0)\<close> the computed distances to the seventh and the eighth centroid are
  the same double, and the seventh, registered first, is kept.
\<close>

lemma nearest_tie_input:
  "nearest_centroid \<lparr> cv_A = 0, cv_D = dbl (39 / 100), cv_R = 0 \<rparr>
     = (shallow_procedural_ai, Some (4786544671084239 / 18014398509481984))"
  by (simp add: nearest_centroid_def CENTROID_KEYS_def nearest_step_def Let_def
      euclidean_tie_input del: CENTROIDS.simps)

lemma nearest_band_input:
  "nearest_centroid \<lparr> cv_A = dbl (2 / 25), cv_D = dbl (4 / 25), cv_R = dbl (3 / 100) \<rparr>
     = (shallow_procedural_ai, Some (7926335344172073 / 36028797018963968))"
  by (simp add: nearest_centroid_def CENTROID_KEYS_def nearest_step_def Let_def
      euclidean_band_input del: CENTROIDS.simps)

lemma inferRC_tie_input:
  "control_pattern (inferRCFromADR \<lparr> cv_A = 0, cv_D = dbl (39 / 100), cv_R = 0 \<rparr>)
     = ''Shallow Procedural Ai''"
  "reliability_band (inferRCFromADR \<lparr> cv_A = 0, cv_D = dbl (39 / 100), cv_R = 0 \<rparr>) = LOW"
proof -
  have v: "clamp01 0 = 0" "clamp01 (dbl (39 / 100)) = dbl (39 / 100)"
    by (simp_all add: clamp01_def rc_steps)
  show "control_pattern (inferRCFromADR \<lparr> cv_A = 0, cv_D = dbl (39 / 100), cv_R = 0 \<rparr>)
     = ''Shallow Procedural Ai''"
    by (simp add: inferRCFromADR_def Let_def v nearest_tie_input label_shallow_procedural_ai)
  have "reliability_band (inferRCFromADR \<lparr> cv_A = 0, cv_D = dbl (39 / 100), cv_R = 0 \<rparr>)
      = bandFromDistance (4786544671084239 / 18014398509481984)"
    by (simp add: inferRCFromADR_def Let_def v nearest_tie_input)
  also have "\<dots> = LOW" by (simp add: bandFromDistance_def rc_steps)
  finally show "reliability_band (inferRCFromADR \<lparr> cv_A = 0, cv_D = dbl (39 / 100), cv_R = 0 \<rparr>)
      = LOW" .
qed

lemma inferRC_band_input:
  "control_pattern (inferRCFromADR \<lparr> cv_A = dbl (2 / 25), cv_D = dbl (4 / 25), cv_R = dbl (3 / 100) \<rparr>)
     = ''Shallow Procedural Ai''"
  "reliability_band (inferRCFromADR \<lparr> cv_A = dbl (2 / 25), cv_D = dbl (4 / 25), cv_R = dbl (3 / 100) \<rparr>)
     = LOW"
proof -
  have v: "clamp01 (dbl (2 / 25)) = dbl (2 / 25)" "clamp01 (dbl (4 / 25)) = dbl (4 / 25)"
    "clamp01 (dbl (3 / 100)) = dbl (3 / 100)"
    by (simp_all add: clamp01_def rc_steps)
  show "control_pattern (inferRCFromADR \<lparr> cv_A = dbl (2 / 25), cv_D = dbl (4 / 25), cv_R = dbl (3 / 100) \<rparr>)
     = ''Shallow Procedural Ai''"
    by (simp add: inferRCFromADR_def Let_def v nearest_band_input label_shallow_procedural_ai)
  have "reliability_band
          (inferRCFromADR \<lparr> cv_A = dbl (2 / 25), cv_D = dbl (4 / 25), cv_R = dbl (3 / 100) \<rparr>)
      = bandFromDistance (7926335344172073 / 36028797018963968)"
    by (simp add: inferRCFromADR_def Let_def v nearest_band_input)
  also have "\<dots> = LOW" by (simp add: bandFromDistance_def rc_steps)
  finally show "reliability_band
          (inferRCFromADR \<lparr> cv_A = dbl (2 / 25), cv_D = dbl (4 / 25), cv_R = dbl (3 / 100) \<rparr>)
      = LOW" .
qed

text \<open>
  Claim C7, as stated, fails, because the distances are computed in doubles. At
  \<open>(0, 0.39, 0)\<close> the classifier answers \<open>Shallow Procedural Ai\<close>, although the centroid
  of \<open>moderate_procedural_ai\<close> is nearer in Euclidean distance: the two computed
  distances round to the same double and the pattern registered first is kept. At
  \<open>(0.08, 0.16, 0.03)\<close> the band is \<open>LOW\<close>, although the Euclidean distance to the
  assigned centroid is below \<open>0.22\<close> (below the number and below the double): the
  computed distance is the double \<open>0.22\<close> itself.
\<close>

theorem inferRCFromADR_rounding_counterexample:
  "control_pattern (inferRCFromADR \<lparr> cv_A = 0, cv_D = dbl 0.39, cv_R = 0 \<rparr>)
     = ''Shallow Procedural Ai''
   \<and> sq_dist \<lparr> cv_A = 0, cv_D = dbl 0.39, cv_R = 0 \<rparr> (CENTROIDS moderate_procedural_ai)
       < sq_dist \<lparr> cv_A = 0, cv_D = dbl 0.39, cv_R = 0 \<rparr> (CENTROIDS shallow_procedural_ai)
   \<and> control_pattern (inferRCFromADR \<lparr> cv_A = dbl 0.08, cv_D = dbl 0.16, cv_R = dbl 0.03 \<rparr>)
       = ''Shallow Procedural Ai''
   \<and> reliability_band (inferRCFromADR \<lparr> cv_A = dbl 0.08, cv_D = dbl 0.16, cv_R = dbl 0.03 \<rparr>)
       = LOW
   \<and> sq_dist \<lparr> cv_A = dbl 0.08, cv_D = dbl 0.16, cv_R = dbl 0.03 \<rparr>
         (CENTROIDS shallow_procedural_ai) < 0.22\<^sup>2
   \<and> sq_dist \<lparr> cv_A = dbl 0.08, cv_D = dbl 0.16, cv_R = dbl 0.03 \<rparr>
         (CENTROIDS shallow_procedural_ai) < (dbl 0.22)\<^sup>2"
proof -
  have "sq_dist \<lparr> cv_A = 0, cv_D = dbl 0.39, cv_R = 0 \<rparr> (CENTROIDS moderate_procedural_ai)
       < sq_dist \<lparr> cv_A = 0, cv_D = dbl 0.39, cv_R = 0 \<rparr> (CENTROIDS shallow_procedural_ai)"
    by (simp add: sq_dist_def rc_steps power2_eq_square)
  moreover have "sq_dist \<lparr> cv_A = dbl 0.08, cv_D = dbl 0.16, cv_R = dbl 0.03 \<rparr>
         (CENTROIDS shallow_procedural_ai) < 0.22\<^sup>2"
    "sq_dist \<lparr> cv_A = dbl 0.08, cv_D = dbl 0.16, cv_R = dbl 0.03 \<rparr>
         (CENTROIDS shallow_procedural_ai) < (dbl 0.22)\<^sup>2"
    by (simp_all add: sq_dist_def rc_steps power2_eq_square)
  ultimately show ?thesis
    using inferRC_tie_input inferRC_band_input by simp
qed



section \<open>What entropy01 computes\<close>

lemma foldl_add_sum_list: "foldl (\<lambda>a b. a + b) (a::real) xs = a + sum_list xs"
  by (induction xs arbitrary: a) simp_all

lemma foldl_plnp: "foldl (\<lambda>acc p. acc + p * ln p) (a::real) ps = a + (\<Sum>p\<leftarrow>ps. p * ln p)"
  by (induction ps arbitrary: a) simp_all

lemma sum_list_pos_part:
  "sum_list (map (\<lambda>v. if v > 0 then v else 0) counts) = sum_list (filter (\<lambda>c. c > 0) (counts::real list))"
  by (induction counts) simp_all

lemma filter_div_pos:
  "0 < (s::real) \<Longrightarrow>
   filter (\<lambda>p. p > 0) (map (\<lambda>v. v / s) (map (\<lambda>v. if v > 0 then v else 0) counts))
     = map (\<lambda>c. c / s) (filter (\<lambda>c. c > 0) counts)"
  by (induction counts) simp_all

lemma sum_list_pos_gt0: "xs \<noteq> [] \<Longrightarrow> \<forall>x\<in>set xs. 0 < x \<Longrightarrow> 0 < sum_list (xs::real list)"
  by (induction xs) (auto simp: add_pos_nonneg sum_list_nonneg less_imp_le)

lemma sum_list_split_const:
  "(\<Sum>p\<leftarrow>ps. - (p * ln p) - p * (c::real)) = - (\<Sum>p\<leftarrow>ps. p * ln p) - c * sum_list ps"
  by (induction ps) (simp_all add: algebra_simps)

text \<open>Gibbs' inequality for a finite distribution given as a list.\<close>

lemma gibbs_list:
  fixes ps :: "real list"
  assumes pos: "\<forall>p\<in>set ps. 0 < p" and one: "sum_list ps = 1" and ne: "ps \<noteq> []"
  shows "- (\<Sum>p\<leftarrow>ps. p * ln p) \<le> ln (real (length ps))"
proof -
  let ?n = "real (length ps)"
  have n: "0 < ?n" using ne by simp
  have each: "p * ln (1 / (?n * p)) \<le> 1 / ?n - p" if "p \<in> set ps" for p
  proof -
    have p: "0 < p" using pos that by simp
    have "ln (1 / (?n * p)) \<le> 1 / (?n * p) - 1"
      using ln_le_minus_one[of "1 / (?n * p)"] n p by simp
    then have "p * ln (1 / (?n * p)) \<le> p * (1 / (?n * p) - 1)"
      using p by (simp add: mult_left_mono)
    also have "\<dots> = 1 / ?n - p" using p n by (simp add: field_simps)
    finally show ?thesis .
  qed
  have "(\<Sum>p\<leftarrow>ps. p * ln (1 / (?n * p))) \<le> (\<Sum>p\<leftarrow>ps. 1 / ?n - p)"
    by (rule sum_list_mono) (use each in auto)
  also have "\<dots> = 0"
    using one n by (simp add: sum_list_subtractf sum_list_triv)
  finally have le0: "(\<Sum>p\<leftarrow>ps. p * ln (1 / (?n * p))) \<le> 0" .
  have eq: "p * ln (1 / (?n * p)) = - (p * ln p) - p * ln ?n" if "p \<in> set ps" for p
  proof -
    have p: "0 < p" using pos that by simp
    show ?thesis using p n by (simp add: ln_div ln_mult algebra_simps)
  qed
  have "(\<Sum>p\<leftarrow>ps. p * ln (1 / (?n * p))) = (\<Sum>p\<leftarrow>ps. - (p * ln p) - p * ln ?n)"
    by (rule arg_cong[where f=sum_list]) (use eq in auto)
  also have "\<dots> = - (\<Sum>p\<leftarrow>ps. p * ln p) - ln ?n * sum_list ps"
    by (rule sum_list_split_const)
  finally show ?thesis using le0 one by simp
qed


lemma pos_le_sum_list:
  "\<forall>x\<in>set xs. 0 < x \<Longrightarrow> x \<in> set xs \<Longrightarrow> x \<le> sum_list (xs::real list)"
proof (induction xs)
  case Nil
  then show ?case by simp
next
  case (Cons a xs)
  have "0 \<le> sum_list xs" using Cons.prems(1) by (simp add: sum_list_nonneg less_imp_le)
  moreover have "0 < a" using Cons.prems(1) by simp
  ultimately show ?case using Cons by auto
qed

lemma sum_list_div: "sum_list (map (\<lambda>c. c / s) xs) = sum_list xs / (s::real)"
  by (induction xs) (simp_all add: add_divide_distrib)

lemma plnp_nonpos: "\<forall>p\<in>set ps. 0 < p \<and> p \<le> (1::real) \<Longrightarrow> (\<Sum>p\<leftarrow>ps. p * ln p) \<le> 0"
proof (induction ps)
  case Nil
  then show ?case by simp
next
  case (Cons a ps)
  have "a * ln a \<le> 0" using Cons.prems by (simp add: mult_nonneg_nonpos)
  then show ?case using Cons by simp
qed

lemma entropy01_char:
  "entropy01 counts =
     (let pos = filter (\<lambda>c. c > 0) counts; s = sum_list pos; n = length pos
      in if n \<le> 1 then 0
         else (- (\<Sum>c\<leftarrow>pos. (c / s) * ln (c / s))) / ln (real n))"
proof -
  define pos where "pos = filter (\<lambda>c. c > 0) counts"
  define s where "s = sum_list pos"
  have allpos: "\<forall>x\<in>set pos. 0 < x" by (simp add: pos_def)
  have sx: "foldl (\<lambda>a b. a + b) 0 (map (\<lambda>v. if v > 0 then v else 0) counts) = s"
    by (simp add: foldl_add_sum_list sum_list_pos_part pos_def s_def)
  show ?thesis
  proof (cases "pos = []")
    case True
    then have "s = 0" by (simp add: s_def)
    then show ?thesis
      using True unfolding entropy01_def Let_def sx pos_def[symmetric] by simp
  next
    case False
    then have s0: "0 < s" unfolding s_def using allpos by (rule sum_list_pos_gt0)
    define ps where "ps = map (\<lambda>c. c / s) pos"
    have psf: "filter (\<lambda>p. p > 0) (map (\<lambda>v. v / s) (map (\<lambda>v. if v > 0 then v else 0) counts)) = ps"
      unfolding ps_def pos_def using s0 by (rule filter_div_pos)
    have len: "length ps = length pos" by (simp add: ps_def)
    have lne: "length pos \<noteq> 0" using False by simp
    have h: "foldl (\<lambda>acc p. acc + p * ln p) 0 ps = (\<Sum>c\<leftarrow>pos. (c / s) * ln (c / s))"
      by (simp add: foldl_plnp ps_def comp_def)
    have e: "entropy01 counts =
        (if ln (real (length pos)) \<le> 0 then 0
         else clamp01_level (Some (- (\<Sum>c\<leftarrow>pos. (c / s) * ln (c / s)) / ln (real (length pos)))))"
      unfolding entropy01_def Let_def sx psf h len using s0 lne by simp
    show ?thesis
    proof (cases "length pos \<le> 1")
      case True
      with False have "length pos = 1" by (cases pos) simp_all
      then show ?thesis
        unfolding e Let_def pos_def[symmetric] by simp
    next
      case big: False
      then have "1 < real (length pos)" by simp
      then have lnpos: "0 < ln (real (length pos))" by (rule ln_gt_zero)
      have ps1: "sum_list ps = 1" using s0 by (simp add: ps_def sum_list_div s_def)
      have psr: "\<forall>p\<in>set ps. 0 < p \<and> p \<le> 1"
        using allpos s0 pos_le_sum_list[OF allpos] by (auto simp: ps_def s_def)
      have pne: "ps \<noteq> []" using False by (simp add: ps_def)
      have hs: "(\<Sum>c\<leftarrow>pos. (c / s) * ln (c / s)) = (\<Sum>p\<leftarrow>ps. p * ln p)"
        by (simp add: ps_def comp_def)
      have up: "- (\<Sum>p\<leftarrow>ps. p * ln p) \<le> ln (real (length pos))"
        using gibbs_list[of ps] psr ps1 pne len by auto
      have lo: "0 \<le> - (\<Sum>p\<leftarrow>ps. p * ln p)"
        using plnp_nonpos[OF psr] by simp
      have q0: "0 \<le> - (\<Sum>p\<leftarrow>ps. p * ln p) / ln (real (length pos))"
        using lo lnpos by (intro divide_nonneg_pos) simp_all
      have q1: "- (\<Sum>p\<leftarrow>ps. p * ln p) / ln (real (length pos)) \<le> 1"
      proof -
        have g: "x / b \<le> 1" if "x \<le> b" "0 < b" for x b :: real
          using that by (simp add: field_simps)
        show ?thesis by (rule g[OF up lnpos])
      qed
      have "clamp01_level (Some (- (\<Sum>p\<leftarrow>ps. p * ln p) / ln (real (length pos))))
          = - (\<Sum>p\<leftarrow>ps. p * ln p) / ln (real (length pos))"
        using q0 q1 by (simp add: clamp01_level_def Let_def)
      then show ?thesis
        unfolding e Let_def pos_def[symmetric] s_def[symmetric] hs using big lnpos by simp
    qed
  qed
qed

lemma ln_half: "ln (1 / 2 :: real) = - ln 2"
  by (simp add: ln_div)

lemma ln_four: "ln (4::real) = 2 * ln 2"
proof -
  have "ln (4::real) = ln (2 * 2)" by simp
  also have "\<dots> = 2 * ln 2" by (simp only: ln_mult) simp
  finally show ?thesis .
qed

text \<open>
  Claim C8, as stated, fails: the count vector \<open>[1, 1, 0, 0]\<close> has four buckets, so its
  entropy \<open>ln 2\<close> normalised by the maximum entropy for four buckets, \<open>ln 4\<close>, is
  \<open>1/2\<close>; \<open>entropy01\<close> returns \<open>1\<close>, because it divides by the logarithm of the
  number of non-zero buckets.
\<close>

theorem entropy01_cardinality_counterexample:
  "entropy01 [1, 1, 0, 0] = 1 \<and> entropy01_spec [1, 1, 0, 0] = 1 / 2
   \<and> entropy01 [1, 1, 0, 0] \<noteq> entropy01_spec [1, 1, 0, 0]"
proof -
  have a: "entropy01 [1, 1, 0, 0] = 1"
    by (simp add: entropy01_char ln_half)
  have b: "entropy01_spec [1, 1, 0, 0] = 1 / 2"
    by (simp add: entropy01_spec_def shannon_entropy_def ln_half ln_four)
  show ?thesis unfolding a b by simp
qed

text \<open>
  Claim C8, amended. For every count vector, \<open>entropy01\<close> is the Shannon entropy of the
  distribution of the positive counts (entries that are not positive are dropped),
  divided by the maximum entropy for the number of positive entries, and it is 0 when
  at most one entry is positive, that is when the positive counts sum to 0 or all
  mass is in one bucket. The value lies in \<open>[0, 1]\<close> without the final clamp.
  In particular \<open>entropy01([]) = 0\<close> and \<open>entropy01([5,0,0,0]) = 0\<close>.
\<close>

theorem entropy01_support:
  "entropy01 counts =
     (let pos = filter (\<lambda>c. c > 0) counts; s = sum_list pos; n = length pos
      in if n \<le> 1 then 0
         else (- (\<Sum>c\<leftarrow>pos. (c / s) * ln (c / s))) / ln (real n))
   \<and> entropy01 [] = 0 \<and> entropy01 [5, 0, 0, 0] = 0"
proof -
  have "entropy01 [] = 0" "entropy01 [5, 0, 0, 0] = 0"
    by (simp_all add: entropy01_char)
  then show ?thesis
    using entropy01_char[of counts] by simp
qed

theorem entropy01_support_witness:
  "entropy01 [2, 0, 2] = 1"
  using entropy01_support [of "[2, 0, 2]"] by (simp add: ln_half)

section \<open>When role scoring throws\<close>


lemma assertAxes01_cases:
  "assertAxes01 ax label = Inr () \<or> (\<exists>e. assertAxes01 ax label = Inl e)"
  by (cases "assertAxes01 ax label") auto







section \<open>deriveCff always ends in the fallback type\<close>

lemma computeFinalDeterminationCff_no_indicators:
  "computeFinalDeterminationCff (JObj []) opts =
     \<lparr> ft_label = ''T2. Reflective Thinker'', ft_chip_label = ''Reflective Thinker'',
       ft_confidence = 0.6,
       ft_interpretation = ''Reflective Thinker reflects the dominant reasoning pattern inferred from the current indicator configuration.'' \<rparr>"
proof -
  have g: "getActiveScore (JObj []) c b = None" for c b
    by (simp add: getActiveScore_def getProp_def)
  have h: "chooseHumanT m None None None None = (T2, 0.6)" for m
    by (cases m) (simp_all add: chooseHumanT_def)
  have t: "chooseT5T6 None None = None"
    by (simp add: chooseT5T6_def)
  have r: "round2 (clamp01 0.6) = 0.6"
    by (simp add: round2_def clamp01_def js_round_def)
  show ?thesis
    using r by (simp add: computeFinalDeterminationCff_def Let_def g h t)
qed

text \<open>The value of \<open>computeCFF6_v1\<close> has the six indicators as its keys and no others.\<close>

lemma computeCFF6_v1_shape:
  "computeCFF6_v1 raw = Inr v \<Longrightarrow>
   \<exists>a b c d e f. v = JObj [(''AAS'', JNum a), (''CTF'', JNum b), (''RMD'', JNum c),
                           (''RDX'', JNum d), (''EDS'', JNum e), (''IFD'', JNum f)]"
  unfolding computeCFF6_v1_def Let_def
  by (cases "evidence_types_size (opt_get raw ''evidence_types'')") (auto split: if_splits)

lemma json_of_observed_keys:
  "\<exists>a b c d. json_of_observed r = JObj [(''layer'', a), (''selection_rule'', b),
                                        (''all_profiles'', c), (''profiles'', d)]"
  by (simp add: json_of_observed_def)

lemma deriveCff_with_raw:
  assumes "computeCFF6_v1 raw = Inr cff6"
  shows "\<exists>rest. deepMergeAll [cff6, json_of_observed r, json_of_final_type ft]
           = JObj (rest @ [(''cff'', JObj [(''final_type'', JObj
               [(''label'', JStr (ft_label ft)),
                (''chip_label'', JStr (ft_chip_label ft)),
                (''confidence'', JNum (ft_confidence ft)),
                (''interpretation'', JStr (ft_interpretation ft))])])])
           \<and> ''cff'' \<notin> fst ` set rest"
proof -
  from computeCFF6_v1_shape[OF assms] obtain a b c d e f where
    v: "cff6 = JObj [(''AAS'', JNum a), (''CTF'', JNum b), (''RMD'', JNum c),
                     (''RDX'', JNum d), (''EDS'', JNum e), (''IFD'', JNum f)]"
    by blast
  from json_of_observed_keys[of r] obtain a' b' c' d' where
    p: "json_of_observed r = JObj [(''layer'', a'), (''selection_rule'', b'),
                                   (''all_profiles'', c'), (''profiles'', d')]"
    by blast
  show ?thesis
    unfolding v p json_of_final_type_def deepMergeAll_def
    by (simp add: getProp_def)
qed


lemma deriveCff_value:
  assumes "deriveCff input = Inr out"
  shows "opt_get (opt_get out ''cff'') ''final_type'' =
           JObj [(''label'', JStr ''T2. Reflective Thinker''),
                 (''chip_label'', JStr ''Reflective Thinker''),
                 (''confidence'', JNum 0.6),
                 (''interpretation'', JStr ''Reflective Thinker reflects the dominant reasoning pattern inferred from the current indicator configuration.'')]"
proof (cases "truthy (raw_of (analysis_input_of input))")
  case False
  with assms have "out = deepMergeAll
      [JObj [(''cff'', JObj [(''indicators'', JObj [])])],
       JObj [(''cff'', JObj [(''observed_patterns'', JArr [])])],
       json_of_final_type (computeFinalDeterminationCff (JObj [])
          (Some \<lparr> t2_mode = Some Regulation, conservative_lock_ai_hybrid = Some True \<rparr>))]"
    by (simp add: deriveCff_def Let_def coalesce_def getProp_def)
  then show ?thesis
    by (simp add: computeFinalDeterminationCff_no_indicators json_of_final_type_def
        deepMergeAll_def getProp_def)
next
  case True
  define raw where "raw = raw_of (analysis_input_of input)"
  from assms True obtain cff6 where c: "computeCFF6_v1 raw = Inr cff6"
    unfolding deriveCff_def Let_def raw_def
    by (cases "computeCFF6_v1 (raw_of (analysis_input_of input))") simp_all
  from computeCFF6_v1_shape[OF c] have nocff: "opt_get cff6 ''cff'' = JUndef"
    by (auto simp: getProp_def)
  have o: "out = deepMergeAll [cff6, json_of_observed (computeObservedPatternsV2 (coreAxes_of raw)),
      json_of_final_type (computeFinalDeterminationCff (JObj [])
          (Some \<lparr> t2_mode = Some Regulation, conservative_lock_ai_hybrid = Some True \<rparr>))]"
    using assms True c unfolding deriveCff_def Let_def raw_def[symmetric]
    by (simp add: nocff coalesce_def split: if_splits)
  define ft where "ft = computeFinalDeterminationCff (JObj [])
          (Some \<lparr> t2_mode = Some Regulation, conservative_lock_ai_hybrid = Some True \<rparr>)"
  have ftv: "ft_label ft = ''T2. Reflective Thinker''" "ft_chip_label ft = ''Reflective Thinker''"
    "ft_confidence ft = 0.6"
    "ft_interpretation ft = ''Reflective Thinker reflects the dominant reasoning pattern inferred from the current indicator configuration.''"
    unfolding ft_def computeFinalDeterminationCff_no_indicators by simp_all
  from deriveCff_with_raw[OF c, of "computeObservedPatternsV2 (coreAxes_of raw)" ft]
  obtain rest where
    r: "out = JObj (rest @ [(''cff'', JObj [(''final_type'', JObj
               [(''label'', JStr (ft_label ft)),
                (''chip_label'', JStr (ft_chip_label ft)),
                (''confidence'', JNum (ft_confidence ft)),
                (''interpretation'', JStr (ft_interpretation ft))])])])"
    and n: "''cff'' \<notin> fst ` set rest"
    unfolding o ft_def[symmetric] by blast
  have "map_of rest ''cff'' = None"
    using n by (simp add: map_of_eq_None_iff)
  then show ?thesis
    unfolding r ftv by (simp add: getProp_def map_add_def)
qed

lemma deriveCff_returns_iff:
  "(\<exists>v. deriveCff input = Inr v) \<longleftrightarrow>
     (\<not> truthy (raw_of (analysis_input_of input))
      \<or> (modelled_fields (raw_of (analysis_input_of input)) RawFeaturesV1_number_fields
         \<and> (\<exists>n. evidence_types_size (opt_get (raw_of (analysis_input_of input)) ''evidence_types'')
                = Inr n)
         \<and> modelled_fields (raw_of (analysis_input_of input)) CoreAxes_fields))"
proof (cases "truthy (raw_of (analysis_input_of input))")
  case False
  then show ?thesis by (simp add: deriveCff_def Let_def)
next
  case True
  show ?thesis
  proof (cases "evidence_types_size (opt_get (raw_of (analysis_input_of input)) ''evidence_types'')")
    case (Inl e)
    then show ?thesis using True
      by (simp add: deriveCff_def computeCFF6_v1_def Let_def)
  next
    case (Inr n)
    then show ?thesis using True
      by (simp add: deriveCff_def computeCFF6_v1_def Let_def)
  qed
qed

text \<open>
  Claim C2. Whatever the input, with raw features or without, an object that
  \<open>deriveCff\<close> returns has \<open>cff.final_type\<close> with the label
  \<^verbatim>\<open>T2. Reflective Thinker\<close>, the chip label \<^verbatim>\<open>Reflective Thinker\<close> and the
  confidence \<open>0.6\<close>. The value of \<open>computeCFF6_v1\<close> has no key \<^verbatim>\<open>cff\<close>, so the
  indicators handed to \<open>computeFinalDeterminationCff\<close> are always the empty object.
  \<open>deriveCff\<close> returns an object unless raw features are present and
  \<^verbatim>\<open>new Set(raw.evidence_types)\<close> throws (or a field needs a conversion outside the
  model).
\<close>

theorem deriveCff_always_T2:
  "(deriveCff input = Inr out \<longrightarrow>
      opt_get (opt_get (opt_get out ''cff'') ''final_type'') ''label''
        = JStr ''T2. Reflective Thinker''
    \<and> opt_get (opt_get (opt_get out ''cff'') ''final_type'') ''chip_label''
        = JStr ''Reflective Thinker''
    \<and> opt_get (opt_get (opt_get out ''cff'') ''final_type'') ''confidence'' = JNum 0.6)
   \<and> (computeCFF6_v1 raw = Inr cff6 \<longrightarrow> opt_get cff6 ''cff'' = JUndef)
   \<and> ((\<exists>v. deriveCff input = Inr v) \<longleftrightarrow>
        (\<not> truthy (raw_of (analysis_input_of input))
         \<or> (modelled_fields (raw_of (analysis_input_of input)) RawFeaturesV1_number_fields
            \<and> (\<exists>n. evidence_types_size
                     (opt_get (raw_of (analysis_input_of input)) ''evidence_types'') = Inr n)
            \<and> modelled_fields (raw_of (analysis_input_of input)) CoreAxes_fields)))"
proof (intro conjI impI)
  assume a: "deriveCff input = Inr out"
  show "opt_get (opt_get (opt_get out ''cff'') ''final_type'') ''label''
        = JStr ''T2. Reflective Thinker''"
    "opt_get (opt_get (opt_get out ''cff'') ''final_type'') ''chip_label''
        = JStr ''Reflective Thinker''"
    "opt_get (opt_get (opt_get out ''cff'') ''final_type'') ''confidence'' = JNum 0.6"
    unfolding deriveCff_value[OF a] by (simp_all add: getProp_def)
next
  assume "computeCFF6_v1 raw = Inr cff6"
  from computeCFF6_v1_shape[OF this] show "opt_get cff6 ''cff'' = JUndef"
    by (auto simp: getProp_def)
next
  show "(\<exists>v. deriveCff input = Inr v) \<longleftrightarrow>
        (\<not> truthy (raw_of (analysis_input_of input))
         \<or> (modelled_fields (raw_of (analysis_input_of input)) RawFeaturesV1_number_fields
            \<and> (\<exists>n. evidence_types_size
                     (opt_get (raw_of (analysis_input_of input)) ''evidence_types'') = Inr n)
            \<and> modelled_fields (raw_of (analysis_input_of input)) CoreAxes_fields))"
    by (rule deriveCff_returns_iff)
qed

text \<open>Raw features with ten units and four claims, as an example input.\<close>

theorem deriveCff_always_T2_witness:
  "\<exists>out. deriveCff (JObj [(''raw_features'', JObj [(''units'', JNum 10), (''claims'', JNum 4)])])
           = Inr out
     \<and> opt_get (opt_get (opt_get out ''cff'') ''final_type'') ''label''
         = JStr ''T2. Reflective Thinker''
     \<and> opt_get (opt_get (opt_get out ''cff'') ''final_type'') ''confidence'' = JNum 0.6
     \<and> opt_get out ''AAS'' = JNum 0.06"
proof -
  let ?inp = "JObj [(''raw_features'', JObj [(''units'', JNum 10), (''claims'', JNum 4)])]"
  have raw: "raw_of (analysis_input_of ?inp) = JObj [(''units'', JNum 10), (''claims'', JNum 4)]"
    by (simp add: raw_of_def coalesce_def getProp_def)
  have "\<exists>v. deriveCff ?inp = Inr v"
    unfolding deriveCff_returns_iff raw
    by (simp add: modelled_fields_def RawFeaturesV1_number_fields_def CoreAxes_fields_def
        getProp_def)
  then obtain out where o: "deriveCff ?inp = Inr out" by blast
  have c: "computeCFF6_v1 (JObj [(''units'', JNum 10), (''claims'', JNum 4)])
      = Inr (JObj [(''AAS'', JNum 0.06), (''CTF'', JNum 0), (''RMD'', JNum 0.5),
                   (''RDX'', JNum 0), (''EDS'', JNum 0), (''IFD'', JNum 0.5)])"
    by (simp add: computeCFF6_v1_def modelled_fields_def RawFeaturesV1_number_fields_def
        getProp_def Let_def coalesce_def structureWeight_def safeDiv_cff_def clamp01_cff_def)
  have "opt_get out ''AAS'' = JNum 0.06"
    using o unfolding deriveCff_def Let_def raw c
    by (auto simp: modelled_fields_def CoreAxes_fields_def getProp_def deepMergeAll_def
        json_of_observed_def json_of_final_type_def coalesce_def)
  with o deriveCff_always_T2 [of ?inp out] show ?thesis
    by blast
qed

section \<open>The modules and the report on the empty input\<close>

lemma string_of_nat_50: "string_of_nat 50 = ''50''"
  by code_simp

lemma deriveRsl_empty:
  "deriveRsl (JObj []) = Inr (JObj [(''rsl'', JObj
      [(''fri'', JObj [(''score'', JNum 0),
          (''interpretation'', JStr ''Your reasoning structure is still taking shape. Ideas often appear separately, making connections harder to follow.'')]),
       (''charts'', JObj [(''cohort_positioning'', JObj
          [(''current'', JObj [(''x'', JNum 0.5), (''y'', JNum 0)]),
           (''percentile_0to1'', JNum 0.5),
           (''top_percent_label'', JStr ''Top 50%''),
           (''interpretation'', JStr ''Core reasoning steps are emerging, with structure still developing compared to most peers.'')])])])])"
proof -
  have raw: "raw_of (analysis_input_of (JObj [])) = JUndef"
    by (simp add: raw_of_def coalesce_def getProp_def)
  have n: "number_of2 JUndef JUndef = Inr 0"
    by (simp add: number_of2_def coalesce_def)
  have fri: "computeFRI (Fin 0) (Fin 0) (Fin 0) (Fin 0)
      = \<lparr> fri_score = 0, fri_interpretation = friNote 0 \<rparr>"
    by (simp add: computeFRI_def round2_fri_def js_round_def Let_def fmul_def fadd_def fdiv_def
        dbl_zero)
  have "0 \<le> dbl 0.79" by (rule dbl_nonneg) simp
  then have note0: "friNote 0 = ''Your reasoning structure is still taking shape. Ideas often appear separately, making connections harder to follow.''"
    by (simp add: friNote_def)
  have lab: "topPercentLabel (1 / 2) = ''Top 50%''"
    by (simp add: topPercentLabel_def js_round_def Let_def string_of_nat_50)
  have dig: "number_of_digits (digits_of ''Top 50%'') = 50"
    by code_simp
  show ?thesis
    unfolding deriveRsl_def Let_def raw
    by (simp add: getProp_def coalesce_def n bind_err_def fri percentile0to1_def lab dig
        cohortInterpretationFromTopPercent_def note0 object_assign_def json_of_fri_def
        set_prop_def deepMerge_def)
qed

lemma deriveCff_empty:
  "deriveCff (JObj []) = Inr (JObj [(''cff'', JObj
      [(''indicators'', JObj []),
       (''observed_patterns'', JArr []),
       (''final_type'', JObj
          [(''label'', JStr ''T2. Reflective Thinker''),
           (''chip_label'', JStr ''Reflective Thinker''),
           (''confidence'', JNum 0.6),
           (''interpretation'', JStr ''Reflective Thinker reflects the dominant reasoning pattern inferred from the current indicator configuration.'')])])])"
proof -
  have raw: "raw_of (analysis_input_of (JObj [])) = JUndef"
    by (simp add: raw_of_def coalesce_def getProp_def)
  show ?thesis
    unfolding deriveCff_def Let_def raw
    by (simp add: getProp_def coalesce_def computeFinalDeterminationCff_no_indicators
        json_of_final_type_def deepMergeAll_def)
qed

lemma deriveRc_no_raw:
  assumes "raw_of (analysis_input_of input) = JUndef"
  shows "deriveRc input = Inr (JObj [(''rc'', JObj
      [(''observed_structural_signals_library'', buildSignalLibraryV1_S1toS18),
       (''structural_control_signals'', JObj [])])])"
  unfolding deriveRc_def Let_def assms
  by (simp add: getProp_def bind_err_def deepMergeAll_def)

lemma deriveRfs_zero:
  assumes "opt_get (opt_get input ''cff'') ''indicators'' = JObj [] \<or>
           (opt_get (opt_get input ''cff'') ''indicators'' = JUndef
            \<and> opt_get (opt_get (analysis_input_of input) ''cff'') ''indicators'' = JUndef)"
    and "opt_get (analysis_input_of input) ''role_configs'' = JUndef"
  shows "deriveRfs input = Inr (JObj [(''rfs'', JObj
      [(''primary_pattern'', JStr ''Linear Responder''),
       (''representative_phrase'', JStr ''unstructured and linear'')])])"
proof -
  have ind: "coalesce (opt_get (opt_get input ''cff'') ''indicators'')
      (coalesce (opt_get (opt_get (analysis_input_of input) ''cff'') ''indicators'') (JObj []))
      = JObj []"
    using assms(1) by (auto simp: coalesce_def)
  have n: "number_of2 JUndef JUndef = Inr 0"
    by (simp add: number_of2_def coalesce_def)
  have st: "computeRfsFromPayload 0 0 0 0 0 0 = JObj [(''rfs'', JObj
      [(''primary_pattern'', JStr ''Linear Responder''),
       (''representative_phrase'', JStr ''unstructured and linear'')])]"
    by (simp add: computeRfsFromPayload_def computeRfs9Type_def safe01_def clamp01_def
        computeStructureScore_def computeExplorationScore_def classifyStyleId_def Let_def
        DEFAULT_PRIMARY_PATTERN_def PHRASE_MAP_def)
  show ?thesis
    unfolding deriveRfs_def Let_def ind assms(2)
    by (simp add: getProp_def n bind_err_def st)
qed


lemma derive_empty:
  "derive (JObj []) = Inr (JObj
     [(''rsl'', JObj
        [(''fri'', JObj [(''score'', JNum 0),
            (''interpretation'', JStr ''Your reasoning structure is still taking shape. Ideas often appear separately, making connections harder to follow.'')]),
         (''charts'', JObj [(''cohort_positioning'', JObj
            [(''current'', JObj [(''x'', JNum 0.5), (''y'', JNum 0)]),
             (''percentile_0to1'', JNum 0.5),
             (''top_percent_label'', JStr ''Top 50%''),
             (''interpretation'', JStr ''Core reasoning steps are emerging, with structure still developing compared to most peers.'')])])]),
      (''cff'', JObj
        [(''indicators'', JObj []),
         (''observed_patterns'', JArr []),
         (''final_type'', JObj
            [(''label'', JStr ''T2. Reflective Thinker''),
             (''chip_label'', JStr ''Reflective Thinker''),
             (''confidence'', JNum 0.6),
             (''interpretation'', JStr ''Reflective Thinker reflects the dominant reasoning pattern inferred from the current indicator configuration.'')])]),
      (''rc'', JObj
        [(''observed_structural_signals_library'', buildSignalLibraryV1_S1toS18),
         (''structural_control_signals'', JObj [])]),
      (''rfs'', JObj
        [(''primary_pattern'', JStr ''Linear Responder''),
         (''representative_phrase'', JStr ''unstructured and linear'')])])"
proof -
  define b where "b = JObj [(''cff'', JObj
      [(''indicators'', JObj []),
       (''observed_patterns'', JArr []),
       (''final_type'', JObj
          [(''label'', JStr ''T2. Reflective Thinker''),
           (''chip_label'', JStr ''Reflective Thinker''),
           (''confidence'', JNum 0.6),
           (''interpretation'', JStr ''Reflective Thinker reflects the dominant reasoning pattern inferred from the current indicator configuration.'')])])]"
  define a where "a = JObj [(''rsl'', JObj
      [(''fri'', JObj [(''score'', JNum 0),
          (''interpretation'', JStr ''Your reasoning structure is still taking shape. Ideas often appear separately, making connections harder to follow.'')]),
       (''charts'', JObj [(''cohort_positioning'', JObj
          [(''current'', JObj [(''x'', JNum 0.5), (''y'', JNum 0)]),
           (''percentile_0to1'', JNum 0.5),
           (''top_percent_label'', JStr ''Top 50%''),
           (''interpretation'', JStr ''Core reasoning steps are emerging, with structure still developing compared to most peers.'')])])])]"
  have ra: "deriveRsl (JObj []) = Inr a" unfolding a_def by (rule deriveRsl_empty)
  have rb: "deriveCff (JObj []) = Inr b" unfolding b_def by (rule deriveCff_empty)
  have s1: "spread [JObj [], b] = b"
    by (simp add: spread_def b_def)
  have s2: "spread [JObj [], b, a] = JObj (props b @ props a)"
    by (simp add: spread_def b_def a_def)
  have rc: "deriveRc (spread [JObj [], b]) = Inr (JObj [(''rc'', JObj
      [(''observed_structural_signals_library'', buildSignalLibraryV1_S1toS18),
       (''structural_control_signals'', JObj [])])])"
    unfolding s1 by (rule deriveRc_no_raw) (simp add: b_def raw_of_def coalesce_def getProp_def)
  have rd: "deriveRfs (spread [JObj [], b, a]) = Inr (JObj [(''rfs'', JObj
      [(''primary_pattern'', JStr ''Linear Responder''),
       (''representative_phrase'', JStr ''unstructured and linear'')])])"
    unfolding s2 by (rule deriveRfs_zero) (simp_all add: b_def a_def getProp_def)
  have "derive (JObj []) = Inr (deepMergeAll [a, b,
      JObj [(''rc'', JObj
        [(''observed_structural_signals_library'', buildSignalLibraryV1_S1toS18),
         (''structural_control_signals'', JObj [])])],
      JObj [(''rfs'', JObj
        [(''primary_pattern'', JStr ''Linear Responder''),
         (''representative_phrase'', JStr ''unstructured and linear'')])]])"
    by (simp add: derive_def ra rb rc rd bind_err_def)
  then show ?thesis
    by (simp add: a_def b_def deepMergeAll_def getProp_def)
qed

text \<open>
  Claim C4 does not hold of the code. Called with the empty input \<^verbatim>\<open>{}\<close>, each of
  \<open>deriveRc\<close>, \<open>deriveCff\<close>, \<open>deriveRsl\<close> and \<open>deriveRfs\<close> returns without throwing, and
  each result is an object with its one section key. The object of \<open>deriveRsl\<close> does
  not have the shape of its output: \<open>rsl\<close> holds \<open>fri\<close> (score 0) and \<open>charts\<close> (the
  empty-cohort percentile 0.5), and none of \<open>level\<close>, \<open>level_meta\<close> and \<open>rubric\<close>, which
  the function computes from the zero rubric and then loses when
  \<^verbatim>\<open>Object.assign(out, friRes)\<close> replaces \<^verbatim>\<open>out.rsl\<close>. Of the others, \<open>cff\<close> holds no
  indicators, no observed patterns and the fallback type, \<open>rc\<close> holds the signal
  library and empty control signals, and \<open>rfs\<close> holds the style of all-zero
  indicators.
\<close>

theorem modules_on_empty_input:
  "deriveRc (JObj []) = Inr (JObj [(''rc'', JObj
      [(''observed_structural_signals_library'', buildSignalLibraryV1_S1toS18),
       (''structural_control_signals'', JObj [])])])
   \<and> deriveCff (JObj []) = Inr (JObj [(''cff'', JObj
      [(''indicators'', JObj []),
       (''observed_patterns'', JArr []),
       (''final_type'', JObj
          [(''label'', JStr ''T2. Reflective Thinker''),
           (''chip_label'', JStr ''Reflective Thinker''),
           (''confidence'', JNum 0.6),
           (''interpretation'', JStr ''Reflective Thinker reflects the dominant reasoning pattern inferred from the current indicator configuration.'')])])])
   \<and> deriveRfs (JObj []) = Inr (JObj [(''rfs'', JObj
      [(''primary_pattern'', JStr ''Linear Responder''),
       (''representative_phrase'', JStr ''unstructured and linear'')])])
   \<and> (\<exists>out. deriveRsl (JObj []) = Inr out
        \<and> map fst (props out) = [''rsl'']
        \<and> map fst (props (opt_get out ''rsl'')) = [''fri'', ''charts'']
        \<and> opt_get (opt_get out ''rsl'') ''level'' = JUndef
        \<and> opt_get (opt_get out ''rsl'') ''level_meta'' = JUndef
        \<and> opt_get (opt_get out ''rsl'') ''rubric'' = JUndef
        \<and> opt_get (opt_get (opt_get out ''rsl'') ''fri'') ''score'' = JNum 0
        \<and> opt_get (opt_get (opt_get (opt_get out ''rsl'') ''charts'') ''cohort_positioning'')
              ''percentile_0to1'' = JNum 0.5)"
proof -
  have "deriveRc (JObj []) = Inr (JObj [(''rc'', JObj
      [(''observed_structural_signals_library'', buildSignalLibraryV1_S1toS18),
       (''structural_control_signals'', JObj [])])])"
    by (rule deriveRc_no_raw) (simp add: raw_of_def coalesce_def getProp_def)
  moreover have "deriveRfs (JObj []) = Inr (JObj [(''rfs'', JObj
      [(''primary_pattern'', JStr ''Linear Responder''),
       (''representative_phrase'', JStr ''unstructured and linear'')])])"
    by (rule deriveRfs_zero) (simp_all add: getProp_def)
  moreover have "\<exists>out. deriveRsl (JObj []) = Inr out
        \<and> map fst (props out) = [''rsl'']
        \<and> map fst (props (opt_get out ''rsl'')) = [''fri'', ''charts'']
        \<and> opt_get (opt_get out ''rsl'') ''level'' = JUndef
        \<and> opt_get (opt_get out ''rsl'') ''level_meta'' = JUndef
        \<and> opt_get (opt_get out ''rsl'') ''rubric'' = JUndef
        \<and> opt_get (opt_get (opt_get out ''rsl'') ''fri'') ''score'' = JNum 0
        \<and> opt_get (opt_get (opt_get (opt_get out ''rsl'') ''charts'') ''cohort_positioning'')
              ''percentile_0to1'' = JNum 0.5"
    unfolding deriveRsl_empty by (simp add: getProp_def)
  ultimately show ?thesis
    using deriveCff_empty by simp
qed

section \<open>The report on an input with raw features\<close>

lemma computeRslRubric4FromRaw_keys:
  "opt_get (computeRslRubric4FromRaw raw) ''rsl'' = JUndef"
  "opt_get (computeRslRubric4FromRaw raw) ''rslVector'' = JUndef"
  by (simp_all add: computeRslRubric4FromRaw_def Let_def getProp_def)

text \<open>Whatever the input, the \<open>rsl\<close> object of \<open>deriveRsl\<close> holds \<open>fri\<close> and \<open>charts\<close> only.\<close>

lemma deriveRsl_shape:
  assumes "deriveRsl input = Inr a"
  shows "\<exists>F C. a = JObj [(''rsl'', JObj [(''fri'', F), (''charts'', C)])]"
proof -
  have r: "\<not> (truthy rubric4 \<and> truthy (opt_get (opt_get rubric4 ''rsl'') ''rubric4''))"
    "\<not> (truthy rubric4 \<and> truthy (opt_get rubric4 ''rslVector''))"
    if "rubric4 = (if truthy raw then computeRslRubric4FromRaw raw else JNull)" for rubric4 raw
    using that by (auto simp: computeRslRubric4FromRaw_keys)
  show ?thesis
    using assms
    unfolding deriveRsl_def Let_def bind_err_def
    by (auto simp: r[OF refl] object_assign_def set_prop_def json_of_fri_def deepMerge_def
        getProp_def split: sum.splits)
qed

lemma computeRCFromRaw_shape:
  "\<exists>a b c d e. computeRCFromRaw raw = JObj [(''rc'', JObj [(''summary'', a),
       (''control_pattern'', b), (''reliability_band'', c), (''band_rationale'', d),
       (''pattern_interpretation'', e)])]"
  by (simp add: computeRCFromRaw_def Let_def)

lemma computeAgencyIndicators_shape:
  assumes "computeAgencyIndicators raw = Inr v"
  shows "\<exists>a b c d. v = JObj [(''structural_variance'', JNum a), (''human_rhythm_index'', JNum b),
      (''transition_flow'', JNum c), (''revision_depth'', JNum d)]"
  using assms unfolding computeAgencyIndicators_def Let_def
  by (auto split: if_splits)

text \<open>With raw features the four control signals are top-level keys of what \<open>deriveRc\<close> returns.\<close>

lemma deriveRc_with_raw:
  assumes "truthy (raw_of (analysis_input_of input))"
    and "computeAgencyIndicators (raw_of (analysis_input_of input)) = Inr v"
  shows "\<exists>Z a b c d. deriveRc input = Inr (JObj [(''rc'', Z), (''structural_variance'', JNum a),
      (''human_rhythm_index'', JNum b), (''transition_flow'', JNum c), (''revision_depth'', JNum d)])"
proof -
  define raw where "raw = raw_of (analysis_input_of input)"
  from computeRCFromRaw_shape[of raw] obtain s1 s2 s3 s4 s5 where
    rs: "computeRCFromRaw raw = JObj [(''rc'', JObj [(''summary'', s1),
       (''control_pattern'', s2), (''reliability_band'', s3), (''band_rationale'', s4),
       (''pattern_interpretation'', s5)])]"
    by blast
  from computeAgencyIndicators_shape[OF assms(2)] obtain a b c' d where
    vv: "v = JObj [(''structural_variance'', JNum a), (''human_rhythm_index'', JNum b),
      (''transition_flow'', JNum c'), (''revision_depth'', JNum d)]"
    by blast
  have "deriveRc input = Inr (JObj [(''rc'', JObj [(''summary'', s1),
           (''control_pattern'', s2), (''reliability_band'', s3), (''band_rationale'', s4),
           (''pattern_interpretation'', s5),
           (''observed_structural_signals_library'', buildSignalLibraryV1_S1toS18)]),
        (''structural_variance'', JNum a), (''human_rhythm_index'', JNum b),
        (''transition_flow'', JNum c'), (''revision_depth'', JNum d)])"
    using assms
    unfolding deriveRc_def Let_def raw_def[symmetric] rs vv bind_err_def
    by (simp add: getProp_def deepMergeAll_def)
  then show ?thesis by blast
qed

lemma raw_of_example_input: "raw_of (analysis_input_of example_input) = example_raw_features"
  by (simp add: example_input_def raw_of_def coalesce_def getProp_def example_raw_features_def)

lemma deriveCff_example:
  "\<exists>a1 a2 a3 a4 a5 a6 l sr ap pf ft.
     deriveCff example_input =
       Inr (JObj [(''AAS'', JNum a1), (''CTF'', JNum a2), (''RMD'', JNum a3), (''RDX'', JNum a4),
                  (''EDS'', JNum a5), (''IFD'', JNum a6), (''layer'', l), (''selection_rule'', sr),
                  (''all_profiles'', ap), (''profiles'', pf),
                  (''cff'', JObj [(''final_type'', ft)])])"
proof -
  have t: "truthy example_raw_features" by (simp add: example_raw_features_def)
  have "\<exists>v. computeCFF6_v1 example_raw_features = Inr v"
    by (simp add: computeCFF6_v1_def modelled_fields_def RawFeaturesV1_number_fields_def
        getProp_def Let_def example_raw_features_def)
  then obtain v where v: "computeCFF6_v1 example_raw_features = Inr v" by blast
  from computeCFF6_v1_shape[OF v] obtain a b c d e g where
    c6: "v = JObj [(''AAS'', JNum a), (''CTF'', JNum b), (''RMD'', JNum c),
                   (''RDX'', JNum d), (''EDS'', JNum e), (''IFD'', JNum g)]"
    by blast
  have m: "modelled_fields example_raw_features CoreAxes_fields"
    by (simp add: modelled_fields_def CoreAxes_fields_def getProp_def example_raw_features_def)
  from json_of_observed_keys[of "computeObservedPatternsV2 (coreAxes_of example_raw_features)"]
  obtain l sr ap pf where
    p: "json_of_observed (computeObservedPatternsV2 (coreAxes_of example_raw_features)) =
          JObj [(''layer'', l), (''selection_rule'', sr), (''all_profiles'', ap), (''profiles'', pf)]"
    by blast
  show ?thesis
    unfolding deriveCff_def Let_def raw_of_example_input v c6
    by (simp add: t m p deepMergeAll_def json_of_final_type_def getProp_def coalesce_def)
qed

lemma deriveRsl_example:
  "\<exists>F C. deriveRsl example_input = Inr (JObj [(''rsl'', JObj [(''fri'', F), (''charts'', C)])])"
proof -
  have n: "number_of2 JUndef JUndef = Inr 0"
    by (simp add: number_of2_def coalesce_def)
  have "\<exists>a. deriveRsl example_input = Inr a"
    unfolding deriveRsl_def Let_def raw_of_example_input
    by (simp add: example_input_def getProp_def coalesce_def n bind_err_def
        example_raw_features_def)
  then obtain a where a: "deriveRsl example_input = Inr a" by blast
  from deriveRsl_shape[OF a] a show ?thesis by auto
qed

lemma computeAgencyIndicators_example: "\<exists>v. computeAgencyIndicators example_raw_features = Inr v"
  by (simp add: computeAgencyIndicators_def agency_modelled_def example_raw_features_def
      getProp_def or_empty_def per_unit_keys_def Let_def)

text \<open>
  Claim C1 does not hold of the code. On the empty input the report has the four keys
  \<open>rsl\<close>, \<open>cff\<close>, \<open>rc\<close> and \<open>rfs\<close>, but its \<open>rsl\<close> section holds \<open>fri\<close> and \<open>charts\<close>
  only: \<open>level\<close>, \<open>level_meta\<close> and \<open>rubric\<close>, which \<open>deriveRsl\<close> has put into its
  result, are lost when \<^verbatim>\<open>Object.assign(out, friRes)\<close> replaces \<^verbatim>\<open>out.rsl\<close>. On the
  input with raw features \<open>derive\<close> returns a report of eighteen top-level keys: the
  six indicators and the four keys of the observed patterns from \<open>deriveCff\<close>, and the
  four control signals from \<open>deriveRc\<close>, stand beside \<open>rsl\<close>, \<open>cff\<close>, \<open>rc\<close> and \<open>rfs\<close>;
  \<open>cff\<close> holds no indicators, and \<open>rsl\<close> holds \<open>fri\<close> and \<open>charts\<close> only.
\<close>

theorem derive_report_defects:
  "(\<exists>out. derive (JObj []) = Inr out
      \<and> map fst (props out) = [''rsl'', ''cff'', ''rc'', ''rfs'']
      \<and> map fst (props (opt_get out ''rsl'')) = [''fri'', ''charts'']
      \<and> opt_get (opt_get out ''rsl'') ''level'' = JUndef
      \<and> opt_get (opt_get out ''rsl'') ''rubric'' = JUndef)
   \<and> (\<exists>out. derive example_input = Inr out
      \<and> map fst (props out) =
           [''rsl'', ''AAS'', ''CTF'', ''RMD'', ''RDX'', ''EDS'', ''IFD'', ''layer'',
            ''selection_rule'', ''all_profiles'', ''profiles'', ''cff'', ''rc'',
            ''structural_variance'', ''human_rhythm_index'', ''transition_flow'',
            ''revision_depth'', ''rfs'']
      \<and> map fst (props (opt_get out ''rsl'')) = [''fri'', ''charts'']
      \<and> opt_get (opt_get out ''cff'') ''indicators'' = JUndef)"
proof (intro conjI)
  show "\<exists>out. derive (JObj []) = Inr out
      \<and> map fst (props out) = [''rsl'', ''cff'', ''rc'', ''rfs'']
      \<and> map fst (props (opt_get out ''rsl'')) = [''fri'', ''charts'']
      \<and> opt_get (opt_get out ''rsl'') ''level'' = JUndef
      \<and> opt_get (opt_get out ''rsl'') ''rubric'' = JUndef"
    unfolding derive_empty by (simp add: getProp_def)
next
  from deriveRsl_example obtain F C where
    a: "deriveRsl example_input = Inr (JObj [(''rsl'', JObj [(''fri'', F), (''charts'', C)])])"
    by blast
  from deriveCff_example obtain a1 a2 a3 a4 a5 a6 l sr ap pf ft where
    b: "deriveCff example_input =
       Inr (JObj [(''AAS'', JNum a1), (''CTF'', JNum a2), (''RMD'', JNum a3), (''RDX'', JNum a4),
                  (''EDS'', JNum a5), (''IFD'', JNum a6), (''layer'', l), (''selection_rule'', sr),
                  (''all_profiles'', ap), (''profiles'', pf),
                  (''cff'', JObj [(''final_type'', ft)])])"
    by blast
  define av where "av = JObj [(''rsl'', JObj [(''fri'', F), (''charts'', C)])]"
  define bv where "bv = JObj [(''AAS'', JNum a1), (''CTF'', JNum a2), (''RMD'', JNum a3),
                  (''RDX'', JNum a4), (''EDS'', JNum a5), (''IFD'', JNum a6), (''layer'', l),
                  (''selection_rule'', sr), (''all_profiles'', ap), (''profiles'', pf),
                  (''cff'', JObj [(''final_type'', ft)])]"
  have s1: "spread [example_input, bv] = JObj ((''raw_features'', example_raw_features) # props bv)"
    by (simp add: spread_def bv_def example_input_def)
  have s2: "spread [example_input, bv, av] =
      JObj ((''raw_features'', example_raw_features) # props bv @ props av)"
    by (simp add: spread_def bv_def av_def example_input_def)
  have r1: "raw_of (analysis_input_of (spread [example_input, bv])) = example_raw_features"
    unfolding s1
    by (simp add: bv_def raw_of_def coalesce_def getProp_def example_raw_features_def)
  from computeAgencyIndicators_example obtain v where
    v: "computeAgencyIndicators example_raw_features = Inr v"
    by blast
  have "\<exists>Z a b c d. deriveRc (spread [example_input, bv]) = Inr (JObj [(''rc'', Z),
      (''structural_variance'', JNum a), (''human_rhythm_index'', JNum b),
      (''transition_flow'', JNum c), (''revision_depth'', JNum d)])"
    by (rule deriveRc_with_raw[where v = v])
       (simp_all add: r1 v, simp add: example_raw_features_def)
  then obtain Z c1 c2 c3 c4 where
    c: "deriveRc (spread [example_input, bv]) = Inr (JObj [(''rc'', Z),
      (''structural_variance'', JNum c1), (''human_rhythm_index'', JNum c2),
      (''transition_flow'', JNum c3), (''revision_depth'', JNum c4)])"
    by blast
  have d: "deriveRfs (spread [example_input, bv, av]) = Inr (JObj [(''rfs'', JObj
      [(''primary_pattern'', JStr ''Linear Responder''),
       (''representative_phrase'', JStr ''unstructured and linear'')])])"
    unfolding s2 by (rule deriveRfs_zero) (simp_all add: bv_def av_def getProp_def)
  have "derive example_input = Inr (deepMergeAll [av, bv,
      JObj [(''rc'', Z),
        (''structural_variance'', JNum c1), (''human_rhythm_index'', JNum c2),
        (''transition_flow'', JNum c3), (''revision_depth'', JNum c4)],
      JObj [(''rfs'', JObj
        [(''primary_pattern'', JStr ''Linear Responder''),
         (''representative_phrase'', JStr ''unstructured and linear'')])]])"
    using a b c d unfolding bv_def[symmetric] av_def[symmetric]
    by (simp add: derive_def bind_err_def)
  then show "\<exists>out. derive example_input = Inr out
      \<and> map fst (props out) =
           [''rsl'', ''AAS'', ''CTF'', ''RMD'', ''RDX'', ''EDS'', ''IFD'', ''layer'',
            ''selection_rule'', ''all_profiles'', ''profiles'', ''cff'', ''rc'',
            ''structural_variance'', ''human_rhythm_index'', ''transition_flow'',
            ''revision_depth'', ''rfs'']
      \<and> map fst (props (opt_get out ''rsl'')) = [''fri'', ''charts'']
      \<and> opt_get (opt_get out ''cff'') ''indicators'' = JUndef"
    by (simp add: av_def bv_def deepMergeAll_def getProp_def)
qed

end
